(* ===== verification/Radius_Prelude.thy ===== *)
theory Radius_Prelude
  imports Main "HOL-Library.List_Lexorder" "HOL-Library.Char_ord"
begin

text \<open>
  Shared vocabulary of the FreeRADIUS API development: the JavaScript conventions the
  sources rely on (truthiness of optional strings, \<open>String.prototype.split\<close>, array
  indexing that yields \<open>undefined\<close>), the SQL string comparison under a collation, and
  generic list lemmas used by the component theories.  The collection \<open>radius_simps\<close>
  gathers the unfolding rules the component proofs share.
\<close>

named_theorems radius_simps "unfolding rules shared by the component theories"

section \<open>SQL string comparison\<close>

text \<open>
  A MySQL string comparison \<open>a = b\<close> is decided by the column's collation (the
  default ones ignore case).  A collation is modelled by its key function: two strings
  are equal under it iff their keys are.  The binary collation is the identity.
\<close>

type_synonym collation = "string \<Rightarrow> string"

definition sql_eq :: "collation \<Rightarrow> string \<Rightarrow> string \<Rightarrow> bool" where
  "sql_eq co a b \<longleftrightarrow> co a = co b"

text \<open>
  \<open>s LIKE p\<close>: \<open>%\<close> matches any run of characters, \<open>_\<close> exactly one, a backslash makes
  the next pattern character literal (a trailing backslash is itself literal); every
  other pattern character matches one character equal to it under the collation.
\<close>

fun sql_like :: "collation \<Rightarrow> string \<Rightarrow> string \<Rightarrow> bool" where
  "sql_like co [] s \<longleftrightarrow> s = []"
| "sql_like co (c # p) s \<longleftrightarrow>
     (if c = CHR ''%'' then sql_like co p s \<or> (case s of [] \<Rightarrow> False | _ # s' \<Rightarrow> sql_like co (c # p) s')
      else (case s of [] \<Rightarrow> False
            | x # s' \<Rightarrow>
                if c = CHR ''_'' then sql_like co p s'
                else if c = CHR 0x5C \<and> p \<noteq> [] then sql_eq co [hd p] [x] \<and> sql_like co (tl p) s'
                else sql_eq co [c] [x] \<and> sql_like co p s'))"

text \<open>\<open>`%${searchTerm}%`\<close>: the term is interpolated as it is, wildcards included.\<close>

definition search_pattern :: "string \<Rightarrow> string" where
  "search_pattern t = CHR ''%'' # t @ ''%''"

text \<open>A search term without wildcard or escape characters.\<close>

definition like_literal :: "char list \<Rightarrow> bool" where
  "like_literal t \<longleftrightarrow> (\<forall>c\<in>set t. c \<noteq> CHR ''%'' \<and> c \<noteq> CHR ''_'' \<and> c \<noteq> CHR 0x5C)"

text \<open>\<open>SELECT DISTINCT\<close>: the first of the rows with equal keys is kept.\<close>

primrec remdups_key :: "('a \<Rightarrow> 'b) \<Rightarrow> 'a list \<Rightarrow> 'a list" where
  "remdups_key f [] = []"
| "remdups_key f (x # xs) = x # filter (\<lambda>y. f y \<noteq> f x) (remdups_key f xs)"

section \<open>HTTP responses\<close>

text \<open>
  Every handler answers with a status code and the JSON envelope
  \<open>{success, message, data?}\<close>; \<open>'d\<close> is the type of the handler's \<open>data\<close>.
\<close>

record 'd response =
  r_status :: nat
  r_success :: bool
  r_message :: string
  r_data :: "'d option"

definition deny :: "nat \<Rightarrow> string \<Rightarrow> 'd response" where
  "deny st m = \<lparr>r_status = st, r_success = False, r_message = m, r_data = None\<rparr>"

definition reply :: "nat \<Rightarrow> string \<Rightarrow> 'd \<Rightarrow> 'd response" where
  "reply st m d = \<lparr>r_status = st, r_success = True, r_message = m, r_data = Some d\<rparr>"

text \<open>A success without \<open>data\<close> (\<open>{success: true, message}\<close>).\<close>

definition ack :: "nat \<Rightarrow> string \<Rightarrow> 'd response" where
  "ack st m = \<lparr>r_status = st, r_success = True, r_message = m, r_data = None\<rparr>"

text \<open>The \<open>catch\<close> branch of every handler.\<close>

definition internal_error :: "'d response" where
  "internal_error = deny 500 ''Internal server error''"

section \<open>JavaScript values\<close>

text \<open>
  A JavaScript string that may be \<open>undefined\<close> (a missing request field or header) is a
  \<open>string option\<close>; \<open>None\<close> is \<open>undefined\<close>.  JavaScript truthiness of such a value:
  \<open>undefined\<close> and the empty string are falsy, every other string is truthy.
\<close>

type_synonym js_str = "string option"

definition js_truthy :: "js_str \<Rightarrow> bool" where
  "js_truthy v = (case v of None \<Rightarrow> False | Some s \<Rightarrow> s \<noteq> [])"

text \<open>\<open>a || b\<close> on optional strings, as used for environment defaults.\<close>

definition js_or :: "js_str \<Rightarrow> string \<Rightarrow> string" where
  "js_or v d = (if js_truthy v then the v else d)"

text \<open>A destructuring default \<open>{x = d} = obj\<close>: it applies when the field is \<open>undefined\<close> only.\<close>

definition js_default :: "'a \<Rightarrow> 'a option \<Rightarrow> 'a" where
  "js_default d v = (case v of None \<Rightarrow> d | Some x \<Rightarrow> x)"

text \<open>Array indexing: \<open>xs[i]\<close> is \<open>undefined\<close> out of range.\<close>

definition js_index :: "'a list \<Rightarrow> nat \<Rightarrow> 'a option" where
  "js_index xs i = (if i < length xs then Some (xs ! i) else None)"

text \<open>
  \<open>s.split(c)\<close> with a one-character separator: the maximal separator-free pieces,
  empty pieces included (\<open>''''.split(' ')\<close> is \<open>['']\<close>, \<open>'a  b'.split(' ')\<close> is
  \<open>['a', '', 'b']\<close>).
\<close>

fun js_split :: "char \<Rightarrow> string \<Rightarrow> string list" where
  "js_split c [] = [[]]"
| "js_split c (x # xs) =
     (let r = js_split c xs in if x = c then [] # r else (x # hd r) # tl r)"

text \<open>\<open>ws.join(c)\<close>, the inverse of \<open>split\<close>.\<close>

fun js_join :: "char \<Rightarrow> string list \<Rightarrow> string" where
  "js_join c [] = []"
| "js_join c [w] = w"
| "js_join c (w # ws) = w @ c # js_join c ws"

subsection \<open>Responses\<close>

lemma response_simps [simp]:
  "r_status (deny st m) = st" "r_success (deny st m) = False" "r_message (deny st m) = m"
  "r_data (deny st m) = None"
  "r_status (reply st m d) = st" "r_success (reply st m d) = True" "r_data (reply st m d) = Some d"
  "r_status internal_error = 500" "r_data internal_error = None"
  "r_status (ack st m) = st" "r_success (ack st m) = True" "r_data (ack st m) = None"
  by (simp_all add: deny_def reply_def internal_error_def ack_def)

subsection \<open>JavaScript lemmas\<close>

lemma js_truthy_simps [simp]:
  "js_truthy None = False"
  "js_truthy (Some s) = (s \<noteq> [])"
  by (simp_all add: js_truthy_def)

lemma js_or_simps [simp]:
  "js_or None d = d"
  "js_or (Some s) d = (if s = [] then d else s)"
  by (simp_all add: js_or_def)

lemma js_default_simps [simp]:
  "js_default d None = d" "js_default d (Some x) = x"
  by (simp_all add: js_default_def)

lemma js_index_simps [simp]:
  "js_index [] i = None"
  "js_index (x # xs) 0 = Some x"
  "js_index (x # xs) (Suc i) = js_index xs i"
  by (simp_all add: js_index_def)

lemma js_split_nonempty [simp]: "js_split c s \<noteq> []"
  by (induction s) (simp_all add: Let_def)

lemma js_split_join: "js_join c (js_split c s) = s"
proof (induction s)
  case Nil
  then show ?case by simp
next
  case (Cons x xs)
  obtain w ws where r: "js_split c xs = w # ws"
    using js_split_nonempty by (metis list.exhaust)
  show ?case
  proof (cases "x = c")
    case True
    with Cons.IH r show ?thesis by simp
  next
    case False
    with Cons.IH r show ?thesis by (cases ws) simp_all
  qed
qed

lemma js_split_pieces: "w \<in> set (js_split c s) \<Longrightarrow> c \<notin> set w"
proof (induction s arbitrary: w)
  case Nil
  then show ?case by simp
next
  case (Cons x xs)
  obtain v vs where r: "js_split c xs = v # vs"
    using js_split_nonempty by (metis list.exhaust)
  from Cons.prems r Cons.IH show ?case
    by (auto simp: Let_def split: if_splits)
qed

lemma js_split_no_sep: "c \<notin> set s \<Longrightarrow> js_split c s = [s]"
  by (induction s) (auto simp: Let_def)

lemma js_split_append_sep:
  "c \<notin> set a \<Longrightarrow> js_split c (a @ c # b) = a # js_split c b"
  by (induction a) (auto simp: Let_def)

subsection \<open>Collation lemmas\<close>

lemma sql_eq_refl [simp]: "sql_eq co a a"
  by (simp add: sql_eq_def)

lemma sql_eq_sym: "sql_eq co a b = sql_eq co b a"
  by (auto simp: sql_eq_def)

lemma sql_eq_trans: "sql_eq co a b \<Longrightarrow> sql_eq co b c \<Longrightarrow> sql_eq co a c"
  by (simp add: sql_eq_def)

lemma sql_eq_binary [simp]: "sql_eq id a b \<longleftrightarrow> a = b"
  by (simp add: sql_eq_def)

subsection \<open>LIKE patterns\<close>

declare sql_like.simps(2) [simp del]

lemma sql_like_percent_simps [simp]:
  "sql_like co (CHR ''%'' # p) [] \<longleftrightarrow> sql_like co p []"
  "sql_like co (CHR ''%'' # p) (x # s) \<longleftrightarrow> sql_like co p (x # s) \<or> sql_like co (CHR ''%'' # p) s"
  by (simp_all add: sql_like.simps(2))

lemma sql_like_underscore_simps [simp]:
  "\<not> sql_like co (CHR ''_'' # p) []"
  "sql_like co (CHR ''_'' # p) (x # s) \<longleftrightarrow> sql_like co p s"
  by (simp_all add: sql_like.simps(2))

lemma sql_like_char_simps [simp]:
  "c \<noteq> CHR ''%'' \<Longrightarrow> \<not> sql_like co (c # p) []"
  "c \<noteq> CHR ''%'' \<Longrightarrow> c \<noteq> CHR ''_'' \<Longrightarrow> c \<noteq> CHR 0x5C \<Longrightarrow>
   sql_like co (c # p) (x # s) \<longleftrightarrow> sql_eq co [c] [x] \<and> sql_like co p s"
  by (simp_all add: sql_like.simps(2))

lemma sql_like_literal:
  "like_literal t \<Longrightarrow>
   sql_like co (t @ p) s \<longleftrightarrow> (\<exists>t' s'. s = t' @ s' \<and> list_all2 (\<lambda>a b. sql_eq co [a] [b]) t t' \<and> sql_like co p s')"
proof (induction t arbitrary: s)
  case Nil
  then show ?case by simp
next
  case (Cons c t)
  then have c: "c \<noteq> CHR ''%''" "c \<noteq> CHR ''_''" "c \<noteq> CHR 0x5C" and lt: "like_literal t"
    by (simp_all add: like_literal_def)
  show ?case
  proof (cases s)
    case Nil
    with c show ?thesis by simp
  next
    case (Cons x s')
    have "sql_like co ((c # t) @ p) (x # s') \<longleftrightarrow>
          sql_eq co [c] [x] \<and> (\<exists>t' s''. s' = t' @ s'' \<and> list_all2 (\<lambda>a b. sql_eq co [a] [b]) t t' \<and> sql_like co p s'')"
      using c Cons.IH [OF lt, of s'] by simp
    also have "\<dots> \<longleftrightarrow> (\<exists>t' s''. x # s' = t' @ s'' \<and> list_all2 (\<lambda>a b. sql_eq co [a] [b]) (c # t) t' \<and> sql_like co p s'')"
    proof
      assume "sql_eq co [c] [x] \<and> (\<exists>t' s''. s' = t' @ s'' \<and> list_all2 (\<lambda>a b. sql_eq co [a] [b]) t t' \<and> sql_like co p s'')"
      then obtain t' s'' where "sql_eq co [c] [x]" "s' = t' @ s''" "list_all2 (\<lambda>a b. sql_eq co [a] [b]) t t'"
          "sql_like co p s''" by blast
      then show "\<exists>t' s''. x # s' = t' @ s'' \<and> list_all2 (\<lambda>a b. sql_eq co [a] [b]) (c # t) t' \<and> sql_like co p s''"
        by (intro exI [of _ "x # t'"] exI [of _ s'']) simp
    next
      assume "\<exists>t' s''. x # s' = t' @ s'' \<and> list_all2 (\<lambda>a b. sql_eq co [a] [b]) (c # t) t' \<and> sql_like co p s''"
      then obtain z zs s'' where "x # s' = z # zs @ s''" "sql_eq co [c] [z]"
          "list_all2 (\<lambda>a b. sql_eq co [a] [b]) t zs" "sql_like co p s''"
        by (auto simp: list_all2_Cons1)
      then show "sql_eq co [c] [x] \<and> (\<exists>t' s''. s' = t' @ s'' \<and> list_all2 (\<lambda>a b. sql_eq co [a] [b]) t t' \<and> sql_like co p s'')"
        by auto
    qed
    finally show ?thesis using Cons by simp
  qed
qed

lemma sql_like_percent:
  "sql_like co (CHR ''%'' # p) s \<longleftrightarrow> (\<exists>a b. s = a @ b \<and> sql_like co p b)"
proof (induction s)
  case Nil
  then show ?case by simp
next
  case (Cons x s)
  then show ?case by (auto simp: Cons_eq_append_conv)
qed

lemma sql_like_any [simp]: "sql_like co ''%'' s"
  using sql_like_percent [of co "[]" s] by auto

lemma sql_like_contains:
  "like_literal t \<Longrightarrow>
   sql_like co (CHR ''%'' # t @ ''%'') s \<longleftrightarrow>
     (\<exists>a t' b. s = a @ t' @ b \<and> list_all2 (\<lambda>x y. sql_eq co [x] [y]) t t')"
  by (auto simp: sql_like_percent sql_like_literal)

lemma sql_like_contains_binary:
  "like_literal t \<Longrightarrow> sql_like id (CHR ''%'' # t @ ''%'') s \<longleftrightarrow> (\<exists>a b. s = a @ t @ b)"
proof -
  have "(\<lambda>x y. sql_eq id [x] [y]) = (=)" by (simp add: fun_eq_iff)
  then show "like_literal t \<Longrightarrow> ?thesis" by (simp add: sql_like_contains list.rel_eq)
qed

section \<open>Lists\<close>

lemma filter_append_single:
  "filter P (xs @ [x]) = (if P x then filter P xs @ [x] else filter P xs)"
  by simp

lemma length_filter_append_single [simp]:
  "length (filter P (xs @ [x])) = length (filter P xs) + (if P x then 1 else 0)"
  by simp

lemma distinct_map_filter_sub:
  "distinct (map f xs) \<Longrightarrow> distinct (map f (filter P xs))"
  by (simp add: distinct_map_filter)

lemma set_remdups_key: "set (remdups_key k xs) \<subseteq> set xs"
  by (induction xs) auto

lemma filter_remdups_key:
  assumes "\<forall>x\<in>set xs. \<forall>y\<in>set xs. k x = k y \<longrightarrow> P x = P y"
  shows "filter P (remdups_key k xs) = remdups_key k (filter P xs)"
  using assms
proof (induction xs)
  case Nil
  then show ?case by simp
next
  case (Cons x xs)
  have "\<forall>a\<in>set xs. \<forall>b\<in>set xs. k a = k b \<longrightarrow> P a = P b"
    using Cons.prems by (meson list.set_intros(2))
  then have IH: "filter P (remdups_key k xs) = remdups_key k (filter P xs)" by (rule Cons.IH)
  have comm: "filter P (filter (\<lambda>y. k y \<noteq> k x) ys) = filter (\<lambda>y. k y \<noteq> k x) (filter P ys)" for ys
    by (induction ys) simp_all
  show ?case
  proof (cases "P x")
    case True
    then have "filter P (remdups_key k (x # xs)) = x # filter (\<lambda>y. k y \<noteq> k x) (filter P (remdups_key k xs))"
      by (simp add: conj_commute)
    with True IH show ?thesis by simp
  next
    case False
    have drop: "filter (\<lambda>y. k y \<noteq> k x) (filter P (remdups_key k xs)) = filter P (remdups_key k xs)"
    proof (intro filter_True ballI)
      fix y assume "y \<in> set (filter P (remdups_key k xs))"
      then have "y \<in> set xs" "P y" using set_remdups_key [of k xs] by auto
      moreover have "x \<in> set (x # xs)" by simp
      ultimately show "k y \<noteq> k x" using Cons.prems False by (meson list.set_intros(2))
    qed
    have "filter P (remdups_key k (x # xs)) = filter P (filter (\<lambda>y. k y \<noteq> k x) (remdups_key k xs))"
      using False by (simp del: filter_filter)
    also have "\<dots> = filter P (remdups_key k xs)" by (simp only: comm drop)
    also have "\<dots> = remdups_key k (filter P (x # xs))" using False IH by simp
    finally show ?thesis .
  qed
qed

end
