(* ===== verification/Radius_Store.thy ===== *)
theory Radius_Store
  imports Radius_Prelude
begin

text \<open>
  The SQL access layer.  The repository's \<open>src/config/database.js\<close> is not part of the
  sources; it is modelled from the spec and from how the models call it:
  \<open>db.query(sql, params)\<close> runs one auto-committed statement on a pooled connection,
  \<open>db.transaction(cb)\<close> takes one connection, begins a transaction, runs the callback
  with it (\<open>connection.execute\<close>), commits on success and rolls back on any error.

  The store holds the committed tables (\<open>nas\<close>, \<open>radcheck\<close>, \<open>radreply\<close>, each a
  list of rows in insertion order with an auto-increment counter) and the working copy
  of the open transaction.  A statement issued through the pool reads and writes the
  committed tables; a statement issued on the transaction's connection works on the
  working copy, which becomes the committed state at \<open>COMMIT\<close>.  Any statement may
  fail (a lost connection, a timeout): the fault budget says how many statements still
  succeed (\<open>None\<close>: the store never fails).  Strings are compared under the store's
  collation.
\<close>

section \<open>Tables\<close>

text \<open>A row of \<open>radcheck\<close> or \<open>radreply\<close> (same columns in the FreeRADIUS schema).\<close>

record rad_row =
  rad_id :: nat
  rad_username :: string
  rad_attribute :: string
  rad_op :: string
  rad_value :: string

text \<open>A row of \<open>nas\<close>.\<close>

record nas_row =
  nas_id :: nat
  shortname :: string
  nasname :: string
  secret :: string
  nas_type :: string
  ports :: int
  community :: string
  description :: string

record db =
  nas :: "nas_row list"
  radcheck :: "rad_row list"
  radreply :: "rad_row list"
  nas_next :: nat
  radcheck_next :: nat
  radreply_next :: nat

text \<open>The two attribute tables, a closed choice (the models take the name as a string).\<close>

datatype rad_table = Radcheck | Radreply

definition rad_rows :: "rad_table \<Rightarrow> db \<Rightarrow> rad_row list" where
  "rad_rows t d = (case t of Radcheck \<Rightarrow> radcheck d | Radreply \<Rightarrow> radreply d)"

definition rad_next :: "rad_table \<Rightarrow> db \<Rightarrow> nat" where
  "rad_next t d = (case t of Radcheck \<Rightarrow> radcheck_next d | Radreply \<Rightarrow> radreply_next d)"

definition rad_store :: "rad_table \<Rightarrow> rad_row list \<Rightarrow> nat \<Rightarrow> db \<Rightarrow> db" where
  "rad_store t rs n d =
     (case t of Radcheck \<Rightarrow> d\<lparr>radcheck := rs, radcheck_next := n\<rparr>
              | Radreply \<Rightarrow> d\<lparr>radreply := rs, radreply_next := n\<rparr>)"

text \<open>
  \<open>${table}\<close> interpolated into the statement: the two names whose statements the model
  executes itself; the text with any other name goes to the server as it is
  (\<open>pool_exec_text\<close>).
\<close>

definition table_of_name :: "string \<Rightarrow> rad_table option" where
  "table_of_name n =
     (if n = ''radcheck'' then Some Radcheck
      else if n = ''radreply'' then Some Radreply else None)"

definition empty_db :: db where
  "empty_db = \<lparr>nas = [], radcheck = [], radreply = [],
               nas_next = 1, radcheck_next = 1, radreply_next = 1\<rparr>"

section \<open>Statements on the tables\<close>

text \<open>\<open>WHERE username = ?\<close> and \<open>WHERE username = ? AND attribute = ?\<close>.\<close>

definition by_user :: "collation \<Rightarrow> string \<Rightarrow> rad_row \<Rightarrow> bool" where
  "by_user co u r \<longleftrightarrow> sql_eq co (rad_username r) u"

definition by_user_attr :: "collation \<Rightarrow> string \<Rightarrow> string \<Rightarrow> rad_row \<Rightarrow> bool" where
  "by_user_attr co u a r \<longleftrightarrow> sql_eq co (rad_username r) u \<and> sql_eq co (rad_attribute r) a"

text \<open>
  \<open>INSERT INTO t (username, attribute, op, value) VALUES (?, ?, ?, ?)\<close>: the row gets
  the next auto-increment id, which is the statement's \<open>insertId\<close>.
\<close>

definition insert_rad ::
  "rad_table \<Rightarrow> string \<Rightarrow> string \<Rightarrow> string \<Rightarrow> string \<Rightarrow> db \<Rightarrow> nat \<times> db" where
  "insert_rad t u a op v d =
     (let i = rad_next t d
      in (i, rad_store t (rad_rows t d @
                [\<lparr>rad_id = i, rad_username = u, rad_attribute = a, rad_op = op, rad_value = v\<rparr>])
               (Suc i) d))"

text \<open>
  \<open>UPDATE t SET value = ? WHERE \<dots>\<close>; the result is \<open>affectedRows\<close>, which the
  MySQL driver reports as the number of matched rows (its default \<open>FOUND_ROWS\<close> flag).
\<close>

definition update_rad_value :: "rad_table \<Rightarrow> (rad_row \<Rightarrow> bool) \<Rightarrow> string \<Rightarrow> db \<Rightarrow> nat \<times> db" where
  "update_rad_value t P v d =
     (length (filter P (rad_rows t d)),
      rad_store t (map (\<lambda>r. if P r then r\<lparr>rad_value := v\<rparr> else r) (rad_rows t d)) (rad_next t d) d)"

text \<open>\<open>DELETE FROM t WHERE \<dots>\<close>, with \<open>affectedRows\<close>.\<close>

definition delete_rad :: "rad_table \<Rightarrow> (rad_row \<Rightarrow> bool) \<Rightarrow> db \<Rightarrow> nat \<times> db" where
  "delete_rad t P d =
     (length (filter P (rad_rows t d)),
      rad_store t (filter (\<lambda>r. \<not> P r) (rad_rows t d)) (rad_next t d) d)"

section \<open>The store and its statement monad\<close>

datatype sql_error = Store_Unavailable | Undefined_Bind_Parameter | Statement_Rejected

text \<open>
  What the server makes of a statement text outside the statements above (a table name
  spliced into the SQL that is not one of the two tables, e.g. a backquoted name or a
  name followed by a clause): \<open>None\<close> when it refuses the text, else the
  \<open>insertId\<close>, the \<open>affectedRows\<close> and the new tables.  It is part of the store: the
  MySQL server's parser, which the model does not reproduce.
\<close>

type_synonym sql_engine = "string \<Rightarrow> string list \<Rightarrow> db \<Rightarrow> (nat \<times> nat \<times> db) option"

record store =
  committed :: db
  work :: db
  budget :: "nat option"
  coll :: collation
  engine :: sql_engine

type_synonym 'a sql = "store \<Rightarrow> (sql_error + 'a) \<times> store"

definition sql_return :: "'a \<Rightarrow> 'a sql" where
  "sql_return a s = (Inr a, s)"

definition sql_throw :: "sql_error \<Rightarrow> 'a sql" where
  "sql_throw e s = (Inl e, s)"

definition sql_bind :: "'a sql \<Rightarrow> ('a \<Rightarrow> 'b sql) \<Rightarrow> 'b sql" where
  "sql_bind m f s = (case m s of (Inl e, s') \<Rightarrow> (Inl e, s') | (Inr a, s') \<Rightarrow> f a s')"

text \<open>A statement can run while the fault budget is not exhausted; each one spends one unit.\<close>

definition stmt_ok :: "store \<Rightarrow> bool" where
  "stmt_ok s \<longleftrightarrow> budget s \<noteq> Some 0"

definition tick :: "store \<Rightarrow> store" where
  "tick s = s\<lparr>budget := map_option (\<lambda>k. k - 1) (budget s)\<rparr>"

text \<open>\<open>db.query(sql, params)\<close>: one auto-committed statement on the committed tables.\<close>

definition pool_exec :: "(collation \<Rightarrow> db \<Rightarrow> 'a \<times> db) \<Rightarrow> 'a sql" where
  "pool_exec f s =
     (if stmt_ok s
      then (let (a, d) = f (coll s) (committed s) in (Inr a, (tick s)\<lparr>committed := d\<rparr>))
      else (Inl Store_Unavailable, s))"

definition pool_query :: "(collation \<Rightarrow> db \<Rightarrow> 'a) \<Rightarrow> 'a sql" where
  "pool_query f = pool_exec (\<lambda>co d. (f co d, d))"

text \<open>\<open>db.query(text, params)\<close> for a text only the server parses; \<open>res\<close> reads the result.\<close>

definition pool_exec_text :: "string \<Rightarrow> string list \<Rightarrow> (nat \<Rightarrow> nat \<Rightarrow> 'a) \<Rightarrow> 'a sql" where
  "pool_exec_text q ps res s =
     (if stmt_ok s
      then (case engine s q ps (committed s) of
              None \<Rightarrow> (Inl Statement_Rejected, tick s)
            | Some (i, n, d) \<Rightarrow> (Inr (res i n), (tick s)\<lparr>committed := d\<rparr>))
      else (Inl Store_Unavailable, s))"

text \<open>\<open>connection.execute(sql, params)\<close> inside a transaction: works on the working copy.\<close>

definition conn_exec :: "(collation \<Rightarrow> db \<Rightarrow> 'a \<times> db) \<Rightarrow> 'a sql" where
  "conn_exec f s =
     (if stmt_ok s
      then (let (a, d) = f (coll s) (work s) in (Inr a, (tick s)\<lparr>work := d\<rparr>))
      else (Inl Store_Unavailable, s))"

definition conn_query :: "(collation \<Rightarrow> db \<Rightarrow> 'a) \<Rightarrow> 'a sql" where
  "conn_query f = conn_exec (\<lambda>co d. (f co d, d))"

text \<open>
  The driver refuses a statement with an \<open>undefined\<close> bind parameter before sending
  it (\<open>Bind parameters must not contain undefined\<close>).
\<close>

definition bind_params :: "js_str list \<Rightarrow> string list sql" where
  "bind_params ps =
     (if list_all (\<lambda>p. p \<noteq> None) ps then sql_return (map the ps)
      else sql_throw Undefined_Bind_Parameter)"

text \<open>
  Rolling back restores the rows but not the auto-increment counters (InnoDB does not
  give allocated ids back).
\<close>

definition rollback_db :: "db \<Rightarrow> db \<Rightarrow> db" where
  "rollback_db old new =
     old\<lparr>nas_next := max (nas_next old) (nas_next new),
         radcheck_next := max (radcheck_next old) (radcheck_next new),
         radreply_next := max (radreply_next old) (radreply_next new)\<rparr>"

text \<open>
  \<open>db.transaction(cb)\<close>: \<open>BEGIN\<close> (a statement that may fail), the callback on the
  working copy, then \<open>COMMIT\<close> (which may fail too); every failure rolls back and is
  rethrown.
\<close>

definition transaction :: "'a sql \<Rightarrow> 'a sql" where
  "transaction m s =
     (if \<not> stmt_ok s then (Inl Store_Unavailable, s)
      else (case m ((tick s)\<lparr>work := committed s\<rparr>) of
              (Inr a, s1) \<Rightarrow>
                if stmt_ok s1 then (Inr a, (tick s1)\<lparr>committed := work s1\<rparr>)
                else (Inl Store_Unavailable, s1\<lparr>committed := rollback_db (committed s1) (work s1)\<rparr>)
            | (Inl e, s1) \<Rightarrow> (Inl e, s1\<lparr>committed := rollback_db (committed s1) (work s1)\<rparr>)))"

text \<open>
  The example stores' server has only the three tables of the model, so it refuses
  every other statement text (an unknown table, or columns \<open>nas\<close> does not have).
\<close>

definition refusing_engine :: sql_engine where
  "refusing_engine q ps d = None"

text \<open>A store over given tables that never fails, under a given collation; a fresh one.\<close>

definition healthy_store :: "collation \<Rightarrow> db \<Rightarrow> store" where
  "healthy_store co d = \<lparr>committed = d, work = d, budget = None, coll = co, engine = refusing_engine\<rparr>"

text \<open>The same store when only the next \<open>n\<close> statements succeed.\<close>

definition faulty_store :: "nat \<Rightarrow> db \<Rightarrow> store" where
  "faulty_store n d = \<lparr>committed = d, work = d, budget = Some n, coll = id, engine = refusing_engine\<rparr>"

definition empty_store :: "collation \<Rightarrow> store" where
  "empty_store co = healthy_store co empty_db"

text \<open>
  A property of stores kept by a computation, whatever it returns: the Hoare-style
  reading of the monad used to compose invariants of the models' operations.
\<close>

definition sql_inv :: "(store \<Rightarrow> bool) \<Rightarrow> 'a sql \<Rightarrow> bool" where
  "sql_inv P m \<longleftrightarrow> (\<forall>s. P s \<longrightarrow> P (snd (m s)))"

text \<open>
  A computation whose successful runs do not depend on the fault budget: had the store
  never failed, it would have returned the same result and the same tables.
\<close>

definition fault_indep :: "'a sql \<Rightarrow> bool" where
  "fault_indep m \<longleftrightarrow>
     (\<forall>s a s'. m s = (Inr a, s') \<longrightarrow> m (s\<lparr>budget := None\<rparr>) = (Inr a, s'\<lparr>budget := None\<rparr>))"

text \<open>The observable contents of a database: its rows, without the counters.\<close>

definition db_rows :: "db \<Rightarrow> nas_row list \<times> rad_row list \<times> rad_row list" where
  "db_rows d = (nas d, radcheck d, radreply d)"

text \<open>A computation that leaves the committed tables alone (the callbacks of the models).\<close>

definition conn_only :: "'a sql \<Rightarrow> bool" where
  "conn_only m \<longleftrightarrow> (\<forall>c. sql_inv (\<lambda>s. committed s = c) m)"

text \<open>
  A computation that, when it fails, leaves the committed rows as they were: what the
  spec asks of every operation whose error reaches the client as a 500.
\<close>

definition sql_atomic :: "'a sql \<Rightarrow> bool" where
  "sql_atomic m \<longleftrightarrow> (\<forall>s e s'. m s = (Inl e, s') \<longrightarrow> db_rows (committed s') = db_rows (committed s))"

text \<open>A computation that cannot fail and changes nothing (a \<open>return\<close> after a branch).\<close>

definition sql_pure :: "'a sql \<Rightarrow> bool" where
  "sql_pure m \<longleftrightarrow> (\<forall>s. \<exists>a. m s = (Inr a, s))"

text \<open>A postcondition of the results of the successful runs.\<close>

definition sql_post :: "('a \<Rightarrow> bool) \<Rightarrow> 'a sql \<Rightarrow> bool" where
  "sql_post Q m \<longleftrightarrow> (\<forall>s a s'. m s = (Inr a, s') \<longrightarrow> Q a)"

section \<open>Lemmas\<close>

subsection \<open>Table accessors\<close>

lemma rad_rows_simps [simp]:
  "rad_rows Radcheck d = radcheck d" "rad_rows Radreply d = radreply d"
  "rad_next Radcheck d = radcheck_next d" "rad_next Radreply d = radreply_next d"
  by (simp_all add: rad_rows_def rad_next_def)

lemma rad_store_simps [simp]:
  "rad_store Radcheck rs n d = d\<lparr>radcheck := rs, radcheck_next := n\<rparr>"
  "rad_store Radreply rs n d = d\<lparr>radreply := rs, radreply_next := n\<rparr>"
  by (simp_all add: rad_store_def)

lemma rad_store_rows [simp]:
  "rad_rows t (rad_store t rs n d) = rs" "rad_next t (rad_store t rs n d) = n"
  by (cases t; simp)+

lemma rad_store_other [simp]:
  "t \<noteq> t' \<Longrightarrow> rad_rows t' (rad_store t rs n d) = rad_rows t' d"
  "nas (rad_store t rs n d) = nas d" "nas_next (rad_store t rs n d) = nas_next d"
  by (cases t; cases t'; simp)+

lemma table_of_name_Some:
  "table_of_name n = Some t \<longleftrightarrow> (n = ''radcheck'' \<and> t = Radcheck \<or> n = ''radreply'' \<and> t = Radreply)"
  by (auto simp: table_of_name_def)

lemma insert_rad_rows:
  "insert_rad t u a op v d = (i, d') \<Longrightarrow>
   i = rad_next t d \<and> rad_next t d' = Suc i \<and>
   rad_rows t d' = rad_rows t d @ [\<lparr>rad_id = i, rad_username = u, rad_attribute = a, rad_op = op, rad_value = v\<rparr>] \<and>
   (\<forall>t'. t' \<noteq> t \<longrightarrow> rad_rows t' d' = rad_rows t' d)"
  by (auto simp: insert_rad_def Let_def)

subsection \<open>The monad\<close>

lemma sql_bind_Inr: "m s = (Inr a, s') \<Longrightarrow> sql_bind m f s = f a s'"
  by (simp add: sql_bind_def)

lemma sql_bind_Inl: "m s = (Inl e, s') \<Longrightarrow> sql_bind m f s = (Inl e, s')"
  by (simp add: sql_bind_def)

lemma sql_bind_return [simp]: "sql_bind (sql_return a) f = f a"
  by (simp add: fun_eq_iff sql_bind_def sql_return_def)

lemma sql_bind_throw [simp]: "sql_bind (sql_throw e) f = sql_throw e"
  by (simp add: fun_eq_iff sql_bind_def sql_throw_def)

lemma sql_bind_assoc:
  "sql_bind (sql_bind m f) g = sql_bind m (\<lambda>a. sql_bind (f a) g)"
  by (simp add: fun_eq_iff sql_bind_def split: prod.splits sum.splits)

lemma tick_simps [simp]:
  "committed (tick s) = committed s" "work (tick s) = work s" "coll (tick s) = coll s"
  by (simp_all add: tick_def)

lemma stmt_ok_None [simp]: "budget s = None \<Longrightarrow> stmt_ok s"
  by (simp add: stmt_ok_def)

lemma budget_tick_None [simp]: "budget s = None \<Longrightarrow> budget (tick s) = None"
  by (simp add: tick_def)

lemma tick_None [simp]: "budget s = None \<Longrightarrow> tick s = s"
  by (simp add: tick_def)

lemma pool_exec_ok:
  "stmt_ok s \<Longrightarrow> pool_exec f s =
     (Inr (fst (f (coll s) (committed s))), (tick s)\<lparr>committed := snd (f (coll s) (committed s))\<rparr>)"
  by (simp add: pool_exec_def split: prod.splits)

lemma conn_exec_ok:
  "stmt_ok s \<Longrightarrow> conn_exec f s =
     (Inr (fst (f (coll s) (work s))), (tick s)\<lparr>work := snd (f (coll s) (work s))\<rparr>)"
  by (simp add: conn_exec_def split: prod.splits)

lemma exec_fail:
  "\<not> stmt_ok s \<Longrightarrow> pool_exec f s = (Inl Store_Unavailable, s)"
  "\<not> stmt_ok s \<Longrightarrow> conn_exec f s = (Inl Store_Unavailable, s)"
  "\<not> stmt_ok s \<Longrightarrow> transaction m s = (Inl Store_Unavailable, s)"
  by (simp_all add: pool_exec_def conn_exec_def transaction_def)

lemma pool_query_ok:
  "stmt_ok s \<Longrightarrow> pool_query f s = (Inr (f (coll s) (committed s)), tick s)"
  by (simp add: pool_query_def pool_exec_ok)

lemma conn_query_ok:
  "stmt_ok s \<Longrightarrow> conn_query f s = (Inr (f (coll s) (work s)), tick s)"
  by (simp add: conn_query_def conn_exec_ok)

lemmas sql_unfold [radius_simps] =
  sql_return_def sql_throw_def sql_bind_def pool_query_def conn_query_def
  pool_exec_def conn_exec_def bind_params_def transaction_def

subsection \<open>Invariants of computations\<close>

lemma sql_invI: "(\<And>s. P s \<Longrightarrow> P (snd (m s))) \<Longrightarrow> sql_inv P m"
  by (simp add: sql_inv_def)

lemma sql_invD: "sql_inv P m \<Longrightarrow> P s \<Longrightarrow> m s = (r, s') \<Longrightarrow> P s'"
  by (metis sql_inv_def snd_conv)

lemma sql_inv_return [intro]: "sql_inv P (sql_return a)"
  by (simp add: sql_inv_def sql_return_def)

lemma sql_inv_throw [intro]: "sql_inv P (sql_throw e)"
  by (simp add: sql_inv_def sql_throw_def)

lemma sql_inv_bind [intro]:
  "sql_inv P m \<Longrightarrow> (\<And>a. sql_inv P (f a)) \<Longrightarrow> sql_inv P (sql_bind m f)"
  by (auto simp: sql_inv_def sql_bind_def split: prod.splits sum.splits)

lemma sql_inv_if [intro]:
  "sql_inv P m1 \<Longrightarrow> sql_inv P m2 \<Longrightarrow> sql_inv P (if b then m1 else m2)"
  by simp

lemma sql_inv_bind_params [intro]: "sql_inv P (bind_params ps)"
  by (auto simp: bind_params_def)

lemma sql_inv_conj [intro]: "sql_inv P m \<Longrightarrow> sql_inv Q m \<Longrightarrow> sql_inv (\<lambda>s. P s \<and> Q s) m"
  by (simp add: sql_inv_def)

text \<open>Statements on the connection and reads through the pool leave the committed tables alone.\<close>

lemma sql_inv_conn_exec_committed [intro]: "sql_inv (\<lambda>s. committed s = c) (conn_exec f)"
  by (simp add: sql_inv_def conn_exec_def split: prod.splits)

lemma sql_inv_conn_query_committed [intro]: "sql_inv (\<lambda>s. committed s = c) (conn_query f)"
  by (simp add: conn_query_def sql_inv_conn_exec_committed)

lemma sql_inv_pool_query_committed [intro]: "sql_inv (\<lambda>s. committed s = c) (pool_query f)"
  by (simp add: sql_inv_def pool_query_def pool_exec_def)

lemma sql_inv_coll [intro]:
  "sql_inv (\<lambda>s. coll s = co) (pool_exec f)" "sql_inv (\<lambda>s. coll s = co) (conn_exec f)"
  "sql_inv (\<lambda>s. coll s = co) (pool_query g)" "sql_inv (\<lambda>s. coll s = co) (conn_query g)"
  by (simp_all add: sql_inv_def pool_exec_def conn_exec_def pool_query_def conn_query_def
                split: prod.splits)

subsection \<open>Transactions\<close>

lemma conn_onlyI [intro]: "(\<And>c. sql_inv (\<lambda>s. committed s = c) m) \<Longrightarrow> conn_only m"
  by (simp add: conn_only_def)

lemma conn_only_committed:
  assumes "conn_only m" and run: "m s = (r, s')"
  shows "committed s' = committed s"
proof -
  from assms(1) have "sql_inv (\<lambda>x. committed x = committed s) m" by (simp add: conn_only_def)
  from sql_invD [OF this _ run] show ?thesis by simp
qed

lemma db_rows_rollback [simp]: "db_rows (rollback_db old new) = db_rows old"
  by (simp add: db_rows_def rollback_db_def)

text \<open>A failed transaction leaves the committed rows as they were: it is atomic.\<close>

lemma transaction_Inl_rows:
  assumes "conn_only m" and "transaction m s = (Inl e, s')"
  shows "db_rows (committed s') = db_rows (committed s)"
proof (cases "stmt_ok s")
  case False
  with assms(2) show ?thesis by (simp add: transaction_def)
next
  case True
  obtain r s1 where m: "m ((tick s)\<lparr>work := committed s\<rparr>) = (r, s1)" by fastforce
  from conn_only_committed [OF assms(1) m] have c1: "committed s1 = committed s" by simp
  have "s' = s1\<lparr>committed := rollback_db (committed s1) (work s1)\<rparr>"
  proof (cases r)
    case (Inl e')
    with assms(2) True m show ?thesis by (simp add: transaction_def)
  next
    case (Inr a)
    with assms(2) True m show ?thesis by (simp add: transaction_def split: if_splits)
  qed
  then have "committed s' = rollback_db (committed s) (work s1)"
    using c1 by simp
  then show ?thesis by (simp only: db_rows_rollback)
qed

text \<open>A successful transaction commits the callback's working copy.\<close>

lemma transaction_Inr:
  assumes "transaction m s = (Inr a, s')"
  shows "stmt_ok s \<and> (\<exists>s1. m ((tick s)\<lparr>work := committed s\<rparr>) = (Inr a, s1) \<and> stmt_ok s1 \<and>
           s' = (tick s1)\<lparr>committed := work s1\<rparr>)"
  using assms by (auto simp: transaction_def split: if_splits prod.splits sum.splits)

lemma transaction_ok:
  "stmt_ok s \<Longrightarrow> m ((tick s)\<lparr>work := committed s\<rparr>) = (Inr a, s1) \<Longrightarrow> stmt_ok s1 \<Longrightarrow>
   transaction m s = (Inr a, (tick s1)\<lparr>committed := work s1\<rparr>)"
  by (simp add: transaction_def)


subsection \<open>Successful runs do not depend on the fault budget\<close>

lemma fault_indepD:
  "fault_indep m \<Longrightarrow> m s = (Inr a, s') \<Longrightarrow> m (s\<lparr>budget := None\<rparr>) = (Inr a, s'\<lparr>budget := None\<rparr>)"
  by (simp add: fault_indep_def)

lemma fault_indep_return [intro]: "fault_indep (sql_return a)"
  by (simp add: fault_indep_def sql_return_def)

lemma fault_indep_throw [intro]: "fault_indep (sql_throw e)"
  by (simp add: fault_indep_def sql_throw_def)

lemma fault_indep_if [intro]: "fault_indep m1 \<Longrightarrow> fault_indep m2 \<Longrightarrow> fault_indep (if b then m1 else m2)"
  by simp

lemma fault_indep_bind [intro]:
  assumes m: "fault_indep m" and f: "\<And>a. fault_indep (f a)"
  shows "fault_indep (sql_bind m f)"
proof (unfold fault_indep_def, intro allI impI)
  fix s b s'
  assume run: "sql_bind m f s = (Inr b, s')"
  then obtain a s1 where m1: "m s = (Inr a, s1)" and f1: "f a s1 = (Inr b, s')"
    by (auto simp: sql_bind_def split: prod.splits sum.splits)
  from fault_indepD [OF m m1] fault_indepD [OF f f1]
  show "sql_bind m f (s\<lparr>budget := None\<rparr>) = (Inr b, s'\<lparr>budget := None\<rparr>)"
    by (simp add: sql_bind_def)
qed

lemma fault_indep_pool_exec [intro]: "fault_indep (pool_exec f)"
  by (auto simp: fault_indep_def pool_exec_def tick_def stmt_ok_def split: prod.splits if_splits)

lemma fault_indep_conn_exec [intro]: "fault_indep (conn_exec f)"
  by (auto simp: fault_indep_def conn_exec_def tick_def stmt_ok_def split: prod.splits if_splits)

lemma fault_indep_queries [intro]: "fault_indep (pool_query f)" "fault_indep (conn_query f)"
  by (simp_all add: pool_query_def conn_query_def fault_indep_pool_exec fault_indep_conn_exec)

lemma fault_indep_bind_params [intro]: "fault_indep (bind_params ps)"
  by (simp add: bind_params_def fault_indep_return fault_indep_throw)

lemma fault_indep_transaction [intro]:
  assumes m: "fault_indep m"
  shows "fault_indep (transaction m)"
proof (unfold fault_indep_def, intro allI impI)
  fix s a s'
  assume run: "transaction m s = (Inr a, s')"
  then obtain s1 where ok: "stmt_ok s" and m1: "m ((tick s)\<lparr>work := committed s\<rparr>) = (Inr a, s1)"
    and ok1: "stmt_ok s1" and s': "s' = (tick s1)\<lparr>committed := work s1\<rparr>"
    by (blast dest: transaction_Inr)
  have "(tick s)\<lparr>work := committed s\<rparr>\<lparr>budget := None\<rparr> = s\<lparr>budget := None, work := committed s\<rparr>"
    by (simp add: tick_def)
  with fault_indepD [OF m m1]
  have "m ((tick (s\<lparr>budget := None\<rparr>))\<lparr>work := committed (s\<lparr>budget := None\<rparr>)\<rparr>) = (Inr a, s1\<lparr>budget := None\<rparr>)"
    by simp
  then show "transaction m (s\<lparr>budget := None\<rparr>) = (Inr a, s'\<lparr>budget := None\<rparr>)"
    using s' by (simp add: transaction_def tick_def stmt_ok_def)
qed

subsection \<open>Atomic failure and postconditions\<close>

lemma sql_atomicD:
  "sql_atomic m \<Longrightarrow> m s = (Inl e, s') \<Longrightarrow> db_rows (committed s') = db_rows (committed s)"
  by (simp add: sql_atomic_def)

lemma sql_atomic_return [intro]: "sql_atomic (sql_return a)"
  by (simp add: sql_atomic_def sql_return_def)

lemma sql_atomic_throw [intro]: "sql_atomic (sql_throw e)"
  by (simp add: sql_atomic_def sql_throw_def)

lemma sql_atomic_if [intro]: "sql_atomic a \<Longrightarrow> sql_atomic b \<Longrightarrow> sql_atomic (if c then a else b)"
  by simp

lemma sql_atomic_option [intro]:
  "sql_atomic a \<Longrightarrow> (\<And>x. sql_atomic (b x)) \<Longrightarrow> sql_atomic (case v of None \<Rightarrow> a | Some x \<Rightarrow> b x)"
  by (cases v) simp_all

lemma sql_atomic_pool_exec [intro]: "sql_atomic (pool_exec f)"
  by (simp add: sql_atomic_def pool_exec_def split: prod.splits)

lemma sql_atomic_pool_exec_text [intro]: "sql_atomic (pool_exec_text q ps res)"
  by (simp add: sql_atomic_def pool_exec_text_def tick_def split: option.splits)

lemma sql_atomic_pool_query [intro]: "sql_atomic (pool_query f)"
  by (simp add: pool_query_def sql_atomic_pool_exec)

lemma sql_atomic_bind_params [intro]: "sql_atomic (bind_params ps)"
  by (simp add: bind_params_def sql_atomic_return sql_atomic_throw)

lemma sql_atomic_transaction [intro]: "conn_only m \<Longrightarrow> sql_atomic (transaction m)"
  by (auto simp: sql_atomic_def intro: transaction_Inl_rows)

text \<open>A failure after a step that only reads is a failure of the rest.\<close>

lemma sql_atomic_bind [intro]:
  assumes "sql_atomic m" and "conn_only m" and "\<And>a. sql_atomic (f a)"
  shows "sql_atomic (sql_bind m f)"
  unfolding sql_atomic_def
proof (intro allI impI)
  fix s e s' assume run: "sql_bind m f s = (Inl e, s')"
  show "db_rows (committed s') = db_rows (committed s)"
  proof (cases "m s")
    case (Pair r s1)
    show ?thesis
    proof (cases r)
      case (Inl e1)
      with Pair run have "m s = (Inl e1, s')" by (simp add: sql_bind_def)
      with assms(1) show ?thesis by (rule sql_atomicD)
    next
      case (Inr a)
      with Pair run have "f a s1 = (Inl e, s')" by (simp add: sql_bind_def)
      with assms(3) have "db_rows (committed s') = db_rows (committed s1)" by (rule sql_atomicD)
      also have "committed s1 = committed s" using conn_only_committed [OF assms(2)] Pair by simp
      finally show ?thesis .
    qed
  qed
qed

lemma sql_pure_return [intro]: "sql_pure (sql_return a)"
  by (simp add: sql_pure_def sql_return_def)

lemma sql_pure_if [intro]: "sql_pure a \<Longrightarrow> sql_pure b \<Longrightarrow> sql_pure (if c then a else b)"
  by simp

lemma sql_pure_option [intro]:
  "sql_pure a \<Longrightarrow> (\<And>x. sql_pure (b x)) \<Longrightarrow> sql_pure (case v of None \<Rightarrow> a | Some x \<Rightarrow> b x)"
  by (cases v) simp_all

text \<open>A failure of a write followed by a plain return is the write's failure.\<close>

lemma sql_atomic_bind_pure [intro]:
  assumes "sql_atomic m" and "\<And>a. sql_pure (f a)"
  shows "sql_atomic (sql_bind m f)"
  unfolding sql_atomic_def
proof (intro allI impI)
  fix s e s' assume run: "sql_bind m f s = (Inl e, s')"
  show "db_rows (committed s') = db_rows (committed s)"
  proof (cases "m s")
    case (Pair r s1)
    show ?thesis
    proof (cases r)
      case (Inl e1)
      with Pair run have "m s = (Inl e1, s')" by (simp add: sql_bind_def)
      with assms(1) show ?thesis by (rule sql_atomicD)
    next
      case (Inr a)
      from assms(2) obtain b where "f a s1 = (Inr b, s1)" by (auto simp: sql_pure_def)
      with Pair Inr run show ?thesis by (simp add: sql_bind_def)
    qed
  qed
qed

lemma sql_postD: "sql_post Q m \<Longrightarrow> m s = (Inr a, s') \<Longrightarrow> Q a"
  unfolding sql_post_def by blast

lemma sql_post_return [intro]: "Q a \<Longrightarrow> sql_post Q (sql_return a)"
  by (simp add: sql_post_def sql_return_def)

lemma sql_post_if [intro]: "sql_post Q a \<Longrightarrow> sql_post Q b \<Longrightarrow> sql_post Q (if c then a else b)"
  by simp

lemma sql_post_option [intro]:
  "sql_post Q a \<Longrightarrow> (\<And>x. sql_post Q (b x)) \<Longrightarrow> sql_post Q (case v of None \<Rightarrow> a | Some x \<Rightarrow> b x)"
  by (cases v) simp_all

lemma sql_post_bind [intro]: "(\<And>a. sql_post Q (f a)) \<Longrightarrow> sql_post Q (sql_bind m f)"
  by (auto simp: sql_post_def sql_bind_def split: prod.splits sum.splits)

end
