(* ===== verification/User_Model.thy ===== *)
theory User_Model
  imports Radius_Store
begin

text \<open>
  The user repository, \<open>src/models/UserModel.js\<close>.  A user of the API is a
  \<open>Cleartext-Password\<close> row of \<open>radcheck\<close>, joined (\<open>LEFT JOIN\<close>) with the user's
  \<open>Mikrotik-Group\<close> rows of \<open>radreply\<close> for the profile.  Each method is one
  definition over the statement monad of \<open>Radius_Store\<close>: the queries as pure
  functions of the collation and the tables, the methods as the statements they issue,
  in the code's order, with \<open>db.transaction\<close> where the code opens one.
\<close>

section \<open>Queries\<close>

text \<open>The record the queries return: \<open>{id, user, password, profile}\<close>.\<close>

record user_rec =
  u_id :: nat
  u_user :: string
  u_password :: string
  u_profile :: "string option"

abbreviation CP :: string where "CP \<equiv> ''Cleartext-Password''"
abbreviation MG :: string where "MG \<equiv> ''Mikrotik-Group''"

definition is_attr :: "collation \<Rightarrow> string \<Rightarrow> rad_row \<Rightarrow> bool" where
  "is_attr co a r \<longleftrightarrow> sql_eq co (rad_attribute r) a"

definition mk_user :: "rad_row \<Rightarrow> string option \<Rightarrow> user_rec" where
  "mk_user rc p = \<lparr>u_id = rad_id rc, u_user = rad_username rc, u_password = rad_value rc, u_profile = p\<rparr>"

text \<open>
  \<open>FROM radcheck rc LEFT JOIN radreply rr ON rc.username = rr.username AND
  rr.attribute = 'Mikrotik-Group'\<close>: one result row per matching reply row, or one with
  a \<open>NULL\<close> profile when there is none.  Rows come in table order (the queries without
  \<open>ORDER BY\<close> leave the order to the engine; a scan in id order is assumed).
\<close>

definition profile_rows :: "collation \<Rightarrow> rad_row list \<Rightarrow> string \<Rightarrow> rad_row list" where
  "profile_rows co rrs u = filter (\<lambda>rr. sql_eq co (rad_username rr) u \<and> is_attr co MG rr) rrs"

definition user_join :: "collation \<Rightarrow> rad_row list \<Rightarrow> rad_row list \<Rightarrow> user_rec list" where
  "user_join co rcs rrs =
     concat (map (\<lambda>rc. case profile_rows co rrs (rad_username rc) of
                         [] \<Rightarrow> [mk_user rc None]
                       | ms \<Rightarrow> map (\<lambda>rr. mk_user rc (Some (rad_value rr))) ms) rcs)"

text \<open>\<open>getByUsername\<close>: \<open>WHERE rc.username = ? AND rc.attribute = 'Cleartext-Password'\<close>, then \<open>result[0] || null\<close>.\<close>

definition password_rows :: "collation \<Rightarrow> string \<Rightarrow> db \<Rightarrow> rad_row list" where
  "password_rows co u d = filter (by_user_attr co u CP) (radcheck d)"

definition get_by_username_q :: "collation \<Rightarrow> string \<Rightarrow> db \<Rightarrow> user_rec option" where
  "get_by_username_q co u d = js_index (user_join co (password_rows co u d) (radreply d)) 0"

text \<open>\<open>getById\<close>: \<open>WHERE rc.id = ? AND rc.attribute = 'Cleartext-Password'\<close>.\<close>

definition get_by_id_q :: "collation \<Rightarrow> nat \<Rightarrow> db \<Rightarrow> user_rec option" where
  "get_by_id_q co i d =
     js_index (user_join co (filter (\<lambda>r. rad_id r = i \<and> is_attr co CP r) (radcheck d)) (radreply d)) 0"

text \<open>\<open>exists\<close>: \<open>SELECT username FROM radcheck WHERE username = ? AND attribute = "Cleartext-Password"\<close>.\<close>

definition exists_q :: "collation \<Rightarrow> string \<Rightarrow> db \<Rightarrow> bool" where
  "exists_q co u d \<longleftrightarrow> password_rows co u d \<noteq> []"

text \<open>\<open>getCount\<close>: \<open>COUNT(DISTINCT username)\<close> over the password rows, distinct under the collation.\<close>

definition count_q :: "collation \<Rightarrow> db \<Rightarrow> nat" where
  "count_q co d = length (remdups (map (\<lambda>r. co (rad_username r)) (filter (is_attr co CP) (radcheck d))))"

text \<open>\<open>getUserAttributes\<close> / \<open>getUserReplyAttributes\<close>: \<open>SELECT attribute, op, value \<dots> WHERE username = ?\<close>.\<close>

definition attributes_q :: "rad_table \<Rightarrow> collation \<Rightarrow> string \<Rightarrow> db \<Rightarrow> (string \<times> string \<times> string) list" where
  "attributes_q t co u d =
     map (\<lambda>r. (rad_attribute r, rad_op r, rad_value r)) (filter (by_user co u) (rad_rows t d))"

text \<open>The profile \<open>result[0]\<close> carries: the value of the user's first profile row.\<close>

definition first_profile :: "collation \<Rightarrow> rad_row list \<Rightarrow> string \<Rightarrow> string option" where
  "first_profile co rrs u = (case profile_rows co rrs u of [] \<Rightarrow> None | m # _ \<Rightarrow> Some (rad_value m))"

text \<open>
  \<open>getAll\<close> / \<open>search\<close>: the same join over every password row (\<open>search\<close>: those
  whose username is \<open>LIKE\<close> the pattern), \<open>SELECT DISTINCT\<close> on the four columns
  compared under the collation, \<open>ORDER BY rc.username\<close> on the collation key.  Rows
  with equal sort keys stay in table order (the one MySQL order the model fixes).
\<close>

definition user_key :: "collation \<Rightarrow> user_rec \<Rightarrow> nat \<times> string \<times> string \<times> string option" where
  "user_key co u = (u_id u, co (u_user u), co (u_password u), map_option co (u_profile u))"

definition list_q :: "(string \<Rightarrow> bool) \<Rightarrow> collation \<Rightarrow> db \<Rightarrow> user_rec list" where
  "list_q P co d =
     sort_key (\<lambda>u. co (u_user u))
       (remdups_key (user_key co)
         (user_join co (filter (\<lambda>r. is_attr co CP r \<and> P (rad_username r)) (radcheck d)) (radreply d)))"

section \<open>Methods\<close>

definition user_get_all :: "user_rec list sql" where
  "user_get_all = pool_query (list_q (\<lambda>_. True))"

definition user_search :: "string \<Rightarrow> user_rec list sql" where
  "user_search t = pool_query (\<lambda>co. list_q (sql_like co (search_pattern t)) co)"

definition user_get_by_username :: "string \<Rightarrow> user_rec option sql" where
  "user_get_by_username u = pool_query (\<lambda>co d. get_by_username_q co u d)"

definition user_get_by_id :: "nat \<Rightarrow> user_rec option sql" where
  "user_get_by_id i = pool_query (\<lambda>co d. get_by_id_q co i d)"

definition user_exists :: "string \<Rightarrow> bool sql" where
  "user_exists u = pool_query (\<lambda>co d. exists_q co u d)"

definition user_get_count :: "nat sql" where
  "user_get_count = pool_query count_q"

definition user_get_attributes :: "string \<Rightarrow> (string \<times> string \<times> string) list sql" where
  "user_get_attributes u = pool_query (\<lambda>co d. attributes_q Radcheck co u d)"

definition user_get_reply_attributes :: "string \<Rightarrow> (string \<times> string \<times> string) list sql" where
  "user_get_reply_attributes u = pool_query (\<lambda>co d. attributes_q Radreply co u d)"

text \<open>
  \<open>create({user, password, profile = 'PPP'})\<close>: the default applies when the profile is
  \<open>undefined\<close> only.  Both inserts run in one transaction; the result is built from the
  arguments and the check row's \<open>insertId\<close>.
\<close>

definition default_profile :: "js_str \<Rightarrow> string" where
  "default_profile p = (case p of None \<Rightarrow> ''PPP'' | Some x \<Rightarrow> x)"

definition user_create :: "string \<Rightarrow> string \<Rightarrow> js_str \<Rightarrow> user_rec sql" where
  "user_create u pw profile =
     (let p = default_profile profile in
      transaction
       (sql_bind (conn_exec (\<lambda>co. insert_rad Radcheck u CP '':='' pw)) (\<lambda>uid.
        sql_bind (conn_exec (\<lambda>co. insert_rad Radreply u MG '':='' p)) (\<lambda>_.
        sql_return \<lparr>u_id = uid, u_user = u, u_password = pw, u_profile = Some p\<rparr>))))"

text \<open>
  \<open>update(username, {password, profile})\<close>, one transaction: a truthy password updates
  the password row in place; a truthy profile updates the profile row if a
  \<open>SELECT id\<close> finds one and inserts it otherwise.  \<open>updated\<close> records whether a
  statement matched or inserted a row; without it the result is \<open>null\<close>.  The final
  re-read is \<open>this.getByUsername\<close>, a \<open>db.query\<close> on another pooled connection, so it
  reads the committed tables, not the transaction's.
\<close>

definition upd_password :: "string \<Rightarrow> js_str \<Rightarrow> bool sql" where
  "upd_password u password =
     (if js_truthy password
      then sql_bind (conn_exec (\<lambda>co. update_rad_value Radcheck (by_user_attr co u CP) (the password)))
             (\<lambda>n. sql_return (0 < n))
      else sql_return False)"

definition upd_profile :: "string \<Rightarrow> js_str \<Rightarrow> bool \<Rightarrow> bool sql" where
  "upd_profile u profile updated =
     (if js_truthy profile
      then sql_bind (conn_query (\<lambda>co d. filter (by_user_attr co u MG) (radreply d))) (\<lambda>rows.
             if rows \<noteq> []
             then sql_bind (conn_exec (\<lambda>co. update_rad_value Radreply (by_user_attr co u MG) (the profile)))
                    (\<lambda>n. sql_return (updated \<or> 0 < n))
             else sql_bind (conn_exec (\<lambda>co. insert_rad Radreply u MG '':='' (the profile)))
                    (\<lambda>_. sql_return True))
      else sql_return updated)"

definition user_update :: "string \<Rightarrow> js_str \<Rightarrow> js_str \<Rightarrow> user_rec option sql" where
  "user_update u password profile =
     transaction
      (sql_bind (upd_password u password) (\<lambda>upd1.
       sql_bind (upd_profile u profile upd1) (\<lambda>updated.
       if \<not> updated then sql_return None else user_get_by_username u)))"

text \<open>
  \<open>updateById(id, \<dots>)\<close>: looks the username up by id first (\<open>null\<close> when absent), updates
  the password row by id, the profile by username, and re-reads with \<open>this.getById\<close>.
\<close>

definition user_update_by_id :: "nat \<Rightarrow> js_str \<Rightarrow> js_str \<Rightarrow> user_rec option sql" where
  "user_update_by_id i password profile =
     transaction
      (sql_bind (conn_query (\<lambda>co d. filter (\<lambda>r. rad_id r = i \<and> is_attr co CP r) (radcheck d))) (\<lambda>rows.
       if rows = [] then sql_return None
       else let u = rad_username (hd rows) in
        sql_bind
          (if js_truthy password
           then sql_bind (conn_exec (\<lambda>co. update_rad_value Radcheck (\<lambda>r. rad_id r = i \<and> is_attr co CP r) (the password)))
                  (\<lambda>n. sql_return (0 < n))
           else sql_return False) (\<lambda>upd1.
        sql_bind (upd_profile u profile upd1) (\<lambda>updated.
        if \<not> updated then sql_return None else user_get_by_id i))))"

text \<open>
  \<open>delete(username)\<close>: every row of the user in both tables, in one transaction; the
  result is whether the \<open>radcheck\<close> deletion removed a row.
\<close>

definition user_delete :: "string \<Rightarrow> bool sql" where
  "user_delete u =
     transaction
      (sql_bind (conn_exec (\<lambda>co. delete_rad Radcheck (by_user co u))) (\<lambda>n.
       sql_bind (conn_exec (\<lambda>co. delete_rad Radreply (by_user co u))) (\<lambda>_.
       sql_return (0 < n))))"

text \<open>\<open>authenticate(username, password)\<close>: the record when its password is \<open>===\<close> the given one.\<close>

definition user_authenticate :: "string \<Rightarrow> string \<Rightarrow> user_rec option sql" where
  "user_authenticate u pw =
     sql_bind (user_get_by_username u) (\<lambda>r.
       case r of None \<Rightarrow> sql_return None
       | Some usr \<Rightarrow> sql_return (if u_password usr = pw then Some usr else None))"

text \<open>
  \<open>addAttribute(username, attribute, op, value, table = 'radcheck')\<close>: one
  auto-committed statement whose text splices the table name in
  (\<open>INSERT INTO ${table} \<dots>\<close>), with the body fields, not validated and possibly
  \<open>undefined\<close>, as its parameters.  With \<open>radcheck\<close> or \<open>radreply\<close> it is the model's
  insert; any other name makes a text only the server parses.
\<close>

definition add_attribute_sql :: "string \<Rightarrow> string" where
  "add_attribute_sql table = ''INSERT INTO '' @ table @ '' (username, attribute, op, value) VALUES (?, ?, ?, ?)''"

definition user_add_attribute :: "string \<Rightarrow> js_str \<Rightarrow> js_str \<Rightarrow> js_str \<Rightarrow> string \<Rightarrow> nat sql" where
  "user_add_attribute u attribute op value table =
     sql_bind (bind_params [Some u, attribute, op, value]) (\<lambda>ps.
       case table_of_name table of
         Some t \<Rightarrow> pool_exec (\<lambda>co. insert_rad t (ps ! 0) (ps ! 1) (ps ! 2) (ps ! 3))
       | None \<Rightarrow> pool_exec_text (add_attribute_sql table) ps (\<lambda>i n. i))"

text \<open>
  \<open>removeAttribute(username, attribute, table = 'radcheck')\<close>:
  \<open>DELETE FROM ${table} WHERE username = ? AND attribute = ?\<close>, answering
  \<open>affectedRows > 0\<close>.
\<close>

definition remove_attribute_sql :: "string \<Rightarrow> string" where
  "remove_attribute_sql table = ''DELETE FROM '' @ table @ '' WHERE username = ? AND attribute = ?''"

definition user_remove_attribute :: "string \<Rightarrow> js_str \<Rightarrow> string \<Rightarrow> bool sql" where
  "user_remove_attribute u attribute table =
     sql_bind (bind_params [Some u, attribute]) (\<lambda>ps.
       case table_of_name table of
         Some t \<Rightarrow> pool_exec (\<lambda>co d. let (n, d') = delete_rad t (by_user_attr co (ps ! 0) (ps ! 1)) d
                                  in (0 < n, d'))
       | None \<Rightarrow> pool_exec_text (remove_attribute_sql table) ps (\<lambda>i n. 0 < n))"

section \<open>Consistency of the user tables\<close>

text \<open>
  The shape the API's user resource needs (spec, \<^emph>\<open>User identity record\<close>): every
  username with a password row has exactly one, has at most one profile row, and no
  profile row is left without a password row.
\<close>

definition n_pw :: "collation \<Rightarrow> string \<Rightarrow> db \<Rightarrow> nat" where
  "n_pw co u d = length (password_rows co u d)"

definition n_mg :: "collation \<Rightarrow> string \<Rightarrow> db \<Rightarrow> nat" where
  "n_mg co u d = length (profile_rows co (radreply d) u)"

definition users_consistent :: "collation \<Rightarrow> db \<Rightarrow> bool" where
  "users_consistent co d \<longleftrightarrow>
     (\<forall>r\<in>set (radcheck d). is_attr co CP r \<longrightarrow> n_pw co (rad_username r) d = 1) \<and>
     (\<forall>r\<in>set (radreply d). is_attr co MG r \<longrightarrow>
        n_mg co (rad_username r) d = 1 \<and> n_pw co (rad_username r) d = 1)"

text \<open>
  The statements of \<open>update\<close>'s callback as one function of the working copy: whether
  \<open>updated\<close> ends true, and the tables the transaction commits.
\<close>

definition update_effect :: "collation \<Rightarrow> string \<Rightarrow> js_str \<Rightarrow> js_str \<Rightarrow> db \<Rightarrow> bool \<times> db" where
  "update_effect co u password profile d =
     (let (n1, d1) = (if js_truthy password
                      then update_rad_value Radcheck (by_user_attr co u CP) (the password) d
                      else (0, d));
          upd1 = (js_truthy password \<and> 0 < n1)
      in if js_truthy profile
         then (if filter (by_user_attr co u MG) (radreply d1) \<noteq> []
               then (let (n2, d2) = update_rad_value Radreply (by_user_attr co u MG) (the profile) d1
                     in (upd1 \<or> 0 < n2, d2))
               else (True, snd (insert_rad Radreply u MG '':='' (the profile) d1)))
         else (upd1, d1))"

text \<open>
  The user tables as the invariant sees them: each row's username and attribute under
  the collation.  Consistency is a property of these keys alone.
\<close>

definition rad_keys :: "collation \<Rightarrow> rad_row list \<Rightarrow> (string \<times> string) list" where
  "rad_keys co rs = map (\<lambda>r. (co (rad_username r), co (rad_attribute r))) rs"

definition keys_consistent :: "string \<Rightarrow> string \<Rightarrow> (string \<times> string) list \<Rightarrow> (string \<times> string) list \<Rightarrow> bool" where
  "keys_consistent cp mg ks rs \<longleftrightarrow>
     (\<forall>(a, b)\<in>set ks. b = cp \<longrightarrow> count_list ks (a, cp) = 1) \<and>
     (\<forall>(a, b)\<in>set rs. b = mg \<longrightarrow> count_list rs (a, mg) = 1 \<and> count_list ks (a, cp) = 1)"

text \<open>A database with a user created outside the API: a password row and no profile row.\<close>

definition bob_db :: db where
  "bob_db = empty_db\<lparr>radcheck := [\<lparr>rad_id = 7, rad_username = ''bob007'', rad_attribute = CP,
                                  rad_op = '':='', rad_value = ''pw1234''\<rparr>], radcheck_next := 8\<rparr>"

text \<open>The tables after \<open>create('alice01', 'secret1')\<close> on a fresh database.\<close>

definition alice_db :: db where
  "alice_db = empty_db\<lparr>radcheck := [\<lparr>rad_id = 1, rad_username = ''alice01'', rad_attribute = CP,
                                   rad_op = '':='', rad_value = ''secret1''\<rparr>],
                      radreply := [\<lparr>rad_id = 1, rad_username = ''alice01'', rad_attribute = MG,
                                   rad_op = '':='', rad_value = ''PPP''\<rparr>],
                      radcheck_next := 2, radreply_next := 2\<rparr>"

text \<open>
  A table name carrying a clause.  Spliced into \<open>removeAttribute\<close>'s text it gives
  \<open>DELETE FROM radcheck WHERE 1=1 -- WHERE username = ? AND attribute = ?\<close>, and MySQL
  reads \<open>-- \<close> as a comment to the end of the line; \<open>where_true_engine\<close> is a server
  that executes that one text as MySQL does (every \<open>radcheck\<close> row deleted) and refuses
  any other.
\<close>

definition injected_table :: string where
  "injected_table = ''radcheck WHERE 1=1 -- ''"

definition where_true_engine :: sql_engine where
  "where_true_engine q ps d =
     (let p = ''DELETE FROM radcheck WHERE 1=1 -- ''
      in if take (length p) q = p then Some (0, length (radcheck d), d\<lparr>radcheck := []\<rparr>) else None)"

section \<open>Lemmas\<close>

subsection \<open>Queries\<close>

lemma sql_match_simps [simp]:
  "by_user co u r \<longleftrightarrow> co (rad_username r) = co u"
  "by_user_attr co u a r \<longleftrightarrow> co (rad_username r) = co u \<and> co (rad_attribute r) = co a"
  "is_attr co a r \<longleftrightarrow> co (rad_attribute r) = co a"
  by (simp_all add: by_user_def by_user_attr_def is_attr_def sql_eq_def)

lemma profile_rows_simps [simp]:
  "profile_rows co [] u = []"
  "profile_rows co (rs @ [r]) u =
     profile_rows co rs u @ (if co (rad_username r) = co u \<and> co (rad_attribute r) = co MG then [r] else [])"
  by (simp_all add: profile_rows_def sql_eq_def)

lemma profile_rows_coll: "co a = co b \<Longrightarrow> profile_rows co rs a = profile_rows co rs b"
  by (simp add: profile_rows_def sql_eq_def)

lemma password_rows_coll: "co a = co b \<Longrightarrow> password_rows co a d = password_rows co b d"
  by (simp add: password_rows_def by_user_attr_def [abs_def] sql_eq_def)

lemma user_join_simps [simp]:
  "user_join co [] rrs = []"
  "user_join co (rc # rcs) rrs =
     (case profile_rows co rrs (rad_username rc) of
        [] \<Rightarrow> [mk_user rc None]
      | ms \<Rightarrow> map (\<lambda>rr. mk_user rc (Some (rad_value rr))) ms) @ user_join co rcs rrs"
  by (simp_all add: user_join_def)

text \<open>The profile the join gives a check row: the first matching reply row's value, or \<open>NULL\<close>.\<close>

lemma user_join_hd:
  "js_index (user_join co (rc # rcs) rrs) 0 = Some (mk_user rc (first_profile co rrs (rad_username rc)))"
  by (simp add: first_profile_def split: list.splits)

lemma get_by_username_q_eq:
  "get_by_username_q co u d =
     (case password_rows co u d of
        [] \<Rightarrow> None
      | rc # _ \<Rightarrow> Some (mk_user rc (first_profile co (radreply d) (rad_username rc))))"
  by (auto simp: get_by_username_q_def first_profile_def split: list.splits)

lemma password_rows_snoc [simp]:
  "password_rows co u (d\<lparr>radcheck := rs @ [r], radcheck_next := n\<rparr>) =
     password_rows co u (d\<lparr>radcheck := rs\<rparr>) @
       (if co (rad_username r) = co u \<and> co (rad_attribute r) = co CP then [r] else [])"
  by (simp add: password_rows_def)

lemma password_rows_reply [simp]:
  "password_rows co u (d\<lparr>radreply := rs, radreply_next := n\<rparr>) = password_rows co u d"
  by (simp add: password_rows_def)

subsection \<open>The methods on a store that does not fail\<close>

lemma user_create_healthy:
  assumes "budget s = None"
  shows "user_create u pw p s =
    (Inr \<lparr>u_id = radcheck_next (committed s), u_user = u, u_password = pw,
          u_profile = Some (default_profile p)\<rparr>,
     s\<lparr>work := snd (insert_rad Radreply u MG '':='' (default_profile p)
                     (snd (insert_rad Radcheck u CP '':='' pw (committed s)))),
       committed := snd (insert_rad Radreply u MG '':='' (default_profile p)
                     (snd (insert_rad Radcheck u CP '':='' pw (committed s))))\<rparr>)"
  using assms
  by (simp add: user_create_def transaction_def conn_exec_def sql_bind_def sql_return_def
                Let_def insert_rad_def split: prod.splits)

text \<open>The two tables after \<open>create\<close>: one row appended to each.\<close>

lemma user_create_tables:
  assumes "user_create u pw p s = (Inr r, s')"
  shows "radcheck (committed s') = radcheck (committed s) @
           [\<lparr>rad_id = radcheck_next (committed s), rad_username = u, rad_attribute = CP, rad_op = '':='', rad_value = pw\<rparr>] \<and>
         radreply (committed s') = radreply (committed s) @
           [\<lparr>rad_id = radreply_next (committed s), rad_username = u, rad_attribute = MG, rad_op = '':='',
             rad_value = default_profile p\<rparr>] \<and>
         nas (committed s') = nas (committed s) \<and> coll s' = coll s \<and>
         r = \<lparr>u_id = radcheck_next (committed s), u_user = u, u_password = pw, u_profile = Some (default_profile p)\<rparr>"
  using assms
  by (auto simp: user_create_def transaction_def conn_exec_def sql_bind_def sql_return_def
                 Let_def insert_rad_def tick_def split: prod.splits if_splits)

lemma create_get_tables:
  assumes run: "user_create u pw p s = (Inr r, s')"
    and no_pw: "password_rows (coll s) u (committed s) = []"
    and no_mg: "profile_rows (coll s) (radreply (committed s)) u = []"
  shows "get_by_username_q (coll s) u (committed s') = Some r"
proof -
  note t = user_create_tables [OF run]
  let ?co = "coll s"
  have pw: "password_rows ?co u (committed s') =
      [\<lparr>rad_id = radcheck_next (committed s), rad_username = u, rad_attribute = CP, rad_op = '':='', rad_value = pw\<rparr>]"
    using t no_pw by (simp add: password_rows_def)
  have mg: "first_profile ?co (radreply (committed s')) u = Some (default_profile p)"
    using t no_mg by (simp add: first_profile_def)
  show ?thesis
    using t pw mg by (simp add: get_by_username_q_eq mk_user_def)
qed

subsection \<open>Consistency\<close>

lemma users_consistent_no_orphan:
  assumes "users_consistent co d" and "\<not> exists_q co u d"
  shows "profile_rows co (radreply d) u = []"
proof (rule ccontr)
  assume "profile_rows co (radreply d) u \<noteq> []"
  then obtain r where r: "r \<in> set (radreply d)" "co (rad_username r) = co u" "co (rad_attribute r) = co MG"
    by (auto simp: profile_rows_def sql_eq_def neq_Nil_conv filter_eq_Cons_iff)
      (metis filter_empty_conv)
  with assms(1) have "n_pw co (rad_username r) d = 1"
    by (auto simp: users_consistent_def)
  then have "password_rows co u d \<noteq> []"
    using password_rows_coll [of co "rad_username r" u, OF r(2)] by (auto simp: n_pw_def)
  with assms(2) show False by (simp add: exists_q_def)
qed

subsection \<open>Creating a user\<close>

text \<open>
  C1: on a store that does not fail, with the user tables consistent and no password
  row for the username, \<open>create\<close> succeeds with the record built from its arguments
  (the profile defaulting to \<open>PPP\<close>, the id the password row's auto-increment id),
  and \<open>getByUsername\<close> then returns exactly that record.
\<close>

theorem create_then_get:
  assumes healthy: "budget s = None"
    and cons: "users_consistent (coll s) (committed s)"
    and fresh: "\<not> exists_q (coll s) u (committed s)"
  shows "\<exists>s'. user_create u pw p s =
           (Inr \<lparr>u_id = radcheck_next (committed s), u_user = u, u_password = pw,
                 u_profile = Some (default_profile p)\<rparr>, s') \<and>
         get_by_username_q (coll s) u (committed s') =
           Some \<lparr>u_id = radcheck_next (committed s), u_user = u, u_password = pw,
                 u_profile = Some (default_profile p)\<rparr>"
proof -
  let ?r = "\<lparr>u_id = radcheck_next (committed s), u_user = u, u_password = pw,
             u_profile = Some (default_profile p)\<rparr>"
  obtain s' where run: "user_create u pw p s = (Inr ?r, s')"
    using user_create_healthy [OF healthy] by blast
  have "password_rows (coll s) u (committed s) = []"
    using fresh by (simp add: exists_q_def)
  moreover have "profile_rows (coll s) (radreply (committed s)) u = []"
    using cons fresh by (rule users_consistent_no_orphan)
  ultimately have "get_by_username_q (coll s) u (committed s') = Some ?r"
    using run by (blast intro: create_get_tables)
  with run show ?thesis by blast
qed

theorem create_then_get_witness:
  "budget (empty_store id) = None \<and> users_consistent id empty_db \<and>
   \<not> exists_q id ''alice01'' empty_db \<and>
   (\<exists>s'. user_create ''alice01'' ''secret1'' None (empty_store id) =
           (Inr \<lparr>u_id = 1, u_user = ''alice01'', u_password = ''secret1'', u_profile = Some ''PPP''\<rparr>, s') \<and>
         get_by_username_q id ''alice01'' (committed s') =
           Some \<lparr>u_id = 1, u_user = ''alice01'', u_password = ''secret1'', u_profile = Some ''PPP''\<rparr>)"
  using create_then_get [of "empty_store id" "''alice01''" "''secret1''" None]
  by (simp add: empty_store_def healthy_store_def empty_db_def users_consistent_def exists_q_def password_rows_def
                default_profile_def)

subsection \<open>Updating a user\<close>

lemma user_update_healthy:
  assumes "budget s = None"
  shows "user_update u pw pr s =
    (Inr (if fst (update_effect (coll s) u pw pr (committed s))
          then get_by_username_q (coll s) u (committed s) else None),
     s\<lparr>work := snd (update_effect (coll s) u pw pr (committed s)),
       committed := snd (update_effect (coll s) u pw pr (committed s))\<rparr>)"
  using assms
  by (simp add: user_update_def upd_password_def upd_profile_def update_effect_def
                user_get_by_username_def transaction_def conn_query_def pool_query_def
                conn_exec_def pool_exec_def sql_bind_def sql_return_def Let_def
           split: prod.splits if_splits)


lemma profile_rows_filter: "filter (by_user_attr co u MG) rs = profile_rows co rs u"
  by (simp add: profile_rows_def sql_eq_def by_user_attr_def [abs_def] is_attr_def)

lemma rad_keys_map_value [simp]:
  "rad_keys co (map (\<lambda>r. if P r then r\<lparr>rad_value := v\<rparr> else r) rs) = rad_keys co rs"
  by (induction rs) (simp_all add: rad_keys_def)

lemma rad_keys_simps [simp]:
  "rad_keys co [] = []" "rad_keys co (rs @ [r]) = rad_keys co rs @ [(co (rad_username r), co (rad_attribute r))]"
  by (simp_all add: rad_keys_def)

lemma exists_q_keys: "exists_q co u d \<longleftrightarrow> (co u, co CP) \<in> set (rad_keys co (radcheck d))"
  by (force simp: exists_q_def password_rows_def rad_keys_def filter_empty_conv image_iff)

lemma get_by_username_q_profile:
  assumes "exists_q co u d"
  shows "\<exists>x. get_by_username_q co u d = Some x \<and> u_profile x = first_profile co (radreply d) u"
proof -
  from assms obtain rc rcs where rows: "password_rows co u d = rc # rcs"
    by (auto simp: exists_q_def neq_Nil_conv)
  then have "rc \<in> set (password_rows co u d)" by simp
  then have "co (rad_username rc) = co u" by (simp add: password_rows_def)
  then have "first_profile co (radreply d) (rad_username rc) = first_profile co (radreply d) u"
    using profile_rows_coll [of co "rad_username rc" u] by (simp add: first_profile_def)
  with rows show ?thesis by (simp add: get_by_username_q_eq mk_user_def)
qed

lemma update_effect_radcheck_keys:
  "rad_keys co (radcheck (snd (update_effect co u pw pr d))) = rad_keys co (radcheck d)"
  by (simp add: update_effect_def update_rad_value_def insert_rad_def Let_def split: prod.splits)

lemma update_effect_none: "\<not> js_truthy pw \<Longrightarrow> \<not> js_truthy pr \<Longrightarrow> update_effect co u pw pr d = (False, d)"
  by (simp add: update_effect_def)

text \<open>The healing branch: no profile row, a truthy profile: one row is inserted.\<close>

lemma update_effect_heal:
  assumes "profile_rows co (radreply d) u = []" and "P \<noteq> []"
  shows "fst (update_effect co u pw (Some P) d) \<and>
         radreply (snd (update_effect co u pw (Some P) d)) = radreply d @
           [\<lparr>rad_id = radreply_next d, rad_username = u, rad_attribute = MG, rad_op = '':='', rad_value = P\<rparr>]"
  using assms
  by (simp add: update_effect_def update_rad_value_def insert_rad_def profile_rows_filter Let_def
           split: prod.splits)

text \<open>
  C2: on a healthy store, \<open>update\<close> of an existing user with a non-empty profile when no
  profile row exists succeeds and heals the tables: \<open>getByUsername\<close> afterwards
  returns the user with that profile.
\<close>

theorem update_heals_profile:
  assumes healthy: "budget s = None"
    and ex: "exists_q (coll s) u (committed s)"
    and no_mg: "profile_rows (coll s) (radreply (committed s)) u = []"
    and P: "P \<noteq> []"
  shows "\<exists>r s'. user_update u pw (Some P) s = (Inr (Some r), s') \<and>
           (\<exists>x. get_by_username_q (coll s) u (committed s') = Some x \<and> u_profile x = Some P)"
proof -
  let ?co = "coll s" and ?d = "committed s"
  let ?e = "update_effect ?co u pw (Some P) ?d"
  note heal = update_effect_heal [OF no_mg P, of pw]
  obtain r where r: "get_by_username_q ?co u ?d = Some r"
    using get_by_username_q_profile [OF ex] by blast
  have run: "user_update u pw (Some P) s = (Inr (Some r), s\<lparr>work := snd ?e, committed := snd ?e\<rparr>)"
    using user_update_healthy [OF healthy] heal r by simp
  have "exists_q ?co u (snd ?e)"
    using ex by (simp add: exists_q_keys update_effect_radcheck_keys)
  moreover have "first_profile ?co (radreply (snd ?e)) u = Some P"
    using heal no_mg by (simp add: first_profile_def)
  ultimately have "\<exists>x. get_by_username_q ?co u (snd ?e) = Some x \<and> u_profile x = Some P"
    using get_by_username_q_profile [of ?co u "snd ?e"] by simp
  with run show ?thesis by auto
qed

theorem update_heals_profile_witness:
  "budget (healthy_store id bob_db) = None \<and> exists_q id ''bob007'' bob_db \<and>
   profile_rows id (radreply bob_db) ''bob007'' = [] \<and> ''gold'' \<noteq> [] \<and>
   (\<exists>r s'. user_update ''bob007'' None (Some ''gold'') (healthy_store id bob_db) = (Inr (Some r), s') \<and>
       (\<exists>x. get_by_username_q id ''bob007'' (committed s') = Some x \<and> u_profile x = Some ''gold''))"
  using update_heals_profile [of "healthy_store id bob_db" "''bob007''" "''gold''" None]
  by (simp add: healthy_store_def bob_db_def empty_db_def exists_q_def password_rows_def profile_rows_def)

text \<open>
  C3: the record \<open>update\<close> returns is the one \<open>getByUsername\<close> reads before the
  update: the re-read goes through the pool, outside the still open transaction, so it
  does not see the new password or profile.
\<close>

theorem update_returns_pre_state:
  assumes "budget s = None" and "user_update u pw pr s = (Inr (Some x), s')"
  shows "Some x = get_by_username_q (coll s) u (committed s)"
  using assms user_update_healthy [of s u pw pr] by (simp split: if_splits)

theorem update_returns_pre_state_witness:
  "budget (healthy_store id alice_db) = None \<and>
   user_update ''alice01'' (Some ''newpass1'') None (healthy_store id alice_db) =
     (Inr (Some \<lparr>u_id = 1, u_user = ''alice01'', u_password = ''secret1'', u_profile = Some ''PPP''\<rparr>),
      snd (user_update ''alice01'' (Some ''newpass1'') None (healthy_store id alice_db))) \<and>
   Some \<lparr>u_id = 1, u_user = ''alice01'', u_password = ''secret1'', u_profile = Some ''PPP''\<rparr> =
     get_by_username_q id ''alice01'' alice_db \<and>
   get_by_username_q id ''alice01'' (committed (snd (user_update ''alice01'' (Some ''newpass1'') None (healthy_store id alice_db)))) =
     Some \<lparr>u_id = 1, u_user = ''alice01'', u_password = ''newpass1'', u_profile = Some ''PPP''\<rparr>"
proof -
  let ?x = "\<lparr>u_id = 1, u_user = ''alice01'', u_password = ''secret1'', u_profile = Some ''PPP''\<rparr>"
  let ?s = "healthy_store id alice_db"
  have b: "budget ?s = None" by (simp add: healthy_store_def)
  have run: "user_update ''alice01'' (Some ''newpass1'') None ?s =
      (Inr (Some ?x), snd (user_update ''alice01'' (Some ''newpass1'') None ?s))"
    by (simp add: user_update_healthy healthy_store_def alice_db_def empty_db_def update_effect_def update_rad_value_def
                  get_by_username_q_eq password_rows_def first_profile_def profile_rows_def mk_user_def)
  have pre: "Some ?x = get_by_username_q id ''alice01'' alice_db"
    using update_returns_pre_state [OF b run] by (simp add: healthy_store_def)
  have post: "get_by_username_q id ''alice01'' (committed (snd (user_update ''alice01'' (Some ''newpass1'') None ?s))) =
      Some \<lparr>u_id = 1, u_user = ''alice01'', u_password = ''newpass1'', u_profile = Some ''PPP''\<rparr>"
    by (simp add: user_update_healthy healthy_store_def alice_db_def empty_db_def update_effect_def update_rad_value_def
                  get_by_username_q_eq password_rows_def first_profile_def profile_rows_def mk_user_def)
  from b run pre post show ?thesis by simp
qed

text \<open>
  C4: on a healthy store, \<open>update\<close> with neither a truthy password nor a truthy profile
  reports "no update" (\<open>null\<close>) and leaves the committed tables exactly as they were.
\<close>

theorem update_without_fields:
  assumes "budget s = None" and "\<not> js_truthy pw" and "\<not> js_truthy pr"
  shows "user_update u pw pr s = (Inr None, s\<lparr>work := committed s\<rparr>)"
  using assms user_update_healthy [of s u pw pr] update_effect_none [of pw pr "coll s" u "committed s"]
  by simp

theorem update_without_fields_witness:
  "budget (empty_store id) = None \<and> \<not> js_truthy None \<and> \<not> js_truthy (Some '''') \<and>
   user_update ''alice01'' None (Some '''') (empty_store id) = (Inr None, empty_store id)"
  using update_without_fields [of "empty_store id" None "Some ''''" "''alice01''"]
  by (simp add: empty_store_def healthy_store_def)


subsection \<open>Deleting a user\<close>

lemma user_delete_healthy:
  assumes "budget s = None"
  shows "user_delete u s =
    (Inr (0 < fst (delete_rad Radcheck (by_user (coll s) u) (committed s))),
     s\<lparr>work := snd (delete_rad Radreply (by_user (coll s) u) (snd (delete_rad Radcheck (by_user (coll s) u) (committed s)))),
       committed := snd (delete_rad Radreply (by_user (coll s) u) (snd (delete_rad Radcheck (by_user (coll s) u) (committed s))))\<rparr>)"
  using assms
  by (simp add: user_delete_def transaction_def conn_exec_def sql_bind_def sql_return_def split: prod.splits)

lemma delete_rad_radcheck_user:
  "radcheck (snd (delete_rad Radreply P (snd (delete_rad Radcheck (by_user co u) d)))) =
     filter (\<lambda>r. co (rad_username r) \<noteq> co u) (radcheck d)"
  by (simp add: delete_rad_def by_user_def [abs_def] sql_eq_def)

text \<open>
  C5: on a healthy store, \<open>delete\<close> reports a deletion whenever the user existed; after
  it the user does not exist and \<open>getByUsername\<close> finds nothing; a second \<open>delete\<close>
  reports not-found.
\<close>

theorem delete_then_gone:
  assumes healthy: "budget s = None"
  shows "\<exists>b s' s''. user_delete u s = (Inr b, s') \<and>
           (exists_q (coll s) u (committed s) \<longrightarrow> b) \<and>
           \<not> exists_q (coll s) u (committed s') \<and>
           get_by_username_q (coll s) u (committed s') = None \<and>
           user_delete u s' = (Inr False, s'')"
proof -
  let ?co = "coll s" and ?d = "committed s"
  let ?d' = "snd (delete_rad Radreply (by_user ?co u) (snd (delete_rad Radcheck (by_user ?co u) ?d)))"
  define s' where "s' = s\<lparr>work := ?d', committed := ?d'\<rparr>"
  have run: "user_delete u s = (Inr (0 < fst (delete_rad Radcheck (by_user ?co u) ?d)), s')"
    unfolding s'_def by (rule user_delete_healthy [OF healthy])
  have gone: "radcheck ?d' = filter (\<lambda>r. ?co (rad_username r) \<noteq> ?co u) (radcheck ?d)"
    by (rule delete_rad_radcheck_user)
  have "exists_q ?co u ?d \<longrightarrow> 0 < fst (delete_rad Radcheck (by_user ?co u) ?d)"
    by (auto simp: exists_q_def password_rows_def delete_rad_def filter_empty_conv by_user_def [abs_def]
                   sql_eq_def)
  moreover have ne: "\<not> exists_q ?co u ?d'"
    using gone by (auto simp: exists_q_def password_rows_def filter_empty_conv)
  moreover have "get_by_username_q ?co u ?d' = None"
    using ne by (simp add: get_by_username_q_eq exists_q_def)
  moreover have "user_delete u s' = (Inr False, snd (user_delete u s'))"
  proof -
    have "budget s' = None" "coll s' = ?co" "committed s' = ?d'" using healthy by (simp_all add: s'_def)
    moreover have "filter (by_user ?co u) (radcheck ?d') = []"
      using gone by (simp add: filter_empty_conv by_user_def [abs_def] sql_eq_def)
    ultimately show ?thesis
      by (simp add: user_delete_healthy delete_rad_def del: delete_rad_radcheck_user)
  qed
  ultimately show ?thesis using run by (simp add: s'_def) blast
qed

theorem delete_then_gone_witness:
  "budget (healthy_store id alice_db) = None \<and>
   (\<exists>b s' s''. user_delete ''alice01'' (healthy_store id alice_db) = (Inr b, s') \<and>
      (exists_q id ''alice01'' alice_db \<longrightarrow> b) \<and>
      \<not> exists_q id ''alice01'' (committed s') \<and>
      get_by_username_q id ''alice01'' (committed s') = None \<and>
      user_delete ''alice01'' s' = (Inr False, s''))"
  using delete_then_gone [of "healthy_store id alice_db" "''alice01''"]
  by (simp add: healthy_store_def)

subsection \<open>Atomicity\<close>

lemma user_create_atomic:
  "user_create u pw p s = (Inl e, s') \<Longrightarrow> db_rows (committed s') = db_rows (committed s)"
  unfolding user_create_def Let_def
  by (erule transaction_Inl_rows [rotated])
     (intro conn_onlyI sql_inv_bind sql_inv_conn_exec_committed sql_inv_return)

lemma user_update_atomic:
  "user_update u pw pr s = (Inl e, s') \<Longrightarrow> db_rows (committed s') = db_rows (committed s)"
  unfolding user_update_def upd_password_def upd_profile_def user_get_by_username_def
  by (erule transaction_Inl_rows [rotated])
     (intro conn_onlyI sql_inv_bind sql_inv_if sql_inv_conn_exec_committed sql_inv_conn_query_committed
            sql_inv_pool_query_committed sql_inv_return)

lemma user_delete_atomic:
  "user_delete u s = (Inl e, s') \<Longrightarrow> db_rows (committed s') = db_rows (committed s)"
  unfolding user_delete_def
  by (erule transaction_Inl_rows [rotated])
     (intro conn_onlyI sql_inv_bind sql_inv_conn_exec_committed sql_inv_return)

text \<open>
  C6: whatever statement fails (the fault budget runs out at \<open>BEGIN\<close>, at any statement
  of the callback, or at \<open>COMMIT\<close>), a failed \<open>create\<close>, \<open>update\<close> or \<open>delete\<close>
  leaves the committed rows of all tables as they were: no half-written user.
\<close>

theorem user_writes_atomic:
  "(user_create u pw p s = (Inl ec, sc) \<longrightarrow> db_rows (committed sc) = db_rows (committed s)) \<and>
   (user_update u pw' pr s = (Inl eu, su) \<longrightarrow> db_rows (committed su) = db_rows (committed s)) \<and>
   (user_delete u s = (Inl ed, sd) \<longrightarrow> db_rows (committed sd) = db_rows (committed s))"
  by (blast intro: user_create_atomic user_update_atomic user_delete_atomic)

theorem user_writes_atomic_witness:
  "user_create ''carol01'' ''secret1'' None (faulty_store 2 empty_db) =
     (Inl Store_Unavailable, snd (user_create ''carol01'' ''secret1'' None (faulty_store 2 empty_db))) \<and>
   db_rows (committed (snd (user_create ''carol01'' ''secret1'' None (faulty_store 2 empty_db)))) = db_rows empty_db \<and>
   user_update ''alice01'' (Some ''newpass1'') (Some ''gold'') (faulty_store 2 alice_db) =
     (Inl Store_Unavailable, snd (user_update ''alice01'' (Some ''newpass1'') (Some ''gold'') (faulty_store 2 alice_db))) \<and>
   db_rows (committed (snd (user_update ''alice01'' (Some ''newpass1'') (Some ''gold'') (faulty_store 2 alice_db)))) = db_rows alice_db \<and>
   user_delete ''alice01'' (faulty_store 2 alice_db) =
     (Inl Store_Unavailable, snd (user_delete ''alice01'' (faulty_store 2 alice_db))) \<and>
   db_rows (committed (snd (user_delete ''alice01'' (faulty_store 2 alice_db)))) = db_rows alice_db"
proof -
  let ?c = "user_create ''carol01'' ''secret1'' None (faulty_store 2 empty_db)"
  let ?u = "user_update ''alice01'' (Some ''newpass1'') (Some ''gold'') (faulty_store 2 alice_db)"
  let ?d = "user_delete ''alice01'' (faulty_store 2 alice_db)"
  have c: "?c = (Inl Store_Unavailable, snd ?c)"
    by (simp add: user_create_def faulty_store_def Let_def transaction_def conn_exec_def sql_bind_def
                  stmt_ok_def tick_def insert_rad_def)
  have u: "?u = (Inl Store_Unavailable, snd ?u)"
    by (simp add: user_update_def upd_password_def upd_profile_def faulty_store_def transaction_def
                  conn_exec_def conn_query_def sql_bind_def sql_return_def stmt_ok_def tick_def update_rad_value_def
                  alice_db_def)
  have d: "?d = (Inl Store_Unavailable, snd ?d)"
    by (simp add: user_delete_def faulty_store_def transaction_def conn_exec_def sql_bind_def
                  stmt_ok_def tick_def delete_rad_def)
  have "db_rows (committed (snd ?c)) = db_rows empty_db"
    using user_writes_atomic [where u = "''carol01''" and pw = "''secret1''" and p = None
            and s = "faulty_store 2 empty_db" and ec = Store_Unavailable and sc = "snd ?c"] c
    by (simp add: faulty_store_def)
  moreover have "db_rows (committed (snd ?u)) = db_rows alice_db"
    using user_writes_atomic [where u = "''alice01''" and pw' = "Some ''newpass1''" and pr = "Some ''gold''"
            and s = "faulty_store 2 alice_db" and eu = Store_Unavailable and su = "snd ?u"] u
    by (simp add: faulty_store_def)
  moreover have "db_rows (committed (snd ?d)) = db_rows alice_db"
    using user_writes_atomic [where u = "''alice01''" and s = "faulty_store 2 alice_db"
            and ed = Store_Unavailable and sd = "snd ?d"] d
    by (simp add: faulty_store_def)
  ultimately show ?thesis using c u d by simp
qed


subsection \<open>Consistency is kept by create, update and delete\<close>

lemma count_list_map: "count_list (map f xs) y = length (filter (\<lambda>x. f x = y) xs)"
  by (induction xs) auto

lemma count_list_filter: "count_list (filter P xs) x = (if P x then count_list xs x else 0)"
  by (induction xs) auto

lemma n_pw_keys: "n_pw co v d = count_list (rad_keys co (radcheck d)) (co v, co CP)"
  by (simp add: n_pw_def password_rows_def rad_keys_def count_list_map by_user_attr_def [abs_def]
                sql_eq_def conj_commute)

lemma n_mg_keys: "length (profile_rows co rs v) = count_list (rad_keys co rs) (co v, co MG)"
  by (simp add: profile_rows_def rad_keys_def count_list_map is_attr_def sql_eq_def)

lemma users_consistent_keys:
  "users_consistent co d \<longleftrightarrow>
     keys_consistent (co CP) (co MG) (rad_keys co (radcheck d)) (rad_keys co (radreply d))"
  by (auto simp: users_consistent_def keys_consistent_def rad_keys_def n_pw_keys [unfolded rad_keys_def]
                 n_mg_def n_mg_keys [unfolded rad_keys_def])

lemma users_consistent_rows:
  "db_rows d' = db_rows d \<Longrightarrow> users_consistent co d' = users_consistent co d"
  by (simp add: db_rows_def users_consistent_keys)

lemma keys_consistent_create:
  assumes "keys_consistent cp mg ks rs" and "count_list ks (a, cp) = 0" and "count_list rs (a, mg) = 0"
  shows "keys_consistent cp mg (ks @ [(a, cp)]) (rs @ [(a, mg)])"
  using assms by (auto simp: keys_consistent_def count_list_0_iff)

lemma keys_consistent_heal:
  assumes "keys_consistent cp mg ks rs" and "count_list ks (a, cp) = 1" and "count_list rs (a, mg) = 0"
  shows "keys_consistent cp mg ks (rs @ [(a, mg)])"
  using assms by (auto simp: keys_consistent_def count_list_0_iff)

lemma keys_consistent_delete:
  "keys_consistent cp mg ks rs \<Longrightarrow>
   keys_consistent cp mg (filter (\<lambda>(x, y). x \<noteq> a) ks) (filter (\<lambda>(x, y). x \<noteq> a) rs)"
  by (auto simp: keys_consistent_def count_list_filter)

lemma rad_keys_filter_user:
  "rad_keys co (filter (\<lambda>r. co (rad_username r) \<noteq> c) rs) = filter (\<lambda>(x, y). x \<noteq> c) (rad_keys co rs)"
  by (induction rs) (simp_all add: rad_keys_def)

lemma exists_count: "users_consistent co d \<Longrightarrow> exists_q co u d \<Longrightarrow> count_list (rad_keys co (radcheck d)) (co u, co CP) = 1"
proof -
  assume c: "users_consistent co d" and e: "exists_q co u d"
  then obtain r where "r \<in> set (radcheck d)" "co (rad_username r) = co u" "co (rad_attribute r) = co CP"
    by (auto simp: exists_q_def password_rows_def filter_empty_conv)
  with c have "n_pw co (rad_username r) d = 1" by (auto simp: users_consistent_def)
  with \<open>co (rad_username r) = co u\<close> show ?thesis by (simp add: n_pw_keys)
qed

lemma update_effect_reply_keys:
  "rad_keys co (radreply (snd (update_effect co u pw pr d))) =
     (if js_truthy pr \<and> profile_rows co (radreply d) u = []
      then rad_keys co (radreply d) @ [(co u, co MG)] else rad_keys co (radreply d))"
  by (simp add: update_effect_def update_rad_value_def insert_rad_def profile_rows_filter Let_def
           split: prod.splits)

lemma user_update_Inr:
  "user_update u pw pr s = (Inr r, s') \<Longrightarrow> committed s' = snd (update_effect (coll s) u pw pr (committed s))"
proof -
  assume run: "user_update u pw pr s = (Inr r, s')"
  have "fault_indep (user_update u pw pr)"
    unfolding user_update_def upd_password_def upd_profile_def user_get_by_username_def
    by (intro fault_indep_transaction fault_indep_bind fault_indep_if fault_indep_conn_exec
              fault_indep_queries fault_indep_return)
  from fault_indepD [OF this run] user_update_healthy [of "s\<lparr>budget := None\<rparr>" u pw pr]
  have "s'\<lparr>budget := None\<rparr> = s\<lparr>budget := None, work := snd (update_effect (coll s) u pw pr (committed s)),
                                     committed := snd (update_effect (coll s) u pw pr (committed s))\<rparr>"
    by simp
  from arg_cong [OF this, of committed] show ?thesis by simp
qed

lemma user_delete_Inr:
  "user_delete u s = (Inr b, s') \<Longrightarrow>
   radcheck (committed s') = filter (\<lambda>r. coll s (rad_username r) \<noteq> coll s u) (radcheck (committed s)) \<and>
   radreply (committed s') = filter (\<lambda>r. coll s (rad_username r) \<noteq> coll s u) (radreply (committed s))"
proof -
  assume run: "user_delete u s = (Inr b, s')"
  have "fault_indep (user_delete u)"
    unfolding user_delete_def
    by (intro fault_indep_transaction fault_indep_bind fault_indep_conn_exec fault_indep_return)
  from fault_indepD [OF this run] user_delete_healthy [of "s\<lparr>budget := None\<rparr>" u]
  have "s'\<lparr>budget := None\<rparr> = s\<lparr>budget := None,
      work := snd (delete_rad Radreply (by_user (coll s) u) (snd (delete_rad Radcheck (by_user (coll s) u) (committed s)))),
      committed := snd (delete_rad Radreply (by_user (coll s) u) (snd (delete_rad Radcheck (by_user (coll s) u) (committed s))))\<rparr>"
    by simp
  from arg_cong [OF this, of committed] show ?thesis
    by (simp add: delete_rad_def by_user_def [abs_def] sql_eq_def)
qed

text \<open>
  C7: the user tables stay consistent (one password row per user, at most one profile
  row, no profile row without a password row) under \<open>create\<close> of a username that does
  not exist, \<open>update\<close> of one that does (the checks the controller makes first), and
  \<open>delete\<close>, whether the operation succeeds or fails at any statement.
\<close>

theorem users_consistent_preserved:
  assumes cons: "users_consistent (coll s) (committed s)"
  shows "(\<not> exists_q (coll s) u (committed s) \<longrightarrow> user_create u pw p s = (rc, sc) \<longrightarrow>
            users_consistent (coll s) (committed sc)) \<and>
         (exists_q (coll s) u (committed s) \<longrightarrow> user_update u pw' pr s = (ru, su) \<longrightarrow>
            users_consistent (coll s) (committed su)) \<and>
         (user_delete u s = (rd, sd) \<longrightarrow> users_consistent (coll s) (committed sd))"
proof (intro conjI impI)
  let ?co = "coll s" and ?d = "committed s"
  let ?ks = "rad_keys ?co (radcheck ?d)" and ?rs = "rad_keys ?co (radreply ?d)"
  have kc: "keys_consistent (?co CP) (?co MG) ?ks ?rs" using cons unfolding users_consistent_keys .
  show "users_consistent ?co (committed sc)"
    if fresh: "\<not> exists_q ?co u ?d" and run: "user_create u pw p s = (rc, sc)"
  proof (cases rc)
    case (Inl e)
    with run have "user_create u pw p s = (Inl e, sc)" by simp
    then have "db_rows (committed sc) = db_rows ?d" by (rule user_create_atomic)
    from users_consistent_rows [OF this, of ?co] cons show ?thesis by simp
  next
    case (Inr r)
    have "count_list ?ks (?co u, ?co CP) = 0"
      using fresh by (simp add: exists_q_keys count_list_0_iff)
    moreover have "count_list ?rs (?co u, ?co MG) = 0"
      using users_consistent_no_orphan [OF cons fresh] n_mg_keys [of ?co "radreply ?d" u] by simp
    ultimately show ?thesis
      using keys_consistent_create [OF kc] user_create_tables [OF run [unfolded Inr]]
      by (simp add: users_consistent_keys)
  qed
  show "users_consistent ?co (committed su)"
    if ex: "exists_q ?co u ?d" and run: "user_update u pw' pr s = (ru, su)"
  proof (cases ru)
    case (Inl e)
    with run have "user_update u pw' pr s = (Inl e, su)" by simp
    then have "db_rows (committed su) = db_rows ?d" by (rule user_update_atomic)
    from users_consistent_rows [OF this, of ?co] cons show ?thesis by simp
  next
    case (Inr r)
    have d': "committed su = snd (update_effect ?co u pw' pr ?d)"
      using user_update_Inr run Inr by blast
    have one: "count_list ?ks (?co u, ?co CP) = 1" by (rule exists_count [OF cons ex])
    show ?thesis
    proof (cases "js_truthy pr \<and> profile_rows ?co (radreply ?d) u = []")
      case True
      then have "count_list ?rs (?co u, ?co MG) = 0" using n_mg_keys [of ?co "radreply ?d" u] by simp
      with keys_consistent_heal [OF kc one] True d' show ?thesis
        by (simp add: users_consistent_keys update_effect_radcheck_keys update_effect_reply_keys)
    next
      case False
      with kc d' show ?thesis
        by (simp only: users_consistent_keys update_effect_radcheck_keys update_effect_reply_keys if_False)
    qed
  qed
  show "users_consistent ?co (committed sd)" if run: "user_delete u s = (rd, sd)"
  proof (cases rd)
    case (Inl e)
    with run have "user_delete u s = (Inl e, sd)" by simp
    then have "db_rows (committed sd) = db_rows ?d" by (rule user_delete_atomic)
    from users_consistent_rows [OF this, of ?co] cons show ?thesis by simp
  next
    case (Inr b)
    from user_delete_Inr [OF run [unfolded Inr]] keys_consistent_delete [OF kc, of "?co u"]
    show ?thesis by (simp add: users_consistent_keys rad_keys_filter_user)
  qed
qed

theorem users_consistent_preserved_witness:
  "users_consistent id alice_db \<and> \<not> exists_q id ''carol01'' alice_db \<and> exists_q id ''alice01'' alice_db \<and>
   users_consistent id (committed (snd (user_create ''carol01'' ''secret3'' None (healthy_store id alice_db)))) \<and>
   users_consistent id (committed (snd (user_update ''alice01'' None (Some ''gold'') (healthy_store id alice_db)))) \<and>
   users_consistent id (committed (snd (user_delete ''alice01'' (healthy_store id alice_db))))"
proof -
  let ?s = "healthy_store id alice_db"
  have c: "users_consistent id alice_db"
    by (simp add: users_consistent_def alice_db_def empty_db_def n_pw_def n_mg_def password_rows_def profile_rows_def)
  have f: "\<not> exists_q id ''carol01'' alice_db" "exists_q id ''alice01'' alice_db"
    by (simp_all add: exists_q_def password_rows_def alice_db_def empty_db_def)
  have "users_consistent id (committed (snd (user_create ''carol01'' ''secret3'' None ?s)))"
    using users_consistent_preserved [where s = ?s and u = "''carol01''" and pw = "''secret3''" and p = None
            and rc = "fst (user_create ''carol01'' ''secret3'' None ?s)"
            and sc = "snd (user_create ''carol01'' ''secret3'' None ?s)"] c f
    by (simp add: healthy_store_def)
  moreover have "users_consistent id (committed (snd (user_update ''alice01'' None (Some ''gold'') ?s)))"
    using users_consistent_preserved [where s = ?s and u = "''alice01''" and pw' = None and pr = "Some ''gold''"
            and ru = "fst (user_update ''alice01'' None (Some ''gold'') ?s)"
            and su = "snd (user_update ''alice01'' None (Some ''gold'') ?s)"] c f
    by (simp add: healthy_store_def)
  moreover have "users_consistent id (committed (snd (user_delete ''alice01'' ?s)))"
    using users_consistent_preserved [where s = ?s and u = "''alice01''"
            and rd = "fst (user_delete ''alice01'' ?s)" and sd = "snd (user_delete ''alice01'' ?s)"] c
    by (simp add: healthy_store_def)
  ultimately show ?thesis using c f by simp
qed


subsection \<open>Custom attributes\<close>

lemma user_remove_attribute_healthy:
  assumes "budget s = None" and "table_of_name tn = Some t"
  shows "user_remove_attribute u (Some a) tn s =
    (Inr (filter (by_user_attr (coll s) u a) (rad_rows t (committed s)) \<noteq> []),
     s\<lparr>committed := snd (delete_rad t (by_user_attr (coll s) u a) (committed s))\<rparr>)"
  using assms
  by (simp add: user_remove_attribute_def bind_params_def pool_exec_def sql_bind_def sql_return_def
                delete_rad_def Let_def filter_empty_conv split: prod.splits)

text \<open>
  C8: \<open>removeAttribute\<close> on one of the two tables, with an attribute name, reports
  whether some row of the user had that attribute, and afterwards none has; with the
  attribute \<open>undefined\<close> (the controller does not validate the body) the driver refuses
  the statement whatever the table; and any other table name is spliced into the text
  the server receives, \<open>DELETE FROM <name> WHERE username = ? AND attribute = ?\<close>, whose
  outcome is whatever the server makes of that text.
\<close>

theorem remove_attribute_behaviour:
  assumes healthy: "budget s = None"
  shows "(table_of_name tn = Some t \<longrightarrow>
           (\<exists>s'. user_remove_attribute u (Some a) tn s =
                   (Inr (filter (by_user_attr (coll s) u a) (rad_rows t (committed s)) \<noteq> []), s') \<and>
                 filter (by_user_attr (coll s) u a) (rad_rows t (committed s')) = [])) \<and>
         user_remove_attribute u None tn s = (Inl Undefined_Bind_Parameter, s) \<and>
         (table_of_name tn = None \<longrightarrow>
           user_remove_attribute u (Some a) tn s =
             (case engine s (''DELETE FROM '' @ tn @ '' WHERE username = ? AND attribute = ?'') [u, a] (committed s) of
                None \<Rightarrow> (Inl Statement_Rejected, s)
              | Some (i, n, d) \<Rightarrow> (Inr (0 < n), s\<lparr>committed := d\<rparr>)))"
proof (intro conjI impI)
  assume tn: "table_of_name tn = Some t"
  have "filter (by_user_attr (coll s) u a) (rad_rows t (snd (delete_rad t (by_user_attr (coll s) u a) (committed s)))) = []"
    by (simp add: delete_rad_def filter_empty_conv)
  then show "\<exists>s'. user_remove_attribute u (Some a) tn s =
                   (Inr (filter (by_user_attr (coll s) u a) (rad_rows t (committed s)) \<noteq> []), s') \<and>
                 filter (by_user_attr (coll s) u a) (rad_rows t (committed s')) = []"
    using user_remove_attribute_healthy [OF healthy tn, of u a] by simp
next
  show "user_remove_attribute u None tn s = (Inl Undefined_Bind_Parameter, s)"
    by (simp add: user_remove_attribute_def bind_params_def sql_throw_def sql_bind_def)
next
  assume "table_of_name tn = None"
  then show "user_remove_attribute u (Some a) tn s =
      (case engine s (''DELETE FROM '' @ tn @ '' WHERE username = ? AND attribute = ?'') [u, a] (committed s) of
         None \<Rightarrow> (Inl Statement_Rejected, s)
       | Some (i, n, d) \<Rightarrow> (Inr (0 < n), s\<lparr>committed := d\<rparr>))"
    using healthy
    by (simp add: user_remove_attribute_def bind_params_def sql_bind_def sql_return_def pool_exec_text_def
        remove_attribute_sql_def split: option.splits)
qed

theorem remove_attribute_behaviour_witness:
  "table_of_name ''radreply'' = Some Radreply \<and> table_of_name injected_table = None \<and>
   user_remove_attribute ''alice01'' (Some MG) ''radreply'' (healthy_store id alice_db) =
     (Inr True, healthy_store id alice_db\<lparr>committed := alice_db\<lparr>radreply := []\<rparr>\<rparr>) \<and>
   user_remove_attribute ''alice01'' None ''radreply'' (healthy_store id alice_db) =
     (Inl Undefined_Bind_Parameter, healthy_store id alice_db) \<and>
   user_remove_attribute ''alice01'' (Some MG) injected_table
       ((healthy_store id alice_db)\<lparr>engine := where_true_engine\<rparr>) =
     (Inr True, (healthy_store id alice_db)\<lparr>engine := where_true_engine, committed := alice_db\<lparr>radcheck := []\<rparr>\<rparr>)"
proof -
  let ?s = "healthy_store id alice_db"
  let ?si = "?s\<lparr>engine := where_true_engine\<rparr>"
  have t: "table_of_name ''radreply'' = Some Radreply" "table_of_name injected_table = None"
    by (simp_all add: table_of_name_def injected_table_def)
  have b: "budget ?s = None" "budget ?si = None" by (simp_all add: healthy_store_def)
  note c1 = remove_attribute_behaviour [OF b(1), of "''radreply''" Radreply "''alice01''" MG]
  note c3 = remove_attribute_behaviour [OF b(2), of injected_table Radreply "''alice01''" MG]
  have "user_remove_attribute ''alice01'' (Some MG) ''radreply'' ?s =
      (Inr True, ?s\<lparr>committed := alice_db\<lparr>radreply := []\<rparr>\<rparr>)"
    using user_remove_attribute_healthy [OF b(1) t(1), of "''alice01''" MG]
    by (simp add: healthy_store_def alice_db_def empty_db_def delete_rad_def)
  moreover have "user_remove_attribute ''alice01'' None ''radreply'' ?s = (Inl Undefined_Bind_Parameter, ?s)"
    using c1 by simp
  moreover have "user_remove_attribute ''alice01'' (Some MG) injected_table ?si =
      (Inr True, ?s\<lparr>engine := where_true_engine, committed := alice_db\<lparr>radcheck := []\<rparr>\<rparr>)"
    using c3 t(2)
    by (simp add: where_true_engine_def injected_table_def healthy_store_def alice_db_def empty_db_def)
  ultimately show ?thesis using t by simp
qed

text \<open>
  C9: \<open>addAttribute\<close> does not keep the user tables consistent: on a consistent
  database it accepts a second \<open>Cleartext-Password\<close> row for an existing user.  The
  spec's "never insert a second password row" holds for \<open>update\<close> only.
\<close>

theorem add_attribute_breaks_consistency:
  "users_consistent id alice_db \<and>
   (\<exists>i s'. user_add_attribute ''alice01'' (Some CP) (Some '':='') (Some ''other1'') ''radcheck''
             (healthy_store id alice_db) = (Inr i, s') \<and>
           \<not> users_consistent id (committed s'))"
proof -
  have c: "users_consistent id alice_db"
    by (simp add: users_consistent_def alice_db_def empty_db_def n_pw_def n_mg_def password_rows_def profile_rows_def)
  have "user_add_attribute ''alice01'' (Some CP) (Some '':='') (Some ''other1'') ''radcheck'' (healthy_store id alice_db) =
      (Inr 2, (healthy_store id alice_db)\<lparr>committed := snd (insert_rad Radcheck ''alice01'' CP '':='' ''other1'' alice_db)\<rparr>)"
    by (simp add: user_add_attribute_def table_of_name_def bind_params_def pool_exec_def sql_bind_def
                  sql_return_def healthy_store_def alice_db_def insert_rad_def empty_db_def)
  moreover have "\<not> users_consistent id (snd (insert_rad Radcheck ''alice01'' CP '':='' ''other1'' alice_db))"
    by (simp add: users_consistent_def insert_rad_def alice_db_def empty_db_def n_pw_def password_rows_def)
  ultimately show ?thesis using c by (simp add: healthy_store_def)
qed

text \<open>
  C10: after \<open>removeAttribute\<close> deletes a user's password row, the user no longer
  exists but the profile row stays behind; a new \<open>create\<close> of the same username then
  succeeds, yet \<open>getByUsername\<close> returns the old profile, not the one just created: the
  spec's create/get round trip fails in a state the API itself reaches.
\<close>

theorem orphan_profile_shadows_create:
  "\<exists>s1 s2 r x.
     user_remove_attribute ''alice01'' (Some CP) ''radcheck'' (healthy_store id alice_db) = (Inr True, s1) \<and>
     \<not> exists_q id ''alice01'' (committed s1) \<and>
     user_create ''alice01'' ''secret2'' (Some ''gold'') s1 = (Inr r, s2) \<and> u_profile r = Some ''gold'' \<and>
     get_by_username_q id ''alice01'' (committed s2) = Some x \<and> u_profile x = Some ''PPP''"
proof -
  let ?s1 = "(healthy_store id alice_db)\<lparr>committed := alice_db\<lparr>radcheck := []\<rparr>\<rparr>"
  have rm: "user_remove_attribute ''alice01'' (Some CP) ''radcheck'' (healthy_store id alice_db) = (Inr True, ?s1)"
    using user_remove_attribute_healthy [of "healthy_store id alice_db" "''radcheck''" Radcheck "''alice01''" CP]
    by (simp add: table_of_name_def healthy_store_def alice_db_def empty_db_def delete_rad_def)
  have ne: "\<not> exists_q id ''alice01'' (committed ?s1)"
    by (simp add: exists_q_def password_rows_def)
  obtain s2 where cr: "user_create ''alice01'' ''secret2'' (Some ''gold'') ?s1 =
      (Inr \<lparr>u_id = 2, u_user = ''alice01'', u_password = ''secret2'', u_profile = Some ''gold''\<rparr>, s2)"
    and c2: "committed s2 = snd (insert_rad Radreply ''alice01'' MG '':='' ''gold''
                 (snd (insert_rad Radcheck ''alice01'' CP '':='' ''secret2'' (alice_db\<lparr>radcheck := []\<rparr>))))"
    using user_create_healthy [of ?s1 "''alice01''" "''secret2''" "Some ''gold''"]
    by (simp add: healthy_store_def alice_db_def empty_db_def default_profile_def)
  have "get_by_username_q id ''alice01'' (committed s2) =
      Some \<lparr>u_id = 2, u_user = ''alice01'', u_password = ''secret2'', u_profile = Some ''PPP''\<rparr>"
    unfolding c2
    by (simp add: get_by_username_q_eq insert_rad_def alice_db_def empty_db_def password_rows_def
                  first_profile_def profile_rows_def mk_user_def)
  with rm ne cr show ?thesis by fastforce
qed


text \<open>
  \<open>exists\<close> and \<open>getByUsername\<close> agree: the \<open>LEFT JOIN\<close> never drops a password
  row, so a user has a record exactly when a \<open>Cleartext-Password\<close> row exists, whatever
  the reply table holds.  The controller checks \<open>exists\<close> before \<open>create\<close> and
  \<open>getByUsername\<close> before the other operations; this makes the two checks the same.
\<close>

theorem exists_iff_get:
  "exists_q co u d \<longleftrightarrow> get_by_username_q co u d \<noteq> None"
  by (simp add: get_by_username_q_eq exists_q_def split: list.splits)

end
