(* ===== verification/User_Search.thy ===== *)
theory User_Search
  imports User_Model
begin

text \<open>
  \<open>UserModel.getAll\<close> and \<open>UserModel.search\<close> (definitions \<open>list_q\<close>, \<open>search_pattern\<close>,
  \<open>user_get_all\<close>, \<open>user_search\<close> of \<open>User_Model\<close>): the search is the listing
  restricted to the usernames that match \<open>LIKE '%term%'\<close>; for a term without
  wildcard characters that is exactly substring containment under the collation, and
  with them it is not, because the term is interpolated unescaped.
\<close>

text \<open>Two users whose names differ only where the search term has an underscore.\<close>

definition wild_db :: db where
  "wild_db = empty_db\<lparr>radcheck := [\<lparr>rad_id = 1, rad_username = ''maria_01'', rad_attribute = CP, rad_op = '':='', rad_value = ''pw1pw1''\<rparr>,
                                  \<lparr>rad_id = 2, rad_username = ''mariax01'', rad_attribute = CP, rad_op = '':='', rad_value = ''pw2pw2''\<rparr>],
                      radcheck_next := 3\<rparr>"

section \<open>Lemmas\<close>

lemma user_join_filter_user:
  "filter (\<lambda>u. Q (u_user u)) (user_join co rcs rrs) = user_join co (filter (\<lambda>r. Q (rad_username r)) rcs) rrs"
  by (induction rcs) (auto simp: mk_user_def split: list.splits)

lemma user_join_rows:
  "x \<in> set (user_join co rcs rrs) \<Longrightarrow> \<exists>rc\<in>set rcs. u_id x = rad_id rc \<and> u_user x = rad_username rc"
  by (induction rcs) (auto simp: mk_user_def split: list.splits)

lemma user_join_id_user:
  assumes "distinct (map rad_id rcs)" "x \<in> set (user_join co rcs rrs)" "y \<in> set (user_join co rcs rrs)"
    "u_id x = u_id y"
  shows "u_user x = u_user y"
proof -
  obtain rx where rx: "rx \<in> set rcs" "u_id x = rad_id rx" "u_user x = rad_username rx"
    using user_join_rows [OF assms(2)] by blast
  obtain ry where ry: "ry \<in> set rcs" "u_id y = rad_id ry" "u_user y = rad_username ry"
    using user_join_rows [OF assms(3)] by blast
  have "inj_on rad_id (set rcs)" using assms(1) by (simp add: distinct_map)
  with rx ry assms(4) have "rx = ry" by (simp add: inj_on_eq_iff)
  with rx ry show ?thesis by simp
qed

lemma list_q_filter:
  assumes "distinct (map rad_id (radcheck d))"
  shows "list_q P co d = filter (\<lambda>u. P (u_user u)) (list_q (\<lambda>_. True) co d)"
proof -
  let ?rcs = "filter (is_attr co CP) (radcheck d)"
  have dr: "distinct (map rad_id ?rcs)" using assms by (rule distinct_map_filter_sub)
  have resp: "\<forall>x\<in>set (user_join co ?rcs (radreply d)). \<forall>y\<in>set (user_join co ?rcs (radreply d)).
          user_key co x = user_key co y \<longrightarrow> P (u_user x) = P (u_user y)"
  proof (intro ballI impI)
    fix x y assume x: "x \<in> set (user_join co ?rcs (radreply d))" and y: "y \<in> set (user_join co ?rcs (radreply d))"
      and "user_key co x = user_key co y"
    then have "u_id x = u_id y" by (simp add: user_key_def)
    with user_join_id_user [OF dr x y] show "P (u_user x) = P (u_user y)" by simp
  qed
  have "filter (\<lambda>u. P (u_user u)) (remdups_key (user_key co) (user_join co ?rcs (radreply d))) =
             remdups_key (user_key co) (user_join co (filter (\<lambda>r. P (rad_username r)) ?rcs) (radreply d))"
    by (simp only: filter_remdups_key [where P = "\<lambda>u. P (u_user u)", OF resp] user_join_filter_user)
  moreover have "filter (\<lambda>r. is_attr co CP r \<and> P (rad_username r)) (radcheck d) = filter (\<lambda>r. P (rad_username r)) ?rcs"
    by (simp only: filter_filter)
  moreover have "filter (\<lambda>r. is_attr co CP r \<and> True) (radcheck d) = ?rcs"
    by (simp only: simp_thms)
  ultimately show ?thesis
    unfolding list_q_def filter_sort by (simp only:)
qed

section \<open>Properties\<close>

text \<open>
  C19: on a radcheck table with distinct ids, \<open>search(term)\<close> for a term without
  \<open>%\<close>, \<open>_\<close> or backslash returns exactly the rows of \<open>getAll\<close> whose username
  contains the term (character by character under the collation), in the same order.
\<close>

theorem search_literal_term:
  assumes "distinct (map rad_id (radcheck d))" and "like_literal t"
  shows "list_q (sql_like co (search_pattern t)) co d =
         filter (\<lambda>u. \<exists>a t' b. u_user u = a @ t' @ b \<and> list_all2 (\<lambda>x y. sql_eq co [x] [y]) t t')
           (list_q (\<lambda>_. True) co d)"
  using list_q_filter [OF assms(1), of "sql_like co (search_pattern t)" co] assms(2)
  by (simp add: search_pattern_def sql_like_contains)

theorem search_literal_term_witness:
  "distinct (map rad_id (radcheck wild_db)) \<and> like_literal ''ria'' \<and>
   list_q (sql_like id (search_pattern ''ria'')) id wild_db =
     filter (\<lambda>u. \<exists>a t' b. u_user u = a @ t' @ b \<and> list_all2 (\<lambda>x y. sql_eq id [x] [y]) ''ria'' t')
       (list_q (\<lambda>_. True) id wild_db)"
proof -
  have h: "distinct (map rad_id (radcheck wild_db))" "like_literal ''ria''"
    by (simp_all add: wild_db_def like_literal_def)
  with search_literal_term [OF h, of id] show ?thesis by simp
qed

text \<open>
  C20: the search term is put into the pattern unescaped, so an underscore in it
  matches any character: searching \<open>a_0\<close> returns \<open>mariax01\<close>, whose name does not
  contain \<open>a_0\<close>, beside \<open>maria_01\<close>.
\<close>

theorem search_wildcards_unescaped:
  "fst (user_search ''a_0'' (healthy_store id wild_db)) =
     Inr (list_q (\<lambda>_. True) id wild_db) \<and>
   map u_user (list_q (\<lambda>_. True) id wild_db) = [''maria_01'', ''mariax01''] \<and>
   \<not> (\<exists>a b. ''mariax01'' = a @ ''a_0'' @ b)"
proof -
  have all: "map u_user (list_q (\<lambda>_. True) id wild_db) = [''maria_01'', ''mariax01'']"
    by (simp add: list_q_def wild_db_def empty_db_def user_key_def is_attr_def mk_user_def)
  have "list_q (sql_like id (search_pattern ''a_0'')) id wild_db = list_q (\<lambda>_. True) id wild_db"
    by (simp add: list_q_def wild_db_def empty_db_def search_pattern_def user_key_def is_attr_def
        mk_user_def sql_eq_def)
  moreover have "\<not> (\<exists>a b. ''mariax01'' = a @ ''a_0'' @ b)"
    by (auto simp: Cons_eq_append_conv append_eq_Cons_conv)
  ultimately show ?thesis using all
    by (simp add: user_search_def pool_query_def pool_exec_def healthy_store_def stmt_ok_def tick_def)
qed

end
