(* ===== verification/Http_Handler.thy ===== *)
theory Http_Handler
  imports Radius_Store
begin

text \<open>
  What every controller shares: a handler maps the store to a response and the new
  store, and its \<open>try { \<dots> } catch (error) { res.status(500) \<dots> }\<close> turns a store
  error into 500 \<open>Internal server error\<close>, keeping the effects of the statements that
  already ran.  The lemmas read successful runs of the statement monad back, show
  that a 500 from an atomic computation leaves the committed rows alone, and that a
  handler whose results keep the envelope consistent (\<open>envelope_ok\<close>) answers with a
  consistent envelope.
\<close>

type_synonym 'd handler = "store \<Rightarrow> 'd response \<times> store"

definition catch_500 :: "'d response sql \<Rightarrow> 'd handler" where
  "catch_500 m s = (case m s of (Inl _, s') \<Rightarrow> (internal_error, s') | (Inr r, s') \<Rightarrow> (r, s'))"

text \<open>The envelope's two ways of saying whether a request succeeded agree: \<open>success\<close> is
  true exactly on the 2xx statuses.\<close>

definition envelope_ok :: "'d response \<Rightarrow> bool" where
  "envelope_ok r \<longleftrightarrow> (r_success r \<longleftrightarrow> r_status r < 300)"

section \<open>Lemmas\<close>

subsection \<open>Successful runs\<close>

lemma pool_exec_Inr:
  "pool_exec f s = (Inr a, s') \<Longrightarrow>
   stmt_ok s \<and> a = fst (f (coll s) (committed s)) \<and> committed s' = snd (f (coll s) (committed s))"
  by (cases "stmt_ok s") (auto simp: pool_exec_def split: prod.splits)

lemma pool_query_Inr:
  "pool_query f s = (Inr a, s') \<Longrightarrow> a = f (coll s) (committed s) \<and> committed s' = committed s"
  by (auto simp: pool_query_def dest: pool_exec_Inr)

lemma bind_params_Inr:
  "bind_params ps s = (Inr a, s') \<Longrightarrow> a = map the ps \<and> s' = s \<and> list_all (\<lambda>p. p \<noteq> None) ps"
  by (auto simp: bind_params_def sql_return_def sql_throw_def split: if_splits)

lemma sql_bind_InrE:
  assumes "sql_bind m f s = (Inr b, s')"
  obtains a s1 where "m s = (Inr a, s1)" and "f a s1 = (Inr b, s')"
  using assms by (auto simp: sql_bind_def split: prod.splits sum.splits)

subsection \<open>The catch\<close>

lemma catch_500_Inr: "m s = (Inr r, s') \<Longrightarrow> catch_500 m s = (r, s')"
  by (simp add: catch_500_def)

lemma catch_500_Inl: "m s = (Inl e, s') \<Longrightarrow> catch_500 m s = (internal_error, s')"
  by (simp add: catch_500_def)

lemma catch_500_atomic:
  assumes "sql_atomic m" and "sql_post (\<lambda>r. r_status r \<noteq> 500) m"
    and "r_status (fst (catch_500 m s)) = 500"
  shows "db_rows (committed (snd (catch_500 m s))) = db_rows (committed s)"
proof (cases "m s")
  case (Pair r s')
  show ?thesis
  proof (cases r)
    case (Inl e)
    with Pair have "catch_500 m s = (internal_error, s')" by (simp add: catch_500_Inl)
    with Pair Inl assms(1) show ?thesis by (simp add: sql_atomicD)
  next
    case (Inr x)
    with Pair have "catch_500 m s = (x, s')" by (simp add: catch_500_Inr)
    moreover have "r_status x \<noteq> 500" using sql_postD [OF assms(2)] Pair Inr by simp
    ultimately show ?thesis using assms(3) by simp
  qed
qed

lemma conn_only_pool_query [intro]: "conn_only (pool_query f)"
  by (intro conn_onlyI sql_inv_pool_query_committed)

lemma conn_only_bind_params [intro]: "conn_only (bind_params ps)"
  by (intro conn_onlyI sql_inv_bind_params)

subsection \<open>The envelope\<close>

lemma envelope_ok_simps [simp]:
  "envelope_ok (deny st m) \<longleftrightarrow> 300 \<le> st" "envelope_ok (reply st m d) \<longleftrightarrow> st < 300"
  "envelope_ok (ack st m) \<longleftrightarrow> st < 300" "envelope_ok internal_error"
  by (auto simp: envelope_ok_def deny_def reply_def ack_def internal_error_def)

lemma catch_500_envelope: "sql_post envelope_ok m \<Longrightarrow> envelope_ok (fst (catch_500 m s))"
  by (auto simp: catch_500_def sql_post_def split: prod.split sum.split)

lemmas envelope_intros = catch_500_envelope sql_post_bind sql_post_return sql_post_if sql_post_option

end
