(* ===== verification/Validation.thy ===== *)
theory Validation
  imports Complex_Main Radius_Prelude
begin

text \<open>
  \<open>src/middleware/validation.js\<close>: Joi schemas checked by one middleware,
  \<open>schema.validate(req[property], {abortEarly: false, stripUnknown: true})\<close>.  A schema is
  data here, as in the source, and \<open>validate_object\<close> is the part of Joi it uses: each
  key's type and rules in order, every violation collected, defaults for missing keys,
  unknown keys dropped, numbers converted.  Two checks Joi implements by itself are
  parameters (\<open>joi_lib\<close>): the IP address syntax of \<open>string().ip(...)\<close> and the conversion
  of a numeric string by \<open>number()\<close>.  JSON values are \<open>jval\<close>; a number is a rational.
\<close>

section \<open>JSON values and Joi schemas\<close>

datatype jval = JStr string | JNum rat | JBool bool | JNull | JComposite

text \<open>A JSON object; a repeated key keeps its last value, as \<open>JSON.parse\<close> does.\<close>

type_synonym jobj = "(string \<times> jval) list"

definition lookup :: "jobj \<Rightarrow> string \<Rightarrow> jval option" where
  "lookup obj k = map_of (rev obj) k"

record joi_lib =
  joi_ip :: "string \<Rightarrow> bool"
  joi_num :: "string \<Rightarrow> rat option"

datatype jtype = JoiString | JoiNumber

datatype jrule = Alphanum | StrMin nat | StrMax nat | Ip | Integer | NumMin int | NumMax int

record jfield =
  jf_key :: string
  jf_type :: jtype
  jf_valid :: "string list option"
  jf_rules :: "jrule list"
  jf_required :: bool
  jf_default :: "jval option"
  jf_messages :: "(string \<times> string) list"

record jschema =
  js_fields :: "jfield list"
  js_min_keys :: "nat option"

text \<open>An entry of \<open>errors\<close>: \<open>{field: path.join('.'), message}\<close>, with the error code and the
  schema's custom message for it (\<open>None\<close>: Joi's own text).\<close>

record verr =
  ve_field :: string
  ve_code :: string
  ve_message :: "string option"

definition field_error :: "jfield \<Rightarrow> string \<Rightarrow> verr" where
  "field_error f c = \<lparr>ve_field = jf_key f, ve_code = c, ve_message = map_of (jf_messages f) c\<rparr>"

section \<open>The checks\<close>

definition is_alnum :: "char \<Rightarrow> bool" where
  "is_alnum c \<longleftrightarrow> c \<in> set (''abcdefghijklmnopqrstuvwxyzABCDEFGHIJKLMNOPQRSTUVWXYZ0123456789'')"

text \<open>The code of a failed string rule.\<close>

fun str_rule :: "joi_lib \<Rightarrow> string \<Rightarrow> jrule \<Rightarrow> string option" where
  "str_rule lib s Alphanum = (if list_all is_alnum s then None else Some ''string.alphanum'')"
| "str_rule lib s (StrMin n) = (if n \<le> length s then None else Some ''string.min'')"
| "str_rule lib s (StrMax n) = (if length s \<le> n then None else Some ''string.max'')"
| "str_rule lib s Ip = (if joi_ip lib s then None else Some ''string.ip'')"
| "str_rule lib s _ = None"

definition is_integer :: "rat \<Rightarrow> bool" where
  "is_integer r \<longleftrightarrow> of_int \<lfloor>r\<rfloor> = r"

fun num_rule :: "rat \<Rightarrow> jrule \<Rightarrow> string option" where
  "num_rule r Integer = (if is_integer r then None else Some ''number.integer'')"
| "num_rule r (NumMin m) = (if of_int m \<le> r then None else Some ''number.min'')"
| "num_rule r (NumMax m) = (if r \<le> of_int m then None else Some ''number.max'')"
| "num_rule r _ = None"

text \<open>\<open>number()\<close> takes a number, or a string it can convert.\<close>

fun num_of :: "joi_lib \<Rightarrow> jval \<Rightarrow> rat option" where
  "num_of lib (JNum r) = Some r"
| "num_of lib (JStr s) = joi_num lib s"
| "num_of lib _ = None"

text \<open>
  One key: \<open>any.required\<close> or the default when it is missing; a value outside \<open>valid(\<dots>)\<close>
  is \<open>any.only\<close>; a value of the wrong type is \<open>string.base\<close> / \<open>number.base\<close> and an empty
  string \<open>string.empty\<close>, with no rule checked; otherwise every failing rule, in order.
\<close>

definition validate_field :: "joi_lib \<Rightarrow> jfield \<Rightarrow> jval option \<Rightarrow> verr list \<times> jval option" where
  "validate_field lib f v =
     (case v of
        None \<Rightarrow> (if jf_required f then [field_error f ''any.required''] else [], jf_default f)
      | Some x \<Rightarrow>
          (case jf_valid f of
             Some vs \<Rightarrow> (if x \<in> JStr ` set vs then [] else [field_error f ''any.only''], Some x)
           | None \<Rightarrow>
               (case jf_type f of
                  JoiString \<Rightarrow>
                    (case x of
                       JStr s \<Rightarrow>
                         (if s = [] then [field_error f ''string.empty'']
                          else map (field_error f) (List.map_filter (str_rule lib s) (jf_rules f)), Some x)
                     | _ \<Rightarrow> ([field_error f ''string.base''], Some x))
                | JoiNumber \<Rightarrow>
                    (case num_of lib x of
                       None \<Rightarrow> ([field_error f ''number.base''], Some x)
                     | Some r \<Rightarrow> (map (field_error f) (List.map_filter (num_rule r) (jf_rules f)), Some (JNum r))))))"

text \<open>
  The object: each key of the schema in order, all errors collected
  (\<open>abortEarly: false\<close>), the value holding the schema's keys only (\<open>stripUnknown\<close>);
  \<open>min(n)\<close> counts the keys of that value.
\<close>

definition validate_object :: "joi_lib \<Rightarrow> jschema \<Rightarrow> jobj \<Rightarrow> verr list \<times> jobj" where
  "validate_object lib sch obj =
     (let rs = map (\<lambda>f. (jf_key f, validate_field lib f (lookup obj (jf_key f)))) (js_fields sch);
          errs = concat (map (\<lambda>(k, e, v). e) rs);
          val = List.map_filter (\<lambda>(k, e, v). map_option (Pair k) v) rs;
          minerr = (case js_min_keys sch of None \<Rightarrow> []
                    | Some n \<Rightarrow> if length val < n
                               then [\<lparr>ve_field = [], ve_code = ''object.min'', ve_message = None\<rparr>] else [])
      in (errs @ minerr, val))"

text \<open>\<open>validate(schema)\<close>: the list of errors, or the cleaned value that replaces \<open>req[property]\<close>.\<close>

definition validate :: "joi_lib \<Rightarrow> jschema \<Rightarrow> jobj \<Rightarrow> verr list + jobj" where
  "validate lib sch obj =
     (let (errs, val) = validate_object lib sch obj in if errs \<noteq> [] then Inl errs else Inr val)"

text \<open>The answer to a failed validation, \<open>{success: false, message, errors}\<close>; the list travels in
  the slot of \<open>data\<close>.\<close>

definition validation_failed :: "verr list \<Rightarrow> verr list response" where
  "validation_failed errs = \<lparr>r_status = 400, r_success = False, r_message = ''Validation error'', r_data = Some errs\<rparr>"

section \<open>The schemas\<close>

definition field :: "string \<Rightarrow> jtype \<Rightarrow> jfield" where
  "field k t = \<lparr>jf_key = k, jf_type = t, jf_valid = None, jf_rules = [], jf_required = False,
                jf_default = None, jf_messages = []\<rparr>"

definition nas_types :: "string list" where
  "nas_types = [''cisco'', ''computone'', ''livingston'', ''juniper'', ''max40xx'', ''multitech'', ''netserver'',
                ''pathras'', ''patton'', ''portslave'', ''tc'', ''usrhiper'', ''other'']"

definition nas_name_field :: "bool \<Rightarrow> jfield" where
  "nas_name_field req = (field ''name'' JoiString)\<lparr>jf_rules := [Alphanum, StrMin 3, StrMax 30], jf_required := req,
     jf_messages := [(''string.alphanum'', ''Name must contain only alphanumeric characters''),
                     (''string.min'', ''Name must be at least 3 characters long''),
                     (''string.max'', ''Name must not exceed 30 characters'')] @
                    (if req then [(''any.required'', ''Name is required'')] else [])\<rparr>"

definition nas_ip_field :: "bool \<Rightarrow> jfield" where
  "nas_ip_field req = (field ''ip'' JoiString)\<lparr>jf_rules := [Ip], jf_required := req,
     jf_messages := [(''string.ip'', ''Must be a valid IP address'')] @
                    (if req then [(''any.required'', ''IP address is required'')] else [])\<rparr>"

definition nas_secret_field :: "bool \<Rightarrow> jfield" where
  "nas_secret_field req = (field ''secret'' JoiString)\<lparr>jf_rules := [StrMin 8, StrMax 100], jf_required := req,
     jf_messages := [(''string.min'', ''Secret must be at least 8 characters long''),
                     (''string.max'', ''Secret must not exceed 100 characters'')] @
                    (if req then [(''any.required'', ''Secret is required'')] else [])\<rparr>"

definition nas_create_schema :: jschema where
  "nas_create_schema = \<lparr>js_fields =
     [nas_name_field True, nas_ip_field True, nas_secret_field True,
      (field ''type'' JoiString)\<lparr>jf_valid := Some nas_types, jf_default := Some (JStr ''other'')\<rparr>,
      (field ''ports'' JoiNumber)\<lparr>jf_rules := [Integer, NumMin 1, NumMax 65535], jf_default := Some (JNum 1812)\<rparr>,
      (field ''community'' JoiString)\<lparr>jf_rules := [StrMax 50], jf_default := Some (JStr [])\<rparr>,
      (field ''description'' JoiString)\<lparr>jf_rules := [StrMax 200], jf_default := Some (JStr [])\<rparr>],
     js_min_keys = None\<rparr>"

definition nas_update_schema :: jschema where
  "nas_update_schema = \<lparr>js_fields =
     [nas_name_field False, nas_ip_field False, nas_secret_field False,
      (field ''type'' JoiString)\<lparr>jf_valid := Some nas_types\<rparr>,
      (field ''ports'' JoiNumber)\<lparr>jf_rules := [Integer, NumMin 1, NumMax 65535]\<rparr>,
      (field ''community'' JoiString)\<lparr>jf_rules := [StrMax 50]\<rparr>,
      (field ''description'' JoiString)\<lparr>jf_rules := [StrMax 200]\<rparr>],
     js_min_keys = Some 1\<rparr>"

definition user_create_schema :: jschema where
  "user_create_schema = \<lparr>js_fields =
     [(field ''user'' JoiString)\<lparr>jf_rules := [StrMin 6], jf_required := True,
        jf_messages := [(''string.min'', ''Username must be at least 6 characters long''),
                        (''any.required'', ''Username is required'')]\<rparr>,
      (field ''password'' JoiString)\<lparr>jf_rules := [StrMin 6], jf_required := True,
        jf_messages := [(''string.min'', ''Password must be at least 6 characters long''),
                        (''any.required'', ''Password is required'')]\<rparr>,
      field ''profile'' JoiString],
     js_min_keys = None\<rparr>"

definition user_update_schema :: jschema where
  "user_update_schema = \<lparr>js_fields =
     [(field ''password'' JoiString)\<lparr>jf_rules := [StrMin 6],
        jf_messages := [(''string.min'', ''Password must be at least 6 characters long'')]\<rparr>,
      field ''profile'' JoiString],
     js_min_keys = Some 1\<rparr>"

definition login_schema :: jschema where
  "login_schema = \<lparr>js_fields =
     [(field ''username'' JoiString)\<lparr>jf_required := True, jf_messages := [(''any.required'', ''Username is required'')]\<rparr>,
      (field ''password'' JoiString)\<lparr>jf_required := True, jf_messages := [(''any.required'', ''Password is required'')]\<rparr>],
     js_min_keys = None\<rparr>"

definition pagination_schema :: jschema where
  "pagination_schema = \<lparr>js_fields =
     [(field ''page'' JoiNumber)\<lparr>jf_rules := [Integer, NumMin 1], jf_default := Some (JNum 1)\<rparr>,
      (field ''limit'' JoiNumber)\<lparr>jf_rules := [Integer, NumMin 1, NumMax 100], jf_default := Some (JNum 10)\<rparr>,
      (field ''search'' JoiString)\<lparr>jf_rules := [StrMax 100]\<rparr>],
     js_min_keys = None\<rparr>"

definition id_schema :: jschema where
  "id_schema = \<lparr>js_fields =
     [(field ''id'' JoiNumber)\<lparr>jf_rules := [Integer, NumMin 1], jf_required := True,
        jf_messages := [(''number.base'', ''ID must be a number''), (''number.integer'', ''ID must be an integer''),
                        (''number.min'', ''ID must be greater than 0''), (''any.required'', ''ID is required'')]\<rparr>],
     js_min_keys = None\<rparr>"

definition username_schema :: jschema where
  "username_schema = \<lparr>js_fields =
     [(field ''username'' JoiString)\<lparr>jf_rules := [StrMin 6, StrMax 64], jf_required := True,
        jf_messages := [(''string.min'', ''Username must be at least 6 characters long''),
                        (''string.max'', ''Username must not exceed 64 characters''),
                        (''any.required'', ''Username is required'')]\<rparr>],
     js_min_keys = None\<rparr>"

text \<open>The schema's keys are distinct and none is the root path \<open>''''\<close> of \<open>object.min\<close>.\<close>
definition keys_ok :: "jschema \<Rightarrow> bool" where
  "keys_ok sch \<longleftrightarrow> distinct (map jf_key (js_fields sch)) \<and> [] \<notin> jf_key ` set (js_fields sch)"

text \<open>The error \<open>.min(1)\<close> reports at the root of the object.\<close>

definition object_min_error :: verr where
  "object_min_error = \<lparr>ve_field = [], ve_code = ''object.min'', ve_message = None\<rparr>"

text \<open>A library instance for the examples: a fixed set of valid addresses, and decimal digit strings
  as numbers.\<close>

definition demo_lib :: joi_lib where
  "demo_lib = \<lparr>joi_ip = (\<lambda>s. s \<in> {''10.0.0.1'', ''10.0.0.2'', ''192.168.1.1''}),
               joi_num = (\<lambda>s. if s \<noteq> [] \<and> list_all (\<lambda>c. c \<in> set ''0123456789'') s
                               then Some (of_nat (foldl (\<lambda>n c. 10 * n + (of_char c - 48)) 0 s)) else None)\<rparr>"

section \<open>Properties of the validation guard\<close>


lemma map_filter_Nil_iff: "List.map_filter g xs = [] \<longleftrightarrow> (\<forall>x\<in>set xs. g x = None)"
  by (induction xs) (auto simp: List.map_filter_def)

lemma validate_field_keys: "e \<in> set (fst (validate_field lib f v)) \<Longrightarrow> ve_field e = jf_key f"
  by (auto simp: validate_field_def field_error_def List.map_filter_def
           split: option.splits jtype.splits jval.splits if_splits)

lemma filter_concat_own:
  assumes "distinct (map key xs)" "x \<in> set xs"
      and "\<And>y e. y \<in> set xs \<Longrightarrow> e \<in> set (g y) \<Longrightarrow> fld e = key y"
  shows "filter (\<lambda>e. fld e = key x) (concat (map g xs)) = g x"
  using assms
proof (induction xs)
  case (Cons y ys)
  show ?case
  proof (cases "y = x")
    case True
    have "\<forall>z\<in>set ys. key z \<noteq> key x" using Cons.prems(1) True by (fastforce simp: image_iff)
    then have "filter (\<lambda>e. fld e = key x) (concat (map g ys)) = []"
      using Cons.prems(3) by (fastforce simp: filter_empty_conv)
    moreover have "filter (\<lambda>e. fld e = key x) (g x) = g x"
      using Cons.prems True by (auto simp: filter_id_conv)
    ultimately show ?thesis using True by simp
  next
    case False
    with Cons.prems have "x \<in> set ys" "key y \<noteq> key x" by auto
    then have "filter (\<lambda>e. fld e = key x) (g y) = []"
      using Cons.prems(3)[of y] by (auto simp: filter_empty_conv)
    with Cons \<open>x \<in> set ys\<close> show ?thesis by simp
  qed
qed simp

lemma validate_object_field_errors:
  assumes "keys_ok sch" "f \<in> set (js_fields sch)"
  shows "filter (\<lambda>e. ve_field e = jf_key f) (fst (validate_object lib sch obj))
         = fst (validate_field lib f (lookup obj (jf_key f)))"
proof -
  have "filter (\<lambda>e. ve_field e = jf_key f) (concat (map (\<lambda>f. fst (validate_field lib f (lookup obj (jf_key f)))) (js_fields sch)))
        = fst (validate_field lib f (lookup obj (jf_key f)))"
    by (rule filter_concat_own) (use assms in \<open>auto simp: keys_ok_def validate_field_keys\<close>)
  moreover have "jf_key f \<noteq> []" using assms unfolding keys_ok_def by (metis imageI)
  ultimately show ?thesis
    by (simp add: validate_object_def Let_def comp_def case_prod_beta split: option.split)
qed

lemma keys_ok_schemas: "keys_ok nas_create_schema" "keys_ok nas_update_schema" "keys_ok user_create_schema"
  "keys_ok user_update_schema" "keys_ok login_schema" "keys_ok pagination_schema" "keys_ok id_schema" "keys_ok username_schema"
  by (simp_all add: keys_ok_def nas_create_schema_def nas_update_schema_def user_create_schema_def user_update_schema_def
      login_schema_def pagination_schema_def id_schema_def username_schema_def field_def nas_name_field_def
      nas_ip_field_def nas_secret_field_def)


lemma map_of_rev_distinct: "distinct (map fst xs) \<Longrightarrow> map_of (rev xs) = map_of xs"
proof (induction xs)
  case (Cons p xs)
  then have "map_of (rev xs) (fst p) = None" by (simp add: map_of_eq_None_iff)
  with Cons show ?case by (auto simp: map_of_append fun_eq_iff map_add_def split: option.split)
qed simp

lemma map_filter_values:
  assumes "distinct (map jf_key fs)"
  shows "set (map fst (List.map_filter (\<lambda>(k, e, v). map_option (Pair k) v) (map (\<lambda>f. (jf_key f, h f)) fs)))
           \<subseteq> jf_key ` set fs
       \<and> distinct (map fst (List.map_filter (\<lambda>(k, e, v). map_option (Pair k) v) (map (\<lambda>f. (jf_key f, h f)) fs)))
       \<and> (\<forall>f\<in>set fs. map_of (List.map_filter (\<lambda>(k, e, v). map_option (Pair k) v) (map (\<lambda>f. (jf_key f, h f)) fs)) (jf_key f)
                       = snd (h f))"
  using assms
proof (induction fs)
  case (Cons g gs)
  let ?vs = "List.map_filter (\<lambda>(k, e, v). map_option (Pair k) v) (map (\<lambda>f. (jf_key f, h f)) gs)"
  from Cons have ih: "set (map fst ?vs) \<subseteq> jf_key ` set gs" "distinct (map fst ?vs)"
    "\<forall>f\<in>set gs. map_of ?vs (jf_key f) = snd (h f)" and new: "jf_key g \<notin> jf_key ` set gs" by auto
  then have "map_of ?vs (jf_key g) = None" by (auto simp: map_of_eq_None_iff)
  have new': "\<forall>f\<in>set gs. jf_key f \<noteq> jf_key g" using new by (fastforce simp: image_iff)
  obtain e v where hg: "h g = (e, v)" by fastforce
  with ih new new' \<open>map_of ?vs (jf_key g) = None\<close> show ?case
    by (cases v) (auto simp:)
qed (simp add:)

lemma validate_object_value:
  assumes "keys_ok sch" "f \<in> set (js_fields sch)"
  shows "lookup (snd (validate_object lib sch obj)) (jf_key f) = snd (validate_field lib f (lookup obj (jf_key f)))"
  using map_filter_values[of "js_fields sch" "\<lambda>f. validate_field lib f (lookup obj (jf_key f))"] assms
  by (simp add: validate_object_def Let_def lookup_def map_of_rev_distinct keys_ok_def comp_def)

lemma validate_Inr:
  "validate lib sch obj = Inr val \<longleftrightarrow> fst (validate_object lib sch obj) = [] \<and> val = snd (validate_object lib sch obj)"
  by (auto simp: validate_def case_prod_beta)

lemma validate_Inr_field:
  assumes "validate lib sch obj = Inr val" "keys_ok sch" "f \<in> set (js_fields sch)"
  shows "fst (validate_field lib f (lookup obj (jf_key f))) = [] \<and>
         lookup val (jf_key f) = snd (validate_field lib f (lookup obj (jf_key f)))"
  using validate_object_field_errors[OF assms(2,3), of lib obj] validate_object_value[OF assms(2,3), of lib obj] assms(1)
  by (simp add: validate_Inr)

lemma number_field_ok:
  assumes "jf_valid f = None" "jf_type f = JoiNumber"
  shows "fst (validate_field lib f (Some x)) = [] \<longleftrightarrow>
         (\<exists>r. num_of lib x = Some r \<and> (\<forall>ru\<in>set (jf_rules f). num_rule r ru = None))"
    and "num_of lib x = Some r \<Longrightarrow> snd (validate_field lib f (Some x)) = Some (JNum r)"
  using assms by (auto simp: validate_field_def map_filter_Nil_iff split: option.split)

lemma string_field_ok:
  assumes "jf_valid f = None" "jf_type f = JoiString"
  shows "fst (validate_field lib f (Some x)) = [] \<longleftrightarrow>
         (\<exists>s. x = JStr s \<and> s \<noteq> [] \<and> (\<forall>ru\<in>set (jf_rules f). str_rule lib s ru = None))"
    and "snd (validate_field lib f (Some x)) = Some x"
  using assms by (auto simp: validate_field_def map_filter_Nil_iff split: jval.split)

lemma missing_field:
  "validate_field lib f None = (if jf_required f then [field_error f ''any.required''] else [], jf_default f)"
  by (simp add: validate_field_def)

lemma nas_create_fields:
  "nas_name_field True \<in> set (js_fields nas_create_schema)"
  "nas_secret_field True \<in> set (js_fields nas_create_schema)"
  "(field ''ports'' JoiNumber)\<lparr>jf_rules := [Integer, NumMin 1, NumMax 65535], jf_default := Some (JNum 1812)\<rparr>
     \<in> set (js_fields nas_create_schema)"
  by (simp_all add: nas_create_schema_def)


text \<open>C30: a body that violates several constraints is rejected with a 400 whose error list
  holds, for every key of the schema that is invalid, exactly the violations of that key,
  whatever the other keys hold (\<open>abortEarly: false\<close>).\<close>

theorem validate_reports_all_violations:
  assumes "keys_ok sch" "f \<in> set (js_fields sch)" "fst (validate_field lib f (lookup obj (jf_key f))) \<noteq> []"
  shows "\<exists>errs. validate lib sch obj = Inl errs \<and>
                filter (\<lambda>e. ve_field e = jf_key f) errs = fst (validate_field lib f (lookup obj (jf_key f)))"
proof -
  have "filter (\<lambda>e. ve_field e = jf_key f) (fst (validate_object lib sch obj)) \<noteq> []"
    using validate_object_field_errors[OF assms(1,2)] assms(3) by simp
  then have "fst (validate_object lib sch obj) \<noteq> []" by auto
  then show ?thesis using validate_object_field_errors[OF assms(1,2)]
    by (simp add: validate_def case_prod_beta)
qed

theorem validate_reports_all_violations_witness:
  "\<exists>errs. validate demo_lib nas_create_schema
            [(''name'', JStr ''ab''), (''ip'', JStr ''10.0.0.1''), (''secret'', JStr ''s3cr3t!!''), (''ports'', JNum 70000)] = Inl errs \<and>
          filter (\<lambda>e. ve_field e = ''ports'') errs = [\<lparr>ve_field = ''ports'', ve_code = ''number.max'', ve_message = None\<rparr>] \<and>
          filter (\<lambda>e. ve_field e = ''name'') errs =
            [\<lparr>ve_field = ''name'', ve_code = ''string.min'', ve_message = Some ''Name must be at least 3 characters long''\<rparr>]"
proof -
  let ?obj = "[(''name'', JStr ''ab''), (''ip'', JStr ''10.0.0.1''), (''secret'', JStr ''s3cr3t!!''), (''ports'', JNum 70000)]"
  let ?p = "(field ''ports'' JoiNumber)\<lparr>jf_rules := [Integer, NumMin 1, NumMax 65535], jf_default := Some (JNum 1812)\<rparr>"
  have p: "fst (validate_field demo_lib ?p (lookup ?obj (jf_key ?p))) =
           [\<lparr>ve_field = ''ports'', ve_code = ''number.max'', ve_message = None\<rparr>]"
    by (simp add: validate_field_def field_def lookup_def field_error_def is_integer_def)
  have "\<exists>errs. validate demo_lib nas_create_schema ?obj = Inl errs \<and>
      filter (\<lambda>e. ve_field e = jf_key ?p) errs = fst (validate_field demo_lib ?p (lookup ?obj (jf_key ?p)))"
    by (rule validate_reports_all_violations[OF keys_ok_schemas(1) nas_create_fields(3)]) (simp only: p list.simps(3) not_False_eq_True)
  then obtain errs where e: "validate demo_lib nas_create_schema ?obj = Inl errs"
      "filter (\<lambda>e. ve_field e = jf_key ?p) errs = fst (validate_field demo_lib ?p (lookup ?obj (jf_key ?p)))"
    by blast
  have "filter (\<lambda>e. ve_field e = jf_key (nas_name_field True)) errs =
        fst (validate_field demo_lib (nas_name_field True) (lookup ?obj (jf_key (nas_name_field True))))"
    using validate_object_field_errors[OF keys_ok_schemas(1) nas_create_fields(1), of demo_lib ?obj] e(1)
    by (simp add: validate_def case_prod_beta split: if_splits)
  then have "filter (\<lambda>e. ve_field e = ''name'') errs =
            [\<lparr>ve_field = ''name'', ve_code = ''string.min'', ve_message = Some ''Name must be at least 3 characters long''\<rparr>]"
    by (simp add: validate_field_def nas_name_field_def field_def lookup_def field_error_def is_alnum_def
                 )
  with e p show ?thesis by (simp add: field_def)
qed

text \<open>NAS create reports an error for \<open>ports\<close> exactly when the key is present and not
  convertible to an integer in 1..65535.\<close>

theorem ports_rejected_iff:
  "filter (\<lambda>e. ve_field e = ''ports'') (fst (validate_object lib nas_create_schema obj)) \<noteq> [] \<longleftrightarrow>
   (case lookup obj ''ports'' of None \<Rightarrow> False
    | Some v \<Rightarrow> (case num_of lib v of None \<Rightarrow> True | Some r \<Rightarrow> \<not> (is_integer r \<and> 1 \<le> r \<and> r \<le> 65535)))"
  using validate_object_field_errors[OF keys_ok_schemas(1) nas_create_fields(3), of lib obj]
  by (auto simp: validate_field_def field_def split: option.split)

text \<open>C32: a NAS create body that passes validation reaches the controller with \<open>ports\<close> an
  integer in 1..65535, \<open>name\<close> 3 to 30 alphanumeric characters and \<open>secret\<close> 8 to 100
  characters.\<close>

theorem nas_create_validated_bounds:
  assumes "validate lib nas_create_schema obj = Inr val"
  shows "(\<exists>r. lookup val ''ports'' = Some (JNum r) \<and> is_integer r \<and> 1 \<le> r \<and> r \<le> 65535) \<and>
         (\<exists>s. lookup val ''name'' = Some (JStr s) \<and> list_all is_alnum s \<and> 3 \<le> length s \<and> length s \<le> 30) \<and>
         (\<exists>s. lookup val ''secret'' = Some (JStr s) \<and> 8 \<le> length s \<and> length s \<le> 100)"
proof -
  note v = validate_Inr_field[OF assms keys_ok_schemas(1)]
  have ports: "\<exists>r. lookup val ''ports'' = Some (JNum r) \<and> is_integer r \<and> 1 \<le> r \<and> r \<le> 65535"
    using v[OF nas_create_fields(3)]
    by (auto simp: validate_field_def field_def is_integer_def split: option.splits if_splits)
  have name: "\<exists>s. lookup val ''name'' = Some (JStr s) \<and> list_all is_alnum s \<and> 3 \<le> length s \<and> length s \<le> 30"
    using v[OF nas_create_fields(1)]
    by (auto simp: validate_field_def nas_name_field_def field_def field_error_def
             split: option.splits if_splits jval.splits)
  have secret: "\<exists>s. lookup val ''secret'' = Some (JStr s) \<and> 8 \<le> length s \<and> length s \<le> 100"
    using v[OF nas_create_fields(2)]
    by (auto simp: validate_field_def nas_secret_field_def field_def field_error_def
             split: option.splits if_splits jval.splits)
  from ports name secret show ?thesis by blast
qed

theorem nas_create_validated_bounds_witness:
  "validate demo_lib nas_create_schema [(''name'', JStr ''edge1''), (''ip'', JStr ''10.0.0.1''), (''secret'', JStr ''s3cr3t!!'')] =
     Inr [(''name'', JStr ''edge1''), (''ip'', JStr ''10.0.0.1''), (''secret'', JStr ''s3cr3t!!''), (''type'', JStr ''other''),
          (''ports'', JNum 1812), (''community'', JStr []), (''description'', JStr [])] \<and>
   (\<exists>r. lookup [(''name'', JStr ''edge1''), (''ip'', JStr ''10.0.0.1''), (''secret'', JStr ''s3cr3t!!''), (''type'', JStr ''other''),
          (''ports'', JNum 1812), (''community'', JStr []), (''description'', JStr [])] ''ports'' = Some (JNum r) \<and>
        is_integer r \<and> 1 \<le> r \<and> r \<le> 65535)"
proof -
  have e: "validate demo_lib nas_create_schema [(''name'', JStr ''edge1''), (''ip'', JStr ''10.0.0.1''), (''secret'', JStr ''s3cr3t!!'')] =
     Inr [(''name'', JStr ''edge1''), (''ip'', JStr ''10.0.0.1''), (''secret'', JStr ''s3cr3t!!''), (''type'', JStr ''other''),
          (''ports'', JNum 1812), (''community'', JStr []), (''description'', JStr [])]"
    by (simp add: validate_def validate_object_def validate_field_def nas_create_schema_def nas_name_field_def nas_ip_field_def
                  nas_secret_field_def field_def lookup_def demo_lib_def is_alnum_def nas_types_def)
  show ?thesis using e nas_create_validated_bounds[OF e] by blast
qed


lemma id_field: "(field ''id'' JoiNumber)\<lparr>jf_rules := [Integer, NumMin 1], jf_required := True,
        jf_messages := [(''number.base'', ''ID must be a number''), (''number.integer'', ''ID must be an integer''),
                        (''number.min'', ''ID must be greater than 0''), (''any.required'', ''ID is required'')]\<rparr>
     \<in> set (js_fields id_schema)"
  by (simp add: id_schema_def)

lemma positive_integer_nat: "is_integer r \<Longrightarrow> 1 \<le> r \<Longrightarrow> \<exists>n. 0 < n \<and> r = of_nat n"
proof -
  assume "is_integer r" "1 \<le> r"
  have r: "r = of_int \<lfloor>r\<rfloor>" using \<open>is_integer r\<close> unfolding is_integer_def by (rule sym)
  have "1 \<le> \<lfloor>r\<rfloor>" using \<open>1 \<le> r\<close> by (simp add: le_floor_iff)
  with r show ?thesis by (intro exI[of _ "nat \<lfloor>r\<rfloor>"]) simp
qed

text \<open>C33: a route parameter \<open>:id\<close> that passes \<open>validateId\<close> is a positive natural number.\<close>

theorem id_param_positive:
  assumes "validate lib id_schema params = Inr val"
  shows "\<exists>n. 0 < n \<and> lookup val ''id'' = Some (JNum (of_nat n))"
proof -
  have "\<exists>r. lookup val ''id'' = Some (JNum r) \<and> is_integer r \<and> 1 \<le> r"
    using validate_Inr_field[OF assms keys_ok_schemas(7) id_field]
    by (auto simp: validate_field_def field_def field_error_def split: option.splits if_splits)
  then show ?thesis using positive_integer_nat by blast
qed

theorem id_param_positive_witness:
  "validate demo_lib id_schema [(''id'', JStr ''12'')] = Inr [(''id'', JNum 12)] \<and>
   (\<exists>n. 0 < n \<and> lookup [(''id'', JNum 12)] ''id'' = Some (JNum (of_nat n)))"
proof -
  have e: "validate demo_lib id_schema [(''id'', JStr ''12'')] = Inr [(''id'', JNum 12)]"
    by (simp add: validate_def validate_object_def validate_field_def id_schema_def field_def lookup_def demo_lib_def
                  is_integer_def)
  show ?thesis using e id_param_positive[OF e] by blast
qed

lemma validate_empty_min:
  assumes "js_min_keys sch = Some (Suc n)"
      and "\<forall>f\<in>set (js_fields sch). lookup obj (jf_key f) = None \<and> \<not> jf_required f \<and> jf_default f = None"
  shows "validate lib sch obj = Inl [object_min_error]"
proof -
  have "fst (validate_field lib f (lookup obj (jf_key f))) = [] \<and> snd (validate_field lib f (lookup obj (jf_key f))) = None"
    if "f \<in> set (js_fields sch)" for f
    using assms(2) that by (simp add: missing_field)
  then show ?thesis using assms(1)
    by (simp add: validate_def validate_object_def Let_def object_min_error_def comp_def case_prod_beta
                  List.map_filter_def)
qed

text \<open>C34: the update schemas require at least one known key: a body with none of them is
  rejected with the single \<open>object.min\<close> error.\<close>

theorem update_requires_a_field:
  assumes "\<forall>k\<in>{''name'', ''ip'', ''secret'', ''type'', ''ports'', ''community'', ''description'', ''password'', ''profile''}.
             lookup obj k = None"
  shows "validate lib nas_update_schema obj = Inl [object_min_error] \<and>
         validate lib user_update_schema obj = Inl [object_min_error]"
  using assms
  by (auto intro!: validate_empty_min simp: nas_update_schema_def user_update_schema_def nas_name_field_def
           nas_ip_field_def nas_secret_field_def field_def)

theorem update_requires_a_field_witness:
  "validate demo_lib nas_update_schema [(''shortname'', JStr ''edge1'')] = Inl [object_min_error] \<and>
   validate demo_lib user_update_schema [(''shortname'', JStr ''edge1'')] = Inl [object_min_error]"
  by (rule update_requires_a_field) (simp add: lookup_def)

text \<open>The update schema rejects the empty string, so the \<open>description\<close> and \<open>community\<close> a NAS
  gets by default on create can never be set back to it once changed.\<close>

theorem description_cannot_be_cleared:
  "validate lib nas_update_schema [(''description'', JStr [])] =
     Inl [\<lparr>ve_field = ''description'', ve_code = ''string.empty'', ve_message = None\<rparr>] \<and>
   validate lib nas_update_schema [(''community'', JStr [])] =
     Inl [\<lparr>ve_field = ''community'', ve_code = ''string.empty'', ve_message = None\<rparr>]"
  by (simp add: validate_def validate_object_def validate_field_def nas_update_schema_def nas_name_field_def
                nas_ip_field_def nas_secret_field_def field_def lookup_def field_error_def)

end
