(* ===== verification/User_Controller.thy ===== *)
theory User_Controller
  imports User_Search Http_Handler Validation
begin

text \<open>
  The handlers of \<open>src/controllers/userController.js\<close>.  Each handler awaits
  \<open>UserModel\<close> methods in sequence and answers with one response; its \<open>try/catch\<close>
  turns any store error into 500 \<open>Internal server error\<close> while the effects of the
  statements that already ran stay (\<open>catch_500\<close>).  A handler is a function from the
  store to the response and the new store.  The request fields are the ones the
  route's validators let through (\<open>Api_Routes\<close>): a \<open>username\<close> parameter is a string,
  the attribute fields the handlers read without validation are \<open>js_str\<close> (a string
  or \<open>undefined\<close>), and the attribute \<open>table\<close> is the JSON value itself.  The handler type
  and \<open>catch_500\<close> are in \<open>Http_Handler\<close>.
\<close>

text \<open>\<open>if (!user) return 404 'User not found'\<close>, the guard most handlers open with.\<close>

definition with_user :: "string \<Rightarrow> (user_rec \<Rightarrow> 'd response sql) \<Rightarrow> 'd response sql" where
  "with_user u k =
     sql_bind (user_get_by_username u) (\<lambda>r.
       case r of None \<Rightarrow> sql_return (deny 404 ''User not found'') | Some usr \<Rightarrow> k usr)"

section \<open>Handlers\<close>

text \<open>\<open>getAll\<close>: \<open>search\<close> when the query has a truthy \<open>search\<close>, \<open>getAll\<close> otherwise;
  the response's \<open>count\<close> is the length of \<open>data\<close>.\<close>

definition uc_get_all :: "js_str \<Rightarrow> user_rec list handler" where
  "uc_get_all search =
     catch_500 (sql_bind (if js_truthy search then user_search (the search) else user_get_all) (\<lambda>users.
       sql_return (reply 200 ''Users retrieved successfully'' users)))"

definition uc_get_by_username :: "string \<Rightarrow> user_rec handler" where
  "uc_get_by_username u =
     catch_500 (with_user u (\<lambda>usr. sql_return (reply 200 ''User retrieved successfully'' usr)))"

text \<open>\<open>create\<close>: 409 when \<open>exists(user)\<close>, else \<open>UserModel.create\<close> and 201.\<close>

definition uc_create :: "string \<Rightarrow> string \<Rightarrow> js_str \<Rightarrow> user_rec handler" where
  "uc_create user password profile =
     catch_500 (sql_bind (user_exists user) (\<lambda>ex.
       if ex then sql_return (deny 409 ''User already exists'')
       else sql_bind (user_create user password profile) (\<lambda>nu.
         sql_return (reply 201 ''User created successfully'' nu))))"

definition uc_update :: "string \<Rightarrow> js_str \<Rightarrow> js_str \<Rightarrow> user_rec handler" where
  "uc_update u password profile =
     catch_500 (with_user u (\<lambda>_.
       sql_bind (user_update u password profile) (\<lambda>up.
         case up of None \<Rightarrow> sql_return (deny 404 ''User not found or no changes made'')
         | Some x \<Rightarrow> sql_return (reply 200 ''User updated successfully'' x))))"

definition uc_delete :: "string \<Rightarrow> unit handler" where
  "uc_delete u =
     catch_500 (with_user u (\<lambda>_.
       sql_bind (user_delete u) (\<lambda>deleted.
         if \<not> deleted then sql_return (deny 404 ''User not found or already deleted'')
         else sql_return (ack 200 ''User deleted successfully''))))"

text \<open>\<open>getStats\<close>: \<open>{total_users: count}\<close>.\<close>

definition uc_get_stats :: "nat handler" where
  "uc_get_stats =
     catch_500 (sql_bind user_get_count (\<lambda>n. sql_return (reply 200 ''User statistics retrieved successfully'' n)))"

text \<open>\<open>{username, attributes}\<close> and \<open>{username, reply_attributes}\<close>.\<close>

type_synonym attr_list = "(string \<times> string \<times> string) list"

definition uc_get_user_attributes :: "string \<Rightarrow> (string \<times> attr_list) handler" where
  "uc_get_user_attributes u =
     catch_500 (with_user u (\<lambda>_.
       sql_bind (user_get_attributes u) (\<lambda>attrs.
         sql_return (reply 200 ''User attributes retrieved successfully'' (u, attrs)))))"

definition uc_get_user_reply_attributes :: "string \<Rightarrow> (string \<times> attr_list) handler" where
  "uc_get_user_reply_attributes u =
     catch_500 (with_user u (\<lambda>_.
       sql_bind (user_get_reply_attributes u) (\<lambda>attrs.
         sql_return (reply 200 ''User reply attributes retrieved successfully'' (u, attrs)))))"

text \<open>
  \<open>addAttribute\<close> / \<open>removeAttribute\<close>: the body's \<open>table\<close> is the parsed JSON value;
  the destructuring default \<open>table = 'radcheck'\<close> applies when the field is absent
  only (not to \<open>null\<close>), and \<open>['radcheck', 'radreply'].includes(table)\<close> compares
  strictly, so any other value, a string or not, is answered 400, after the user
  lookup.  The other body fields go to the model unchecked.
\<close>

definition default_table :: "jval option \<Rightarrow> jval" where
  "default_table t = (case t of None \<Rightarrow> JStr ''radcheck'' | Some v \<Rightarrow> v)"

definition allowed_tables :: "string list" where
  "allowed_tables = [''radcheck'', ''radreply'']"

definition allowed_table :: "jval \<Rightarrow> string option" where
  "allowed_table v = (case v of JStr t \<Rightarrow> if t \<in> set allowed_tables then Some t else None | _ \<Rightarrow> None)"

definition table_error :: string where
  "table_error = ''Table must be either '' @ CHR 0x22 # ''radcheck'' @ CHR 0x22 # '' or '' @
                 CHR 0x22 # ''radreply'' @ [CHR 0x22]"

record added_attribute =
  aa_id :: nat
  aa_username :: string
  aa_attribute :: js_str
  aa_op :: js_str
  aa_value :: js_str
  aa_table :: string

definition uc_add_attribute :: "string \<Rightarrow> js_str \<Rightarrow> js_str \<Rightarrow> js_str \<Rightarrow> jval option \<Rightarrow> added_attribute handler" where
  "uc_add_attribute u attribute op value table =
     catch_500 (with_user u (\<lambda>_.
       case allowed_table (default_table table) of
         None \<Rightarrow> sql_return (deny 400 table_error)
       | Some t \<Rightarrow> sql_bind (user_add_attribute u attribute op value t) (\<lambda>i.
           sql_return (reply 201 ''Attribute added successfully''
             \<lparr>aa_id = i, aa_username = u, aa_attribute = attribute, aa_op = op, aa_value = value, aa_table = t\<rparr>))))"

definition uc_remove_attribute :: "string \<Rightarrow> js_str \<Rightarrow> jval option \<Rightarrow> unit handler" where
  "uc_remove_attribute u attribute table =
     catch_500 (with_user u (\<lambda>_.
       case allowed_table (default_table table) of
         None \<Rightarrow> sql_return (deny 400 table_error)
       | Some t \<Rightarrow> sql_bind (user_remove_attribute u attribute t) (\<lambda>removed.
           if \<not> removed then sql_return (deny 404 ''Attribute not found'')
           else sql_return (ack 200 ''Attribute removed successfully''))))"

section \<open>Lemmas\<close>

lemma with_user_healthy:
  "budget s = None \<Longrightarrow>
   with_user u k s = (case get_by_username_q (coll s) u (committed s) of
                        None \<Rightarrow> (Inr (deny 404 ''User not found''), s) | Some usr \<Rightarrow> k usr s)"
  by (simp add: with_user_def user_get_by_username_def pool_query_ok sql_bind_def sql_return_def
      split: option.splits)

lemma sql_atomic_with_user [intro]: "(\<And>usr. sql_atomic (k usr)) \<Longrightarrow> sql_atomic (with_user u k)"
  unfolding with_user_def user_get_by_username_def by blast

lemma sql_post_with_user [intro]:
  "Q (deny 404 ''User not found'') \<Longrightarrow> (\<And>usr. sql_post Q (k usr)) \<Longrightarrow> sql_post Q (with_user u k)"
  unfolding with_user_def by blast

lemma sql_atomic_user_writes [intro]:
  "sql_atomic (user_create u pw p)" "sql_atomic (user_update u pw2 pr)" "sql_atomic (user_delete u)"
  by (auto simp: sql_atomic_def dest: user_create_atomic user_update_atomic user_delete_atomic)

lemma sql_atomic_attribute_writes [intro]:
  "sql_atomic (user_add_attribute u a op v t)" "sql_atomic (user_remove_attribute u a t)"
  unfolding user_add_attribute_def user_remove_attribute_def by blast+

lemma get_some_exists: "get_by_username_q co u d = Some x \<Longrightarrow> exists_q co u d"
  by (auto simp: get_by_username_q_def exists_q_def)

lemma alice_db_facts:
  "users_consistent id alice_db" "exists_q id ''alice01'' alice_db" "\<not> exists_q id ''carol01'' alice_db"
  "get_by_username_q id ''carol01'' alice_db = None"
  "get_by_username_q id ''alice01'' alice_db =
     Some \<lparr>u_id = 1, u_user = ''alice01'', u_password = ''secret1'', u_profile = Some ''PPP''\<rparr>"
  by (simp_all add: users_consistent_def alice_db_def empty_db_def n_pw_def n_mg_def password_rows_def
      profile_rows_def exists_q_def get_by_username_q_def mk_user_def)

section \<open>Properties\<close>

text \<open>
  C21: \<open>POST /users\<close> with a username that does not exist, on a store that does not
  fail and whose user tables are consistent, answers 201 with the new record;
  \<open>GET /users/:username\<close> then answers 200 with that same record, and a second
  \<open>POST /users\<close> with the same username answers 409 and changes nothing.
\<close>

theorem post_then_get_users:
  assumes healthy: "budget s = None"
    and cons: "users_consistent (coll s) (committed s)"
    and fresh: "\<not> exists_q (coll s) u (committed s)"
  shows "\<exists>s'. uc_create u pw p s =
           (reply 201 ''User created successfully''
              \<lparr>u_id = radcheck_next (committed s), u_user = u, u_password = pw, u_profile = Some (default_profile p)\<rparr>, s') \<and>
         uc_get_by_username u s' =
           (reply 200 ''User retrieved successfully''
              \<lparr>u_id = radcheck_next (committed s), u_user = u, u_password = pw, u_profile = Some (default_profile p)\<rparr>, s') \<and>
         uc_create u pw2 p2 s' = (deny 409 ''User already exists'', s')"
proof -
  let ?r = "\<lparr>u_id = radcheck_next (committed s), u_user = u, u_password = pw, u_profile = Some (default_profile p)\<rparr>"
  obtain s' where run: "user_create u pw p s = (Inr ?r, s')" and s': "budget s' = None" "coll s' = coll s"
    by (rule that [OF user_create_healthy [OF healthy]]) (simp_all add: healthy)
  have "password_rows (coll s) u (committed s) = []"
    using fresh by (simp add: exists_q_def)
  moreover have "profile_rows (coll s) (radreply (committed s)) u = []"
    using cons fresh by (rule users_consistent_no_orphan)
  ultimately have get: "get_by_username_q (coll s) u (committed s') = Some ?r"
    using run by (blast intro: create_get_tables)
  then have ex: "exists_q (coll s') u (committed s')" using s' by (simp add: get_some_exists)
  have "uc_create u pw p s = (reply 201 ''User created successfully'' ?r, s')"
    using healthy fresh run
    by (simp add: uc_create_def user_exists_def pool_query_ok sql_bind_def sql_return_def catch_500_def)
  moreover have "uc_get_by_username u s' = (reply 200 ''User retrieved successfully'' ?r, s')"
    using s' get by (simp add: uc_get_by_username_def with_user_healthy sql_return_def catch_500_def)
  moreover have "uc_create u pw2 p2 s' = (deny 409 ''User already exists'', s')"
    using s' ex by (simp add: uc_create_def user_exists_def pool_query_ok sql_bind_def sql_return_def catch_500_def)
  ultimately show ?thesis by blast
qed

theorem post_then_get_users_witness:
  "budget (healthy_store id alice_db) = None \<and> users_consistent id alice_db \<and> \<not> exists_q id ''carol01'' alice_db \<and>
   (\<exists>s'. uc_create ''carol01'' ''secret3'' None (healthy_store id alice_db) =
           (reply 201 ''User created successfully''
              \<lparr>u_id = 2, u_user = ''carol01'', u_password = ''secret3'', u_profile = Some ''PPP''\<rparr>, s') \<and>
         uc_get_by_username ''carol01'' s' =
           (reply 200 ''User retrieved successfully''
              \<lparr>u_id = 2, u_user = ''carol01'', u_password = ''secret3'', u_profile = Some ''PPP''\<rparr>, s') \<and>
         uc_create ''carol01'' ''other99'' (Some ''gold'') s' = (deny 409 ''User already exists'', s'))"
  using post_then_get_users [of "healthy_store id alice_db" "''carol01''" "''secret3''" None "''other99''" "Some ''gold''"]
    alice_db_facts
  by (simp add: healthy_store_def alice_db_def empty_db_def default_profile_def)

text \<open>
  C22: whenever \<open>POST\<close>, \<open>PUT\<close> or \<open>DELETE\<close> on a user or its attributes answers
  500, whichever statement failed, the committed rows of every table are as before
  the request: no partial write survives an error reported to the client.
\<close>

theorem failed_write_keeps_rows:
  "(r_status (fst (uc_create u pw p s)) = 500 \<longrightarrow>
      db_rows (committed (snd (uc_create u pw p s))) = db_rows (committed s)) \<and>
   (r_status (fst (uc_update u pw2 pr s)) = 500 \<longrightarrow>
      db_rows (committed (snd (uc_update u pw2 pr s))) = db_rows (committed s)) \<and>
   (r_status (fst (uc_delete u s)) = 500 \<longrightarrow>
      db_rows (committed (snd (uc_delete u s))) = db_rows (committed s)) \<and>
   (r_status (fst (uc_add_attribute u a op v t s)) = 500 \<longrightarrow>
      db_rows (committed (snd (uc_add_attribute u a op v t s))) = db_rows (committed s)) \<and>
   (r_status (fst (uc_remove_attribute u a t s)) = 500 \<longrightarrow>
      db_rows (committed (snd (uc_remove_attribute u a t s))) = db_rows (committed s))"
  unfolding uc_create_def uc_update_def uc_delete_def uc_add_attribute_def uc_remove_attribute_def Let_def
    user_exists_def
  by (intro conjI impI catch_500_atomic; (intro sql_atomic_bind sql_atomic_bind_pure sql_atomic_with_user
        sql_atomic_if sql_atomic_option sql_post_bind sql_post_with_user sql_post_if sql_post_option
        sql_post_return sql_pure_if sql_pure_return sql_pure_option conn_only_pool_query sql_atomic_pool_query
        sql_atomic_user_writes sql_atomic_attribute_writes sql_atomic_return)?; simp?)


theorem failed_write_keeps_rows_witness:
  "r_status (fst (uc_create ''carol01'' ''secret3'' None (faulty_store 2 alice_db))) = 500 \<and>
   db_rows (committed (snd (uc_create ''carol01'' ''secret3'' None (faulty_store 2 alice_db)))) = db_rows alice_db \<and>
   r_status (fst (uc_update ''alice01'' (Some ''secret9'') None (faulty_store 2 alice_db))) = 500 \<and>
   db_rows (committed (snd (uc_update ''alice01'' (Some ''secret9'') None (faulty_store 2 alice_db)))) = db_rows alice_db \<and>
   r_status (fst (uc_delete ''alice01'' (faulty_store 3 alice_db))) = 500 \<and>
   db_rows (committed (snd (uc_delete ''alice01'' (faulty_store 3 alice_db)))) = db_rows alice_db \<and>
   r_status (fst (uc_add_attribute ''alice01'' (Some ''Simultaneous-Use'') (Some '':='') (Some ''1'') None (faulty_store 1 alice_db))) = 500 \<and>
   db_rows (committed (snd (uc_add_attribute ''alice01'' (Some ''Simultaneous-Use'') (Some '':='') (Some ''1'') None (faulty_store 1 alice_db)))) = db_rows alice_db \<and>
   r_status (fst (uc_remove_attribute ''alice01'' (Some MG) (Some (JStr ''radreply'')) (faulty_store 1 alice_db))) = 500 \<and>
   db_rows (committed (snd (uc_remove_attribute ''alice01'' (Some MG) (Some (JStr ''radreply'')) (faulty_store 1 alice_db)))) = db_rows alice_db"
proof -
  have st: "r_status (fst (uc_create ''carol01'' ''secret3'' None (faulty_store 2 alice_db))) = 500"
    "r_status (fst (uc_update ''alice01'' (Some ''secret9'') None (faulty_store 2 alice_db))) = 500"
    "r_status (fst (uc_delete ''alice01'' (faulty_store 3 alice_db))) = 500"
    "r_status (fst (uc_add_attribute ''alice01'' (Some ''Simultaneous-Use'') (Some '':='') (Some ''1'') None (faulty_store 1 alice_db))) = 500"
    "r_status (fst (uc_remove_attribute ''alice01'' (Some MG) (Some (JStr ''radreply'')) (faulty_store 1 alice_db))) = 500"
    by (simp_all add: uc_create_def uc_update_def uc_delete_def uc_add_attribute_def uc_remove_attribute_def
        with_user_def user_exists_def user_get_by_username_def user_create_def user_update_def user_delete_def
        upd_password_def user_add_attribute_def user_remove_attribute_def default_table_def allowed_tables_def allowed_table_def
        table_of_name_def bind_params_def transaction_def conn_exec_def pool_query_def pool_exec_def
        stmt_ok_def tick_def faulty_store_def catch_500_def sql_bind_def sql_return_def Let_def alice_db_facts
        split: prod.splits)
  show ?thesis
    using failed_write_keeps_rows [of "''carol01''" "''secret3''" None "faulty_store 2 alice_db"]
      failed_write_keeps_rows [of "''alice01''" _ _ "faulty_store 2 alice_db" "Some ''secret9''" None]
      failed_write_keeps_rows [of "''alice01''" _ _ "faulty_store 3 alice_db"]
      failed_write_keeps_rows [of "''alice01''" _ _ "faulty_store 1 alice_db" _ _ "Some ''Simultaneous-Use''" "Some '':=''" "Some ''1''" None]
      failed_write_keeps_rows [of "''alice01''" _ _ "faulty_store 1 alice_db" _ _ "Some MG" _ _ "Some (JStr ''radreply'')"]
      st by (simp add: faulty_store_def)
qed

text \<open>
  C23: every handler on \<open>/users/:username\<close> answers 404 \<open>User not found\<close> for a
  username without a password row, and then changes nothing.
\<close>

theorem missing_user_404:
  assumes "budget s = None" and "get_by_username_q (coll s) u (committed s) = None"
  shows "uc_get_by_username u s = (deny 404 ''User not found'', s) \<and>
         uc_update u pw pr s = (deny 404 ''User not found'', s) \<and>
         uc_delete u s = (deny 404 ''User not found'', s) \<and>
         uc_get_user_attributes u s = (deny 404 ''User not found'', s) \<and>
         uc_get_user_reply_attributes u s = (deny 404 ''User not found'', s) \<and>
         uc_add_attribute u a op v t s = (deny 404 ''User not found'', s) \<and>
         uc_remove_attribute u a t s = (deny 404 ''User not found'', s)"
  using assms
  by (simp add: uc_get_by_username_def uc_update_def uc_delete_def uc_get_user_attributes_def
      uc_get_user_reply_attributes_def uc_add_attribute_def uc_remove_attribute_def Let_def
      with_user_healthy catch_500_def)

theorem missing_user_404_witness:
  "budget (healthy_store id alice_db) = None \<and> get_by_username_q id ''carol01'' alice_db = None \<and>
   uc_delete ''carol01'' (healthy_store id alice_db) = (deny 404 ''User not found'', healthy_store id alice_db) \<and>
   uc_add_attribute ''carol01'' None None None None (healthy_store id alice_db) =
     (deny 404 ''User not found'', healthy_store id alice_db)"
  using missing_user_404 [of "healthy_store id alice_db" "''carol01''" None None None None None None]
    alice_db_facts
  by (simp add: healthy_store_def)

text \<open>
  C24: \<open>POST\<close> and \<open>DELETE /users/:username/attributes\<close> with a \<open>table\<close> field
  that is not the string \<open>radcheck\<close> or \<open>radreply\<close> (another string, \<open>null\<close>, a
  number, \<dots>) answer 400 for an existing user and change nothing: the model's
  spliced table name is reached from the controller with the two names only.
\<close>

theorem unknown_table_400:
  assumes "budget s = None" and "get_by_username_q (coll s) u (committed s) \<noteq> None"
    and "allowed_table (default_table t) = None"
  shows "uc_add_attribute u a op v t s = (deny 400 table_error, s) \<and>
         uc_remove_attribute u a t s = (deny 400 table_error, s)"
  using assms
  by (auto simp: uc_add_attribute_def uc_remove_attribute_def with_user_healthy catch_500_def
      sql_return_def)

theorem unknown_table_400_witness:
  "budget (healthy_store id alice_db) = None \<and> get_by_username_q id ''alice01'' alice_db \<noteq> None \<and>
   allowed_table (default_table (Some JNull)) = None \<and>
   uc_remove_attribute ''alice01'' (Some MG) (Some JNull) (healthy_store id alice_db) =
     (deny 400 table_error, healthy_store id alice_db)"
  using unknown_table_400 [of "healthy_store id alice_db" "''alice01''" "Some JNull" "Some MG" None None]
    alice_db_facts
  by (simp add: healthy_store_def default_table_def allowed_table_def)

text \<open>Every answer of a handler keeps the envelope consistent.\<close>

lemma uc_envelope:
  "envelope_ok (fst (uc_get_all q s))" "envelope_ok (fst (uc_get_by_username u s))"
  "envelope_ok (fst (uc_create u pw p s))" "envelope_ok (fst (uc_update u pw2 pr s))"
  "envelope_ok (fst (uc_delete u s))" "envelope_ok (fst (uc_get_stats s))"
  "envelope_ok (fst (uc_get_user_attributes u s))" "envelope_ok (fst (uc_get_user_reply_attributes u s))"
  "envelope_ok (fst (uc_add_attribute u a op v t s))" "envelope_ok (fst (uc_remove_attribute u a t s))"
  unfolding uc_get_all_def uc_get_by_username_def uc_create_def uc_update_def uc_delete_def uc_get_stats_def
    uc_get_user_attributes_def uc_get_user_reply_attributes_def uc_add_attribute_def uc_remove_attribute_def Let_def
  by (intro envelope_intros sql_post_with_user allI; simp)+

end
