(* ===== verification/Nas_Model.thy ===== *)
theory Nas_Model
  imports Http_Handler
begin

text \<open>
  \<open>src/models/NasModel.js\<close>: single-statement CRUD over the \<open>nas\<close> table, each call an
  auto-committed \<open>db.query\<close> on the pool (\<open>pool_query\<close>, \<open>pool_exec\<close>).  Strings compare
  under the collation, \<open>ORDER BY shortname\<close> on its key.  The request data reaches the
  model as a \<open>nas_input\<close> whose fields may be \<open>undefined\<close>; an \<open>undefined\<close> bind
  parameter is refused by the driver (\<open>bind_params\<close>).
\<close>

section \<open>Queries and statements\<close>

text \<open>The body fields \<open>{name, ip, secret, type, ports, community, description}\<close>.\<close>

record nas_input =
  ni_name :: js_str
  ni_ip :: js_str
  ni_secret :: js_str
  ni_type :: js_str
  ni_ports :: "int option"
  ni_community :: js_str
  ni_description :: js_str

text \<open>\<open>WHERE id = ?\<close>, \<open>WHERE shortname = ?\<close>, \<open>WHERE nasname = ?\<close>, then \<open>result[0] || null\<close>.\<close>

definition nas_by_id_q :: "nat \<Rightarrow> db \<Rightarrow> nas_row option" where
  "nas_by_id_q i d = js_index (filter (\<lambda>r. nas_id r = i) (nas d)) 0"

definition nas_by_shortname_q :: "collation \<Rightarrow> string \<Rightarrow> db \<Rightarrow> nas_row option" where
  "nas_by_shortname_q co n d = js_index (filter (\<lambda>r. sql_eq co (shortname r) n) (nas d)) 0"

definition nas_by_ip_q :: "collation \<Rightarrow> string \<Rightarrow> db \<Rightarrow> nas_row option" where
  "nas_by_ip_q co ip d = js_index (filter (\<lambda>r. sql_eq co (nasname r) ip) (nas d)) 0"

text \<open>
  \<open>exists(shortname, nasname, excludeId = null)\<close>: \<open>(shortname = ? OR nasname = ?)\<close>,
  with \<open>AND id != ?\<close> only when \<open>excludeId\<close> is truthy (\<open>null\<close> and \<open>0\<close> are not).
\<close>

definition nas_exists_q :: "collation \<Rightarrow> string \<Rightarrow> string \<Rightarrow> nat option \<Rightarrow> db \<Rightarrow> bool" where
  "nas_exists_q co n ip ex d \<longleftrightarrow>
     filter (\<lambda>r. (sql_eq co (shortname r) n \<or> sql_eq co (nasname r) ip) \<and>
                 (case ex of None \<Rightarrow> True | Some i \<Rightarrow> i = 0 \<or> nas_id r \<noteq> i)) (nas d) \<noteq> []"

text \<open>\<open>getAll\<close> / \<open>search\<close>: the selected rows \<open>ORDER BY shortname\<close>.\<close>

definition nas_list_q :: "(nas_row \<Rightarrow> bool) \<Rightarrow> collation \<Rightarrow> db \<Rightarrow> nas_row list" where
  "nas_list_q P co d = sort_key (\<lambda>r. co (shortname r)) (filter P (nas d))"

text \<open>\<open>shortname LIKE ? OR nasname LIKE ? OR description LIKE ?\<close> with \<open>`%${searchTerm}%`\<close>.\<close>

definition nas_search_match :: "collation \<Rightarrow> string \<Rightarrow> nas_row \<Rightarrow> bool" where
  "nas_search_match co t r \<longleftrightarrow>
     sql_like co (search_pattern t) (shortname r) \<or> sql_like co (search_pattern t) (nasname r) \<or>
     sql_like co (search_pattern t) (description r)"

text \<open>\<open>INSERT INTO nas (\<dots>) VALUES (\<dots>)\<close>: the new row gets the next id (\<open>insertId\<close>).\<close>

definition insert_nas :: "string \<Rightarrow> string \<Rightarrow> string \<Rightarrow> string \<Rightarrow> int \<Rightarrow> string \<Rightarrow> string \<Rightarrow> db \<Rightarrow> nat \<times> db" where
  "insert_nas n ip sec ty po cm de d =
     (let i = nas_next d in
      (i, d\<lparr>nas := nas d @ [\<lparr>nas_id = i, shortname = n, nasname = ip, secret = sec, nas_type = ty,
                              ports = po, community = cm, description = de\<rparr>],
            nas_next := Suc i\<rparr>))"

text \<open>\<open>UPDATE nas SET shortname = ?, \<dots>, description = ? WHERE id = ?\<close>: \<open>affectedRows\<close> counts
  the matched rows.\<close>

definition update_nas :: "nat \<Rightarrow> string \<Rightarrow> string \<Rightarrow> string \<Rightarrow> string \<Rightarrow> int \<Rightarrow> string \<Rightarrow> string \<Rightarrow> db \<Rightarrow> nat \<times> db" where
  "update_nas i n ip sec ty po cm de d =
     (length (filter (\<lambda>r. nas_id r = i) (nas d)),
      d\<lparr>nas := map (\<lambda>r. if nas_id r = i
                         then r\<lparr>shortname := n, nasname := ip, secret := sec, nas_type := ty, ports := po,
                                community := cm, description := de\<rparr>
                         else r) (nas d)\<rparr>)"

definition delete_nas :: "nat \<Rightarrow> db \<Rightarrow> nat \<times> db" where
  "delete_nas i d = (length (filter (\<lambda>r. nas_id r = i) (nas d)), d\<lparr>nas := filter (\<lambda>r. nas_id r \<noteq> i) (nas d)\<rparr>)"

section \<open>Methods\<close>

definition nas_get_all :: "nas_row list sql" where
  "nas_get_all = pool_query (nas_list_q (\<lambda>_. True))"

definition nas_get_by_id :: "nat \<Rightarrow> nas_row option sql" where
  "nas_get_by_id i = pool_query (\<lambda>co. nas_by_id_q i)"

definition nas_get_by_shortname :: "string \<Rightarrow> nas_row option sql" where
  "nas_get_by_shortname n = pool_query (\<lambda>co. nas_by_shortname_q co n)"

definition nas_get_by_ip :: "string \<Rightarrow> nas_row option sql" where
  "nas_get_by_ip ip = pool_query (\<lambda>co. nas_by_ip_q co ip)"

text \<open>
  \<open>create(nasData)\<close>: destructuring defaults (\<open>type = 'other'\<close>, \<open>ports = 1812\<close>,
  \<open>community = ''\<close>, \<open>description = ''\<close>) apply to \<open>undefined\<close> fields; name, ip and
  secret have none.  The result is built from the values bound and \<open>insertId\<close>.
\<close>

definition nas_create :: "nas_input \<Rightarrow> nas_row sql" where
  "nas_create x =
     (let ty = js_default ''other'' (ni_type x);
          po = js_default 1812 (ni_ports x);
          cm = js_default [] (ni_community x);
          de = js_default [] (ni_description x) in
      sql_bind (bind_params [ni_name x, ni_ip x, ni_secret x]) (\<lambda>ps.
        sql_bind (pool_exec (\<lambda>co. insert_nas (ps ! 0) (ps ! 1) (ps ! 2) ty po cm de)) (\<lambda>i.
          sql_return \<lparr>nas_id = i, shortname = ps ! 0, nasname = ps ! 1, secret = ps ! 2, nas_type = ty,
                      ports = po, community = cm, description = de\<rparr>)))"

text \<open>
  \<open>update(id, nasData)\<close>: all seven columns are bound, with no defaults, so an
  \<open>undefined\<close> field is refused by the driver; no matched row gives \<open>null\<close>, otherwise the
  row is re-read with \<open>getById\<close>.
\<close>

definition nas_model_update :: "nat \<Rightarrow> nas_input \<Rightarrow> nas_row option sql" where
  "nas_model_update i x =
     sql_bind (bind_params [ni_name x, ni_ip x, ni_secret x, ni_type x, ni_community x, ni_description x]) (\<lambda>ps.
       case ni_ports x of
         None \<Rightarrow> sql_throw Undefined_Bind_Parameter
       | Some po \<Rightarrow>
           sql_bind (pool_exec (\<lambda>co. update_nas i (ps ! 0) (ps ! 1) (ps ! 2) (ps ! 3) po (ps ! 4) (ps ! 5))) (\<lambda>n.
             if n = 0 then sql_return None else nas_get_by_id i))"

definition nas_delete :: "nat \<Rightarrow> bool sql" where
  "nas_delete i = pool_exec (\<lambda>co d. let (n, d') = delete_nas i d in (0 < n, d'))"

definition nas_exists :: "js_str \<Rightarrow> js_str \<Rightarrow> nat option \<Rightarrow> bool sql" where
  "nas_exists n ip ex =
     sql_bind (bind_params [n, ip]) (\<lambda>ps. pool_query (\<lambda>co. nas_exists_q co (ps ! 0) (ps ! 1) ex))"

definition nas_get_count :: "nat sql" where
  "nas_get_count = pool_query (\<lambda>co d. length (nas d))"

definition nas_search :: "string \<Rightarrow> nas_row list sql" where
  "nas_search t = pool_query (\<lambda>co. nas_list_q (nas_search_match co t) co)"

section \<open>Invariant and abstraction\<close>

text \<open>
  The spec's uniqueness invariant: no two NAS rows share a name or an address (under the
  collation the \<open>exists\<close> check compares with).
\<close>

definition nas_unique :: "collation \<Rightarrow> db \<Rightarrow> bool" where
  "nas_unique co d \<longleftrightarrow>
     distinct (map (\<lambda>r. co (shortname r)) (nas d)) \<and> distinct (map (\<lambda>r. co (nasname r)) (nas d))"

text \<open>The abstract repository: a finite map from ids to the seven stored fields.\<close>

type_synonym nas_fields = "string \<times> string \<times> string \<times> string \<times> int \<times> string \<times> string"

definition nas_fields_of :: "nas_row \<Rightarrow> nas_fields" where
  "nas_fields_of r = (shortname r, nasname r, secret r, nas_type r, ports r, community r, description r)"

definition nas_abs :: "db \<Rightarrow> nat \<rightharpoonup> nas_fields" where
  "nas_abs d = map_of (map (\<lambda>r. (nas_id r, nas_fields_of r)) (nas d))"

text \<open>One router, and the body of a second one.\<close>

definition router_db :: db where
  "router_db = empty_db\<lparr>nas := [\<lparr>nas_id = 1, shortname = ''router1'', nasname = ''10.0.0.1'', secret = ''sharedsecret1'',
                                   nas_type = ''other'', ports = 1812, community = [], description = []\<rparr>],
                        nas_next := 2\<rparr>"

definition router2 :: nas_input where
  "router2 = \<lparr>ni_name = Some ''router2'', ni_ip = Some ''10.0.0.2'', ni_secret = Some ''sharedsecret2'',
              ni_type = Some ''cisco'', ni_ports = Some 1645, ni_community = Some [], ni_description = Some ''edge''\<rparr>"

section \<open>Lemmas\<close>

subsection \<open>Successful statements\<close>

lemma nas_abs_by_id: "map_option nas_fields_of (nas_by_id_q i d) = nas_abs d i"
proof -
  have "map_option nas_fields_of (js_index (filter (\<lambda>r. nas_id r = i) rs) 0) =
        map_of (map (\<lambda>r. (nas_id r, nas_fields_of r)) rs) i" for rs
    by (induction rs) auto
  then show ?thesis by (simp add: nas_by_id_q_def nas_abs_def)
qed

lemma nas_abs_dom: "i \<in> dom (nas_abs d) \<longleftrightarrow> filter (\<lambda>r. nas_id r = i) (nas d) \<noteq> []"
proof -
  have "i \<in> dom (map_of (map (\<lambda>r. (nas_id r, nas_fields_of r)) rs)) \<longleftrightarrow> filter (\<lambda>r. nas_id r = i) rs \<noteq> []" for rs
    by (induction rs) auto
  then show ?thesis by (simp add: nas_abs_def)
qed

lemma nas_abs_insert:
  assumes "\<forall>r\<in>set (nas d). nas_id r < nas_next d"
  shows "nas_abs (snd (insert_nas n ip sec ty po cm de d)) =
           (nas_abs d)(nas_next d \<mapsto> (n, ip, sec, ty, po, cm, de))"
    and "nas_next d \<notin> dom (nas_abs d)"
proof -
  have "filter (\<lambda>r. nas_id r = nas_next d) (nas d) = []"
    using assms by (auto simp: filter_empty_conv)
  then show fresh: "nas_next d \<notin> dom (nas_abs d)" by (simp add: nas_abs_dom)
  then show "nas_abs (snd (insert_nas n ip sec ty po cm de d)) =
           (nas_abs d)(nas_next d \<mapsto> (n, ip, sec, ty, po, cm, de))"
  proof -
    have gen: "k \<notin> dom (map_of xs) \<Longrightarrow> map_of (xs @ [(k, v)]) = (map_of xs)(k \<mapsto> v)" for xs :: "(nat \<times> nas_fields) list" and k v
      by (auto simp: map_of_append map_add_def fun_eq_iff split: option.splits)
    from fresh show ?thesis
      using gen [where xs = "map (\<lambda>r. (nas_id r, nas_fields_of r)) (nas d)" and k = "nas_next d"
          and v = "(n, ip, sec, ty, po, cm, de)"]
      by (simp add: insert_nas_def nas_abs_def nas_fields_of_def Let_def)
  qed
qed

lemma nas_abs_update:
  "nas_abs (snd (update_nas i n ip sec ty po cm de d)) =
     (if i \<in> dom (nas_abs d) then (nas_abs d)(i \<mapsto> (n, ip, sec, ty, po, cm, de)) else nas_abs d)"
proof -
  have "map_of (map (\<lambda>r. (nas_id r, nas_fields_of r))
          (map (\<lambda>r. if nas_id r = i then r\<lparr>shortname := n, nasname := ip, secret := sec, nas_type := ty,
                                         ports := po, community := cm, description := de\<rparr> else r) rs)) =
        (if i \<in> dom (map_of (map (\<lambda>r. (nas_id r, nas_fields_of r)) rs))
         then (map_of (map (\<lambda>r. (nas_id r, nas_fields_of r)) rs))(i \<mapsto> (n, ip, sec, ty, po, cm, de))
         else map_of (map (\<lambda>r. (nas_id r, nas_fields_of r)) rs))" for rs
    by (induction rs) (auto simp: nas_fields_of_def fun_eq_iff)
  then show ?thesis by (simp add: update_nas_def nas_abs_def)
qed

lemma nas_abs_delete: "nas_abs (snd (delete_nas i d)) = (nas_abs d)(i := None)"
proof -
  have "map_of (map (\<lambda>r. (nas_id r, nas_fields_of r)) (filter (\<lambda>r. nas_id r \<noteq> i) rs)) =
        (map_of (map (\<lambda>r. (nas_id r, nas_fields_of r)) rs))(i := None)" for rs
    by (induction rs) (auto simp: fun_eq_iff)
  then show ?thesis by (simp add: delete_nas_def nas_abs_def)
qed

lemma nas_count_dom: "0 < fst (update_nas i n ip sec ty po cm de d) \<longleftrightarrow> i \<in> dom (nas_abs d)"
  "0 < fst (delete_nas i d) \<longleftrightarrow> i \<in> dom (nas_abs d)"
  by (simp_all add: update_nas_def delete_nas_def nas_abs_dom)


lemma nas_create_refines:
  assumes wf: "\<forall>r\<in>set (nas (committed s)). nas_id r < nas_next (committed s)"
    and run: "nas_create x s = (Inr r, s')"
  shows "nas_id r \<notin> dom (nas_abs (committed s)) \<and>
         nas_abs (committed s') = (nas_abs (committed s))(nas_id r \<mapsto> nas_fields_of r)"
proof -
  from run obtain ps s1 i where bp: "bind_params [ni_name x, ni_ip x, ni_secret x] s = (Inr ps, s1)"
    and ex: "pool_exec (\<lambda>co. insert_nas (ps ! 0) (ps ! 1) (ps ! 2)
               (js_default ''other'' (ni_type x)) (js_default 1812 (ni_ports x))
               (js_default [] (ni_community x)) (js_default [] (ni_description x))) s1
             = (Inr i, s')"
    and r: "r = \<lparr>nas_id = i, shortname = ps ! 0, nasname = ps ! 1, secret = ps ! 2,
                 nas_type = (js_default ''other'' (ni_type x)),
                 ports = (js_default 1812 (ni_ports x)),
                 community = (js_default [] (ni_community x)),
                 description = (js_default [] (ni_description x))\<rparr>"
    unfolding nas_create_def Let_def
    by (auto elim!: sql_bind_InrE simp: sql_return_def)
  from bind_params_Inr [OF bp] have s1: "s1 = s" by simp
  from pool_exec_Inr [OF ex [unfolded s1]] have "i = nas_next (committed s)"
    and c: "committed s' = snd (insert_nas (ps ! 0) (ps ! 1) (ps ! 2)
               (js_default ''other'' (ni_type x)) (js_default 1812 (ni_ports x))
               (js_default [] (ni_community x)) (js_default [] (ni_description x))
               (committed s))"
    by (simp_all add: insert_nas_def Let_def)
  with r nas_abs_insert [OF wf] show ?thesis by (simp add: nas_fields_of_def)
qed

lemma nas_delete_refines:
  "nas_delete i s = (Inr b, s') \<Longrightarrow>
   (b \<longleftrightarrow> i \<in> dom (nas_abs (committed s))) \<and> nas_abs (committed s') = (nas_abs (committed s))(i := None)"
  unfolding nas_delete_def
  by (drule pool_exec_Inr) (simp add: case_prod_beta nas_abs_delete nas_count_dom(2))

lemma nas_get_by_id_refines:
  "nas_get_by_id i s = (Inr v, s') \<Longrightarrow>
   map_option nas_fields_of v = nas_abs (committed s) i \<and> committed s' = committed s"
  unfolding nas_get_by_id_def by (drule pool_query_Inr) (simp add: nas_abs_by_id)

lemma nas_model_update_refines:
  assumes run: "nas_model_update i x s = (Inr v, s')"
  shows "(v = None \<longleftrightarrow> i \<notin> dom (nas_abs (committed s))) \<and>
         nas_abs (committed s') =
           (case v of None \<Rightarrow> nas_abs (committed s) | Some r \<Rightarrow> (nas_abs (committed s))(i \<mapsto> nas_fields_of r)) \<and>
         (\<forall>r. v = Some r \<longrightarrow> nas_fields_of r = (the (ni_name x), the (ni_ip x), the (ni_secret x), the (ni_type x),
                                                 the (ni_ports x), the (ni_community x), the (ni_description x)))"
proof -
  from run obtain ps s1 where bp: "bind_params [ni_name x, ni_ip x, ni_secret x, ni_type x, ni_community x, ni_description x] s = (Inr ps, s1)"
    and rest: "(case ni_ports x of None \<Rightarrow> sql_throw Undefined_Bind_Parameter
               | Some po \<Rightarrow> sql_bind (pool_exec (\<lambda>co. update_nas i (ps ! 0) (ps ! 1) (ps ! 2) (ps ! 3) po (ps ! 4) (ps ! 5)))
                             (\<lambda>n. if n = 0 then sql_return None else nas_get_by_id i)) s1 = (Inr v, s')"
    unfolding nas_model_update_def by (auto elim!: sql_bind_InrE)
  from bind_params_Inr [OF bp] have s1: "s1 = s"
    and ps: "ps = [the (ni_name x), the (ni_ip x), the (ni_secret x), the (ni_type x), the (ni_community x), the (ni_description x)]"
    by simp_all
  obtain po where po: "ni_ports x = Some po" using rest by (cases "ni_ports x") (simp_all add: sql_throw_def)
  let ?f = "(the (ni_name x), the (ni_ip x), the (ni_secret x), the (ni_type x), po, the (ni_community x), the (ni_description x))"
  from rest po s1 obtain n s2 where ex: "pool_exec (\<lambda>co. update_nas i (ps ! 0) (ps ! 1) (ps ! 2) (ps ! 3) po (ps ! 4) (ps ! 5)) s = (Inr n, s2)"
    and fin: "(if n = 0 then sql_return None else nas_get_by_id i) s2 = (Inr v, s')"
    by (auto elim!: sql_bind_InrE)
  from pool_exec_Inr [OF ex] ps have n: "n = fst (update_nas i (the (ni_name x)) (the (ni_ip x)) (the (ni_secret x))
        (the (ni_type x)) po (the (ni_community x)) (the (ni_description x)) (committed s))"
    and c2: "nas_abs (committed s2) = (if i \<in> dom (nas_abs (committed s)) then (nas_abs (committed s))(i \<mapsto> ?f) else nas_abs (committed s))"
    by (simp_all add: nas_abs_update)
  show ?thesis
  proof (cases "i \<in> dom (nas_abs (committed s))")
    case False
    then have "n = 0" using n nas_count_dom(1) by blast
    with fin False c2 show ?thesis by (simp add: sql_return_def)
  next
    case True
    then have "n \<noteq> 0" using n nas_count_dom(1) by blast
    with fin have "nas_get_by_id i s2 = (Inr v, s')" by simp
    from nas_get_by_id_refines [OF this] True c2 have "map_option nas_fields_of v = Some ?f" "committed s' = committed s2"
      by simp_all
    with True c2 po show ?thesis by (cases v) auto
  qed
qed

section \<open>Properties\<close>

text \<open>
  C25: the NAS repository implements a finite map from ids to the seven stored fields.
  On a table whose ids are below the counter, every successful \<open>create\<close> adds a fresh
  id with the fields it returns, \<open>update\<close> overwrites the fields of an existing id with
  the body's (and returns \<open>null\<close> exactly when the id is absent), \<open>delete\<close> removes the
  id (and reports whether it was present), and \<open>getById\<close> reads the map, whatever the
  state of the store.
\<close>

theorem nas_repository_refines_map:
  assumes wf: "\<forall>r\<in>set (nas (committed s)). nas_id r < nas_next (committed s)"
  shows "(nas_create x s = (Inr r, s1) \<longrightarrow>
            nas_id r \<notin> dom (nas_abs (committed s)) \<and>
            nas_abs (committed s1) = (nas_abs (committed s))(nas_id r \<mapsto> nas_fields_of r)) \<and>
         (nas_model_update i x s = (Inr v, s2) \<longrightarrow>
            (v = None \<longleftrightarrow> i \<notin> dom (nas_abs (committed s))) \<and>
            nas_abs (committed s2) =
              (case v of None \<Rightarrow> nas_abs (committed s) | Some r' \<Rightarrow> (nas_abs (committed s))(i \<mapsto> nas_fields_of r')) \<and>
            (\<forall>r'. v = Some r' \<longrightarrow> nas_fields_of r' = (the (ni_name x), the (ni_ip x), the (ni_secret x), the (ni_type x),
                                                   the (ni_ports x), the (ni_community x), the (ni_description x)))) \<and>
         (nas_delete i s = (Inr b, s3) \<longrightarrow>
            (b \<longleftrightarrow> i \<in> dom (nas_abs (committed s))) \<and> nas_abs (committed s3) = (nas_abs (committed s))(i := None)) \<and>
         (nas_get_by_id i s = (Inr w, s4) \<longrightarrow> map_option nas_fields_of w = nas_abs (committed s) i)"
proof -
  have c: "nas_create x s = (Inr r, s1) \<longrightarrow>
            nas_id r \<notin> dom (nas_abs (committed s)) \<and>
            nas_abs (committed s1) = (nas_abs (committed s))(nas_id r \<mapsto> nas_fields_of r)"
    using nas_create_refines [OF wf] by (rule impI)
  have g: "nas_get_by_id i s = (Inr w, s4) \<longrightarrow> map_option nas_fields_of w = nas_abs (committed s) i"
    using nas_get_by_id_refines by (intro impI) simp
  show ?thesis
    by (intro conjI impI c [rule_format] g [rule_format] nas_model_update_refines nas_delete_refines)
qed

theorem nas_repository_refines_map_witness:
  "map nas_id (nas router_db) = [1] \<and> nas_next router_db = 2 \<and>
   (\<exists>r s1. nas_create router2 (healthy_store id router_db) = (Inr r, s1) \<and>
      nas_abs (committed s1) = (nas_abs router_db)(2 \<mapsto> (''router2'', ''10.0.0.2'', ''sharedsecret2'', ''cisco'', 1645, [], ''edge''))) \<and>
   (\<exists>b s3. nas_delete 1 (healthy_store id router_db) = (Inr b, s3) \<and> b \<and>
      nas_abs (committed s3) = (nas_abs router_db)(1 := None))"
proof -
  let ?s = "healthy_store id router_db"
  have wf: "\<forall>r\<in>set (nas (committed ?s)). nas_id r < nas_next (committed ?s)"
    by (simp add: healthy_store_def router_db_def)
  let ?r = "\<lparr>nas_id = 2, shortname = ''router2'', nasname = ''10.0.0.2'', secret = ''sharedsecret2'',
             nas_type = ''cisco'', ports = 1645, community = [], description = ''edge''\<rparr>"
  have "fst (nas_create router2 ?s) = Inr ?r"
    by (simp add: nas_create_def router2_def bind_params_def pool_exec_def insert_nas_def sql_bind_def Let_def
        sql_return_def healthy_store_def router_db_def empty_db_def)
  then obtain s1 where c: "nas_create router2 ?s = (Inr ?r, s1)"
    by (cases "nas_create router2 ?s") simp
  have "fst (nas_delete 1 ?s) = Inr True"
    by (simp add: nas_delete_def pool_exec_def delete_nas_def healthy_store_def router_db_def)
  then obtain s3 where d: "nas_delete 1 ?s = (Inr True, s3)"
    by (cases "nas_delete 1 ?s") simp
  have ids: "map nas_id (nas router_db) = [1]" "nas_next router_db = 2"
    by (simp_all add: router_db_def)
  from nas_repository_refines_map [OF wf, of router2 ?r s1 1 _ _ True s3] c d
  show ?thesis by (simp add: healthy_store_def nas_fields_of_def ids, blast)
qed

end
