(* ===== verification/Nas_Controller.thy ===== *)
theory Nas_Controller
  imports Nas_Model Http_Handler
begin

text \<open>
  The handlers of \<open>src/controllers/nasController.js\<close>, over the NAS repository and with
  the same \<open>try/catch\<close> as the user handlers (\<open>catch_500\<close>).  Every record leaves the
  API renamed (\<open>shortname\<close> as \<open>name\<close>, \<open>nasname\<close> as \<open>ip\<close>): \<open>nas_view\<close>.
\<close>

record nas_api =
  api_id :: nat
  api_name :: string
  api_ip :: string
  api_secret :: string
  api_type :: string
  api_ports :: int
  api_community :: string
  api_description :: string

definition nas_view :: "nas_row \<Rightarrow> nas_api" where
  "nas_view r = \<lparr>api_id = nas_id r, api_name = shortname r, api_ip = nasname r, api_secret = secret r,
                 api_type = nas_type r, api_ports = ports r, api_community = community r,
                 api_description = description r\<rparr>"

section \<open>Handlers\<close>

definition nc_get_all :: "js_str \<Rightarrow> nas_api list handler" where
  "nc_get_all search =
     catch_500 (sql_bind (if js_truthy search then nas_search (the search) else nas_get_all) (\<lambda>rows.
       sql_return (reply 200 ''NAS entries retrieved successfully'' (map nas_view rows))))"

definition nc_get_by_id :: "nat \<Rightarrow> nas_api handler" where
  "nc_get_by_id i =
     catch_500 (sql_bind (nas_get_by_id i) (\<lambda>r.
       case r of None \<Rightarrow> sql_return (deny 404 ''NAS not found'')
       | Some n \<Rightarrow> sql_return (reply 200 ''NAS retrieved successfully'' (nas_view n))))"

definition nas_conflict :: string where
  "nas_conflict = ''NAS with this name or IP already exists''"

text \<open>\<open>create\<close>: 409 when \<open>exists(name, ip)\<close>, else \<open>NasModel.create\<close> and 201.\<close>

definition nc_create :: "nas_input \<Rightarrow> nas_api handler" where
  "nc_create x =
     catch_500 (sql_bind (nas_exists (ni_name x) (ni_ip x) None) (\<lambda>ex.
       if ex then sql_return (deny 409 nas_conflict)
       else sql_bind (nas_create x) (\<lambda>r. sql_return (reply 201 ''NAS created successfully'' (nas_view r)))))"

text \<open>
  \<open>update\<close>: 404 without the row; when the body has a truthy \<open>name\<close> or \<open>ip\<close>, 409 if
  another row has the new name or address (the missing one taken from the row); then
  \<open>NasModel.update\<close> with the body as it is.
\<close>

definition nc_update :: "nat \<Rightarrow> nas_input \<Rightarrow> nas_api handler" where
  "nc_update i x =
     catch_500 (sql_bind (nas_get_by_id i) (\<lambda>r.
       case r of None \<Rightarrow> sql_return (deny 404 ''NAS not found'')
       | Some old \<Rightarrow>
           sql_bind
             (if js_truthy (ni_name x) \<or> js_truthy (ni_ip x)
              then nas_exists (Some (js_or (ni_name x) (shortname old))) (Some (js_or (ni_ip x) (nasname old))) (Some i)
              else sql_return False) (\<lambda>ex.
           if ex then sql_return (deny 409 nas_conflict)
           else sql_bind (nas_model_update i x) (\<lambda>u.
             case u of None \<Rightarrow> sql_return (deny 404 ''NAS not found or no changes made'')
             | Some n \<Rightarrow> sql_return (reply 200 ''NAS updated successfully'' (nas_view n))))))"

definition nc_delete :: "nat \<Rightarrow> unit handler" where
  "nc_delete i =
     catch_500 (sql_bind (nas_get_by_id i) (\<lambda>r.
       case r of None \<Rightarrow> sql_return (deny 404 ''NAS not found'')
       | Some _ \<Rightarrow> sql_bind (nas_delete i) (\<lambda>deleted.
           if \<not> deleted then sql_return (deny 404 ''NAS not found or already deleted'')
           else sql_return (ack 200 ''NAS deleted successfully''))))"

definition nc_get_stats :: "nat handler" where
  "nc_get_stats =
     catch_500 (sql_bind nas_get_count (\<lambda>n. sql_return (reply 200 ''NAS statistics retrieved successfully'' n)))"

text \<open>A \<open>PUT\<close> body that only changes the secret, as the update schema allows.\<close>

definition secret_only :: nas_input where
  "secret_only = \<lparr>ni_name = None, ni_ip = None, ni_secret = Some ''newsecret1'', ni_type = None, ni_ports = None,
                  ni_community = None, ni_description = None\<rparr>"

section \<open>Lemmas\<close>

lemma distinct_map_update_one:
  assumes "distinct (map f xs)" and "distinct (map g xs)" and "\<forall>x\<in>set xs. g x \<noteq> i \<longrightarrow> f x \<noteq> k"
  shows "distinct (map (\<lambda>x. if g x = i then k else f x) xs)"
  using assms by (induction xs) (auto simp: image_iff)

lemma nas_unique_insert:
  "insert_nas n ip sec ty po cm de d = (i, d') \<Longrightarrow> nas_unique co d \<Longrightarrow> \<not> nas_exists_q co n ip None d \<Longrightarrow>
   nas_unique co d'"
  by (auto simp: nas_unique_def nas_exists_q_def insert_nas_def sql_eq_def filter_empty_conv Let_def) blast+

lemma nas_unique_update:
  assumes run: "update_nas i n ip sec ty po cm de d = (c, d')"
    and "nas_unique co d" and "distinct (map nas_id (nas d))" and "\<not> nas_exists_q co n ip (Some i) d"
  shows "nas_unique co d'"
proof -
  have k: "\<forall>r\<in>set (nas d). nas_id r \<noteq> i \<longrightarrow> co (shortname r) \<noteq> co n \<and> co (nasname r) \<noteq> co ip"
    using assms(4) by (auto simp: nas_exists_q_def sql_eq_def filter_empty_conv)
  have "map (\<lambda>r. co (shortname r)) (nas (snd (update_nas i n ip sec ty po cm de d))) =
        map (\<lambda>r. if nas_id r = i then co n else co (shortname r)) (nas d)"
       "map (\<lambda>r. co (nasname r)) (nas (snd (update_nas i n ip sec ty po cm de d))) =
        map (\<lambda>r. if nas_id r = i then co ip else co (nasname r)) (nas d)"
    by (simp_all add: update_nas_def)
  moreover have "distinct (map (\<lambda>r. if nas_id r = i then co n else co (shortname r)) (nas d))"
    using assms(2,3) k by (intro distinct_map_update_one) (auto simp: nas_unique_def)
  moreover have "distinct (map (\<lambda>r. if nas_id r = i then co ip else co (nasname r)) (nas d))"
    using assms(2,3) k by (intro distinct_map_update_one) (auto simp: nas_unique_def)
  moreover have "d' = snd (update_nas i n ip sec ty po cm de d)" using run by simp
  ultimately show ?thesis by (simp add: nas_unique_def)
qed

lemma nas_unique_delete: "delete_nas i d = (c, d') \<Longrightarrow> nas_unique co d \<Longrightarrow> nas_unique co d'"
  by (auto simp: nas_unique_def delete_nas_def distinct_map_filter)


lemma nc_create_unique:
  "nas_unique (coll s) (committed s) \<Longrightarrow> nas_unique (coll s) (committed (snd (nc_create x s)))"
  unfolding nc_create_def catch_500_def nas_exists_def nas_create_def bind_params_def pool_query_def
    pool_exec_def sql_bind_def sql_return_def sql_throw_def Let_def
  by (auto split: prod.splits sum.splits if_splits intro: nas_unique_insert)


lemma nc_update_unique:
  assumes "nas_unique (coll s) (committed s)" and "distinct (map nas_id (nas (committed s)))"
    and "ni_name x \<noteq> Some []" and "ni_ip x \<noteq> Some []"
  shows "nas_unique (coll s) (committed (snd (nc_update i x s)))"
  using assms
  unfolding nc_update_def catch_500_def nas_exists_def nas_model_update_def nas_get_by_id_def bind_params_def
    pool_query_def pool_exec_def sql_bind_def sql_return_def sql_throw_def
  by (auto split: prod.splits sum.splits if_splits option.splits intro: nas_unique_update)

lemma nc_delete_unique:
  "nas_unique (coll s) (committed s) \<Longrightarrow> nas_unique (coll s) (committed (snd (nc_delete i s)))"
  unfolding nc_delete_def catch_500_def nas_delete_def nas_get_by_id_def pool_query_def pool_exec_def
    sql_bind_def sql_return_def
  by (auto split: prod.splits sum.splits if_splits option.splits intro: nas_unique_delete)


lemma nas_by_id_insert:
  "\<forall>r\<in>set (nas d). nas_id r < nas_next d \<Longrightarrow>
   nas_by_id_q (nas_next d) (snd (insert_nas n ip sec ty po cm de d)) =
     Some \<lparr>nas_id = nas_next d, shortname = n, nasname = ip, secret = sec, nas_type = ty, ports = po,
           community = cm, description = de\<rparr>"
proof -
  assume "\<forall>r\<in>set (nas d). nas_id r < nas_next d"
  then have "filter (\<lambda>r. nas_id r = nas_next d) (nas d) = []" by (auto simp: filter_empty_conv)
  then show ?thesis by (simp add: nas_by_id_q_def insert_nas_def Let_def)
qed

lemma nc_create_healthy:
  assumes "budget s = None" "ni_name x = Some n" "ni_ip x = Some ip" "ni_secret x = Some sec"
    and "\<not> nas_exists_q (coll s) n ip None (committed s)"
  shows "nc_create x s =
    (reply 201 ''NAS created successfully''
       (nas_view \<lparr>nas_id = nas_next (committed s), shortname = n, nasname = ip, secret = sec,
                  nas_type = js_default ''other'' (ni_type x), ports = js_default 1812 (ni_ports x),
                  community = js_default [] (ni_community x), description = js_default [] (ni_description x)\<rparr>),
     s\<lparr>committed := snd (insert_nas n ip sec (js_default ''other'' (ni_type x)) (js_default 1812 (ni_ports x))
                        (js_default [] (ni_community x)) (js_default [] (ni_description x)) (committed s))\<rparr>)"
  using assms
  by (simp add: nc_create_def catch_500_def nas_exists_def nas_create_def bind_params_def pool_query_ok
      pool_exec_ok sql_bind_def sql_return_def Let_def insert_nas_def)

lemma router_db_facts:
  "\<forall>r\<in>set (nas router_db). nas_id r < nas_next router_db" "distinct (map nas_id (nas router_db))"
  "nas_unique id router_db" "\<not> nas_exists_q id ''router2'' ''10.0.0.2'' None router_db"
  "nas_by_id_q 1 router_db \<noteq> None"
  by (simp_all add: router_db_def nas_unique_def nas_exists_q_def nas_by_id_q_def)

section \<open>Properties\<close>

text \<open>
  C26: on a store that does not fail, \<open>POST /nas\<close> with a name and address no row has
  answers 201 with the new record, and \<open>GET /nas/:id\<close> with its id then answers 200 with
  the same record, whose fields are the body's (type, ports, community and description
  defaulting to \<open>other\<close>, 1812 and empty).
\<close>

theorem nas_post_then_get:
  assumes healthy: "budget s = None"
    and fields: "ni_name x = Some n" "ni_ip x = Some ip" "ni_secret x = Some sec"
    and fresh: "\<not> nas_exists_q (coll s) n ip None (committed s)"
    and wf: "\<forall>r\<in>set (nas (committed s)). nas_id r < nas_next (committed s)"
  shows "\<exists>v s'. nc_create x s = (reply 201 ''NAS created successfully'' v, s') \<and>
           nc_get_by_id (api_id v) s' = (reply 200 ''NAS retrieved successfully'' v, s') \<and>
           (api_name v, api_ip v, api_secret v, api_type v, api_ports v, api_community v, api_description v) =
             (n, ip, sec, js_default ''other'' (ni_type x), js_default 1812 (ni_ports x),
              js_default [] (ni_community x), js_default [] (ni_description x))"
proof -
  let ?d = "committed s"
  let ?row = "\<lparr>nas_id = nas_next ?d, shortname = n, nasname = ip, secret = sec,
                nas_type = js_default ''other'' (ni_type x), ports = js_default 1812 (ni_ports x),
                community = js_default [] (ni_community x), description = js_default [] (ni_description x)\<rparr>"
  let ?s' = "s\<lparr>committed := snd (insert_nas n ip sec (js_default ''other'' (ni_type x)) (js_default 1812 (ni_ports x))
                        (js_default [] (ni_community x)) (js_default [] (ni_description x)) ?d)\<rparr>"
  have c: "nc_create x s = (reply 201 ''NAS created successfully'' (nas_view ?row), ?s')"
    using nc_create_healthy [OF healthy fields fresh] .
  have g: "nc_get_by_id (api_id (nas_view ?row)) ?s' = (reply 200 ''NAS retrieved successfully'' (nas_view ?row), ?s')"
    using healthy nas_by_id_insert [OF wf]
    by (simp add: nc_get_by_id_def nas_get_by_id_def catch_500_def pool_query_ok sql_bind_def sql_return_def
        nas_view_def)
  show ?thesis
    by (intro exI [of _ "nas_view ?row"] exI [of _ ?s'] conjI c g) (simp add: nas_view_def)
qed

theorem nas_post_then_get_witness:
  "budget (healthy_store id router_db) = None \<and> ni_name router2 = Some ''router2'' \<and> ni_ip router2 = Some ''10.0.0.2'' \<and>
   ni_secret router2 = Some ''sharedsecret2'' \<and> \<not> nas_exists_q id ''router2'' ''10.0.0.2'' None router_db \<and>
   (\<exists>v s'. nc_create router2 (healthy_store id router_db) = (reply 201 ''NAS created successfully'' v, s') \<and>
      nc_get_by_id (api_id v) s' = (reply 200 ''NAS retrieved successfully'' v, s') \<and>
      (api_name v, api_ip v, api_secret v, api_type v, api_ports v, api_community v, api_description v) =
        (''router2'', ''10.0.0.2'', ''sharedsecret2'', ''cisco'', 1645, [], ''edge''))"
  using nas_post_then_get [of "healthy_store id router_db" router2 "''router2''" "''10.0.0.2''" "''sharedsecret2''"]
    router_db_facts
  by (simp add: healthy_store_def router2_def)

text \<open>
  C27: after a successful \<open>POST /nas\<close>, a second one with the same name or the same
  address (under the collation) answers 409 and changes nothing.
\<close>

theorem nas_duplicate_409:
  assumes healthy: "budget s = None"
    and fields: "ni_name x = Some n" "ni_ip x = Some ip" "ni_secret x = Some sec"
    and fresh: "\<not> nas_exists_q (coll s) n ip None (committed s)"
    and dup: "ni_name y = Some n'" "ni_ip y = Some ip'" "coll s n' = coll s n \<or> coll s ip' = coll s ip"
  shows "\<exists>v s'. nc_create x s = (reply 201 ''NAS created successfully'' v, s') \<and>
           nc_create y s' = (deny 409 nas_conflict, s')"
proof -
  let ?s' = "s\<lparr>committed := snd (insert_nas n ip sec (js_default ''other'' (ni_type x)) (js_default 1812 (ni_ports x))
                        (js_default [] (ni_community x)) (js_default [] (ni_description x)) (committed s))\<rparr>"
  have "nas_exists_q (coll s) n' ip' None (committed ?s')"
    using dup(3) by (auto simp: nas_exists_q_def insert_nas_def sql_eq_def Let_def)
  then have "nc_create y ?s' = (deny 409 nas_conflict, ?s')"
    using healthy dup(1,2)
    by (simp add: nc_create_def catch_500_def nas_exists_def bind_params_def pool_query_ok sql_bind_def sql_return_def)
  with nc_create_healthy [OF healthy fields fresh] show ?thesis by blast
qed

theorem nas_duplicate_409_witness:
  "budget (healthy_store id router_db) = None \<and> \<not> nas_exists_q id ''router2'' ''10.0.0.2'' None router_db \<and>
   (\<exists>v s'. nc_create router2 (healthy_store id router_db) = (reply 201 ''NAS created successfully'' v, s') \<and>
      nc_create (router2\<lparr>ni_name := Some ''router3''\<rparr>) s' = (deny 409 nas_conflict, s'))"
  using nas_duplicate_409 [of "healthy_store id router_db" router2 "''router2''" "''10.0.0.2''" "''sharedsecret2''"
      "router2\<lparr>ni_name := Some ''router3''\<rparr>" "''router3''" "''10.0.0.2''"]
    router_db_facts
  by (simp add: healthy_store_def router2_def)

text \<open>
  C28: no two NAS rows share a name or an address: \<open>POST\<close>, \<open>PUT\<close> and
  \<open>DELETE /nas\<close> keep this on any store, whichever statement fails, for bodies whose
  name and address are not empty strings (which the validator rejects).
\<close>

theorem nas_unique_preserved:
  assumes "nas_unique (coll s) (committed s)" and "distinct (map nas_id (nas (committed s)))"
    and "ni_name x \<noteq> Some []" and "ni_ip x \<noteq> Some []"
  shows "nas_unique (coll s) (committed (snd (nc_create x s))) \<and>
         nas_unique (coll s) (committed (snd (nc_update i x s))) \<and>
         nas_unique (coll s) (committed (snd (nc_delete i s)))"
  using nc_create_unique [OF assms(1)] nc_update_unique [OF assms] nc_delete_unique [OF assms(1)] by blast

theorem nas_unique_preserved_witness:
  "nas_unique id router_db \<and> distinct (map nas_id (nas router_db)) \<and>
   ni_name router2 \<noteq> Some [] \<and> ni_ip router2 \<noteq> Some [] \<and>
   nas_unique id (committed (snd (nc_create router2 (healthy_store id router_db)))) \<and>
   nas_unique id (committed (snd (nc_update 1 router2 (healthy_store id router_db)))) \<and>
   nas_unique id (committed (snd (nc_delete 1 (healthy_store id router_db))))"
  using nas_unique_preserved [of "healthy_store id router_db" router2 1] router_db_facts
  by (simp add: healthy_store_def router2_def)

text \<open>
  C29: \<open>PUT /nas/:id\<close> with a body that leaves out name and address (e.g. only a new
  secret, which the update schema accepts) answers 500 and changes nothing:
  \<open>NasModel.update\<close> binds every column and the missing ones are \<open>undefined\<close>.
\<close>

theorem nas_partial_update_500:
  assumes "budget s = None" and "nas_by_id_q i (committed s) \<noteq> None"
    and "ni_name x = None" and "ni_ip x = None"
  shows "nc_update i x s = (internal_error, s)"
  using assms
  by (auto simp: nc_update_def catch_500_def nas_model_update_def nas_get_by_id_def bind_params_def
      pool_query_ok sql_bind_def sql_return_def sql_throw_def)


theorem nas_partial_update_500_witness:
  "budget (healthy_store id router_db) = None \<and> nas_by_id_q 1 router_db \<noteq> None \<and>
   ni_name secret_only = None \<and> ni_ip secret_only = None \<and>
   nc_update 1 secret_only (healthy_store id router_db) = (internal_error, healthy_store id router_db)"
  using nas_partial_update_500 [of "healthy_store id router_db" 1 secret_only] router_db_facts
  by (simp add: healthy_store_def secret_only_def)

text \<open>Every answer of a handler keeps the envelope consistent.\<close>

lemma nc_envelope:
  "envelope_ok (fst (nc_get_all q s))" "envelope_ok (fst (nc_get_by_id i s))"
  "envelope_ok (fst (nc_create x s))" "envelope_ok (fst (nc_update i x s))"
  "envelope_ok (fst (nc_delete i s))" "envelope_ok (fst (nc_get_stats s))"
  unfolding nc_get_all_def nc_get_by_id_def nc_create_def nc_update_def nc_delete_def nc_get_stats_def
  by (intro envelope_intros allI; simp)+

end
