(* ===== verification/Auth_Guard.thy ===== *)
theory Auth_Guard
  imports Radius_Prelude
begin

text \<open>
  The auth guard, \<open>src/middleware/auth.js\<close>, and the login and verify handlers of
  \<open>src/controllers/authController.js\<close>.  The configuration is the environment read by
  the code (\<open>JWT_SECRET\<close>, \<open>JWT_EXPIRES_IN\<close>, \<open>API_KEY\<close>, \<open>ADMIN_USERNAME\<close>,
  \<open>ADMIN_PASSWORD\<close>).  Signing and verifying tokens is the \<open>jsonwebtoken\<close> library,
  which is not part of the sources: the definitions take \<open>jwt.sign\<close> and
  \<open>jwt.verify\<close> as parameters, and each theorem states what it needs of them at the
  token in question.
\<close>

section \<open>Tokens and configuration\<close>

text \<open>The payload of a token: \<open>{username, role, iat}\<close> and the \<open>exp\<close> the library adds.\<close>

record claims =
  c_username :: string
  c_role :: string
  c_iat :: nat
  c_exp :: nat

datatype jwt_error = Jwt_Malformed | Jwt_Invalid_Signature | Jwt_Expired

text \<open>\<open>jwt.verify(token, secret)\<close> at a clock time in seconds, and \<open>jwt.sign(claims, secret)\<close>.\<close>

type_synonym jwt_verifier = "string \<Rightarrow> string \<Rightarrow> nat \<Rightarrow> jwt_error + claims"
type_synonym jwt_signer = "string \<Rightarrow> claims \<Rightarrow> string"

text \<open>
  The environment.  \<open>cfg_jwt_ttl\<close> is the lifetime in seconds the library reads from
  \<open>JWT_EXPIRES_IN || '24h'\<close>; \<open>cfg_jwt_expires_in\<close> is the raw variable, echoed by login.
\<close>

record config =
  cfg_jwt_secret :: js_str
  cfg_jwt_expires_in :: js_str
  cfg_jwt_ttl :: nat
  cfg_api_key :: js_str
  cfg_admin_username :: js_str
  cfg_admin_password :: js_str

text \<open>The two request headers the guard reads (Node lower-cases header names).\<close>

record headers =
  h_authorization :: js_str
  h_x_api_key :: js_str

text \<open>What a successful guard attaches to the request: \<open>req.user\<close> or \<open>req.apiAuth\<close>.\<close>

datatype auth_ctx = Jwt_User claims | Api_Key_Auth

type_synonym 'd guarded = "'d response + auth_ctx"

section \<open>The guard\<close>

text \<open>\<open>authHeader && authHeader.split(' ')[1]\<close>.\<close>

definition bearer_token :: "js_str \<Rightarrow> js_str" where
  "bearer_token h = (if js_truthy h then js_index (js_split CHR '' '' (the h)) 1 else None)"

text \<open>
  \<open>authenticateToken\<close>: 401 without a token; otherwise \<open>jwt.verify\<close> with the secret,
  403 on any error (an unset or empty secret is one), the claims on success.
\<close>

definition authenticate_token :: "jwt_verifier \<Rightarrow> config \<Rightarrow> nat \<Rightarrow> headers \<Rightarrow> 'd guarded" where
  "authenticate_token verify cfg now h =
     (let tok = bearer_token (h_authorization h) in
      if \<not> js_truthy tok then Inl (deny 401 ''Access token required'')
      else if \<not> js_truthy (cfg_jwt_secret cfg) then Inl (deny 403 ''Invalid or expired token'')
      else (case verify (the (cfg_jwt_secret cfg)) (the tok) now of
              Inl _ \<Rightarrow> Inl (deny 403 ''Invalid or expired token'')
            | Inr c \<Rightarrow> Inr (Jwt_User c)))"

text \<open>\<open>authenticateApiKey\<close>: the allow-list is \<open>[process.env.API_KEY || default]\<close>.\<close>

definition valid_api_keys :: "config \<Rightarrow> string list" where
  "valid_api_keys cfg = [js_or (cfg_api_key cfg) ''freeradius-api-key-change-this'']"

definition authenticate_api_key :: "config \<Rightarrow> headers \<Rightarrow> 'd guarded" where
  "authenticate_api_key cfg h =
     (if \<not> js_truthy (h_x_api_key h) then Inl (deny 401 ''API key required'')
      else if the (h_x_api_key h) \<notin> set (valid_api_keys cfg) then Inl (deny 403 ''Invalid API key'')
      else Inr Api_Key_Auth)"

text \<open>\<open>authenticate\<close>: the API key when present, else the bearer token, else 401.\<close>

definition authenticate :: "jwt_verifier \<Rightarrow> config \<Rightarrow> nat \<Rightarrow> headers \<Rightarrow> 'd guarded" where
  "authenticate verify cfg now h =
     (if js_truthy (h_x_api_key h) then authenticate_api_key cfg h
      else if js_truthy (h_authorization h) then authenticate_token verify cfg now h
      else Inl (deny 401 ''Authentication required (JWT token or API key)''))"

text \<open>\<open>requireAdmin\<close>: \<open>!req.user || req.user.role !== 'admin'\<close> is 403.\<close>

definition require_admin :: "auth_ctx \<Rightarrow> 'd guarded" where
  "require_admin a =
     (case a of Jwt_User c \<Rightarrow> if c_role c = ''admin'' then Inr a else Inl (deny 403 ''Admin access required'')
              | Api_Key_Auth \<Rightarrow> Inl (deny 403 ''Admin access required''))"

text \<open>
  \<open>generateToken(payload)\<close>: \<open>jwt.sign\<close> adds \<open>exp = iat + lifetime\<close>; it throws
  without a secret (\<open>None\<close>).
\<close>

definition generate_token :: "jwt_signer \<Rightarrow> config \<Rightarrow> string \<Rightarrow> string \<Rightarrow> nat \<Rightarrow> string option" where
  "generate_token sign cfg u role iat =
     (if js_truthy (cfg_jwt_secret cfg)
      then Some (sign (the (cfg_jwt_secret cfg))
                  \<lparr>c_username = u, c_role = role, c_iat = iat, c_exp = iat + cfg_jwt_ttl cfg\<rparr>)
      else None)"

section \<open>Login and verify\<close>

text \<open>The data of a successful login: \<open>{token, user: {username, role}, expires_in}\<close>.\<close>

record login_data =
  l_token :: string
  l_username :: string
  l_role :: string
  l_expires_in :: string

definition admin_username :: "config \<Rightarrow> string" where
  "admin_username cfg = js_or (cfg_admin_username cfg) ''admin''"

definition admin_password :: "config \<Rightarrow> string" where
  "admin_password cfg = js_or (cfg_admin_password cfg) ''admin123!''"

text \<open>
  \<open>AuthController.login\<close> at clock time \<open>now\<close> (seconds, \<open>Math.floor(Date.now() / 1000)\<close>):
  the one configured admin pair, compared with \<open>===\<close>; a failing \<open>jwt.sign\<close> lands in
  the \<open>catch\<close> (500).
\<close>

definition login :: "jwt_signer \<Rightarrow> config \<Rightarrow> nat \<Rightarrow> js_str \<Rightarrow> js_str \<Rightarrow> login_data response" where
  "login sign cfg now username password =
     (if username = Some (admin_username cfg) \<and> password = Some (admin_password cfg)
      then (case generate_token sign cfg (admin_username cfg) ''admin'' now of
              None \<Rightarrow> internal_error
            | Some t \<Rightarrow> reply 200 ''Login successful''
                \<lparr>l_token = t, l_username = admin_username cfg, l_role = ''admin'',
                 l_expires_in = js_or (cfg_jwt_expires_in cfg) ''24h''\<rparr>)
      else deny 401 ''Invalid credentials'')"

text \<open>\<open>GET /auth/verify\<close>: \<open>authenticateToken\<close>, then \<open>{user: req.user, valid: true}\<close>.\<close>

definition verify_endpoint :: "jwt_verifier \<Rightarrow> config \<Rightarrow> nat \<Rightarrow> headers \<Rightarrow> (auth_ctx \<times> bool) response" where
  "verify_endpoint verify cfg now h =
     (case authenticate_token verify cfg now h of
        Inl r \<Rightarrow> r
      | Inr a \<Rightarrow> reply 200 ''Token is valid'' (a, True))"


text \<open>A deployment with a secret, the default lifetime and the default credentials.\<close>

definition demo_cfg :: config where
  "demo_cfg = \<lparr>cfg_jwt_secret = Some ''s3cret'', cfg_jwt_expires_in = None, cfg_jwt_ttl = 86400,
                cfg_api_key = None, cfg_admin_username = None, cfg_admin_password = None\<rparr>"

section \<open>Lemmas\<close>

lemma bearer_token_scheme:
  assumes "CHR '' '' \<notin> set scheme" and "CHR '' '' \<notin> set tok"
  shows "bearer_token (Some (scheme @ CHR '' '' # tok)) = Some tok"
  using assms by (simp add: bearer_token_def js_split_append_sep js_split_no_sep js_index_def)

lemma bearer_token_None [simp]: "bearer_token None = None"
  by (simp add: bearer_token_def)

text \<open>
  C13: when an \<open>X-API-Key\<close> header is present the bearer token is never looked at, and
  the request is authenticated exactly when the key equals the configured one
  (\<open>API_KEY\<close>, or the built-in default when it is unset or empty); otherwise 403.
\<close>

theorem api_key_precedence:
  assumes "js_truthy (h_x_api_key h)"
  shows "authenticate verify cfg now h = authenticate_api_key cfg h \<and>
         authenticate verify cfg now h =
           (if the (h_x_api_key h) = js_or (cfg_api_key cfg) ''freeradius-api-key-change-this''
            then Inr Api_Key_Auth else Inl (deny 403 ''Invalid API key''))"
  using assms by (simp add: authenticate_def authenticate_api_key_def valid_api_keys_def)

theorem api_key_precedence_witness:
  "js_truthy (Some ''k1'') \<and>
   authenticate (\<lambda>k t n. Inl Jwt_Invalid_Signature) \<lparr>cfg_jwt_secret = Some ''s'', cfg_jwt_expires_in = None,
       cfg_jwt_ttl = 86400, cfg_api_key = Some ''k1'', cfg_admin_username = None, cfg_admin_password = None\<rparr> 0
     \<lparr>h_authorization = Some ''Bearer forged'', h_x_api_key = Some ''k1''\<rparr> = (Inr Api_Key_Auth :: unit guarded)"
  using api_key_precedence [where 'a = unit, of "\<lparr>h_authorization = Some ''Bearer forged'', h_x_api_key = Some ''k1''\<rparr>"
      "\<lambda>k t n. Inl Jwt_Invalid_Signature"
      "\<lparr>cfg_jwt_secret = Some ''s'', cfg_jwt_expires_in = None,
       cfg_jwt_ttl = 86400, cfg_api_key = Some ''k1'', cfg_admin_username = None, cfg_admin_password = None\<rparr>" 0,
      THEN conjunct2]
  by simp

text \<open>
  C14: a request with neither an API key nor an \<open>Authorization\<close> header (absent or
  empty) is rejected with 401 (\<open>Unauthenticated\<close>); so is a bearer header with no
  token after the scheme.
\<close>

theorem no_credentials_401:
  "(\<not> js_truthy (h_x_api_key h) \<and> \<not> js_truthy (h_authorization h) \<longrightarrow>
      authenticate verify cfg now h = Inl (deny 401 ''Authentication required (JWT token or API key)'')) \<and>
   (\<not> js_truthy (h_x_api_key h) \<and> CHR '' '' \<notin> set a \<longrightarrow> a \<noteq> [] \<longrightarrow>
      authenticate verify cfg now (h\<lparr>h_authorization := Some a\<rparr>) = Inl (deny 401 ''Access token required''))"
  by (auto simp: authenticate_def authenticate_token_def bearer_token_def js_split_no_sep)

theorem no_credentials_401_witness:
  "(\<not> js_truthy None \<and> \<not> js_truthy (Some '''') \<and>
    authenticate (\<lambda>k t n. Inl Jwt_Invalid_Signature) demo_cfg 0 \<lparr>h_authorization = Some '''', h_x_api_key = None\<rparr> =
      (Inl (deny 401 ''Authentication required (JWT token or API key)'') :: unit guarded)) \<and>
   authenticate (\<lambda>k t n. Inl Jwt_Invalid_Signature) demo_cfg 0 \<lparr>h_authorization = Some ''Bearer'', h_x_api_key = None\<rparr> =
     (Inl (deny 401 ''Access token required'') :: unit guarded)"
  using no_credentials_401 [where 'a = unit, of "\<lparr>h_authorization = Some '''', h_x_api_key = None\<rparr>" "\<lambda>k t n. Inl Jwt_Invalid_Signature"
          demo_cfg 0 "''Bearer''"]
  by simp

text \<open>
  C15: an API key that is not the configured one is rejected with 403 (\<open>Forbidden\<close>),
  distinct from the 401 for a missing credential; so is any token that \<open>jwt.verify\<close>
  rejects, and any token at all while \<open>JWT_SECRET\<close> is unset or empty.
\<close>

theorem bad_credentials_403:
  "(js_truthy (h_x_api_key h) \<and> the (h_x_api_key h) \<noteq> js_or (cfg_api_key cfg) ''freeradius-api-key-change-this'' \<longrightarrow>
      authenticate verify cfg now h = Inl (deny 403 ''Invalid API key'')) \<and>
   (\<not> js_truthy (h_x_api_key h) \<and> js_truthy (bearer_token (h_authorization h)) \<and>
    (\<not> js_truthy (cfg_jwt_secret cfg) \<or> (\<exists>e. verify (the (cfg_jwt_secret cfg)) (the (bearer_token (h_authorization h))) now = Inl e)) \<longrightarrow>
      authenticate verify cfg now h = Inl (deny 403 ''Invalid or expired token''))"
proof (intro conjI impI)
  assume "js_truthy (h_x_api_key h) \<and> the (h_x_api_key h) \<noteq> js_or (cfg_api_key cfg) ''freeradius-api-key-change-this''"
  then show "authenticate verify cfg now h = Inl (deny 403 ''Invalid API key'')"
    by (simp add: authenticate_def authenticate_api_key_def valid_api_keys_def)
next
  assume a: "\<not> js_truthy (h_x_api_key h) \<and> js_truthy (bearer_token (h_authorization h)) \<and>
    (\<not> js_truthy (cfg_jwt_secret cfg) \<or> (\<exists>e. verify (the (cfg_jwt_secret cfg)) (the (bearer_token (h_authorization h))) now = Inl e))"
  then have "js_truthy (h_authorization h)"
    by (cases "h_authorization h") (auto simp: bearer_token_def)
  with a show "authenticate verify cfg now h = Inl (deny 403 ''Invalid or expired token'')"
    by (auto simp: authenticate_def authenticate_token_def)
qed

theorem bad_credentials_403_witness:
  "(js_truthy (Some ''guess'') \<and> ''guess'' \<noteq> js_or None ''freeradius-api-key-change-this'' \<and>
    authenticate (\<lambda>k t n. Inl Jwt_Expired) \<lparr>cfg_jwt_secret = Some ''s'', cfg_jwt_expires_in = None,
       cfg_jwt_ttl = 86400, cfg_api_key = None, cfg_admin_username = None, cfg_admin_password = None\<rparr> 0
      \<lparr>h_authorization = None, h_x_api_key = Some ''guess''\<rparr> = (Inl (deny 403 ''Invalid API key'') :: unit guarded)) \<and>
   (js_truthy (bearer_token (Some ''Bearer old'')) \<and>
    authenticate (\<lambda>k t n. Inl Jwt_Expired) \<lparr>cfg_jwt_secret = Some ''s'', cfg_jwt_expires_in = None,
       cfg_jwt_ttl = 86400, cfg_api_key = None, cfg_admin_username = None, cfg_admin_password = None\<rparr> 0
      \<lparr>h_authorization = Some ''Bearer old'', h_x_api_key = None\<rparr> = (Inl (deny 403 ''Invalid or expired token'') :: unit guarded))"
proof -
  let ?cfg = "\<lparr>cfg_jwt_secret = Some ''s'', cfg_jwt_expires_in = None,
       cfg_jwt_ttl = 86400, cfg_api_key = None, cfg_admin_username = None, cfg_admin_password = None\<rparr>"
  have bt: "bearer_token (Some ''Bearer old'') = Some ''old''"
    using bearer_token_scheme [of "''Bearer''" "''old''"] by simp
  note c1 = bad_credentials_403 [where 'a = unit, of "\<lparr>h_authorization = None, h_x_api_key = Some ''guess''\<rparr>" ?cfg "\<lambda>k t n. Inl Jwt_Expired" 0]
  note c2 = bad_credentials_403 [where 'a = unit, of "\<lparr>h_authorization = Some ''Bearer old'', h_x_api_key = None\<rparr>" ?cfg "\<lambda>k t n. Inl Jwt_Expired" 0]
  from c1 c2 bt show ?thesis by simp
qed


text \<open>
  C16: a login whose username or password is not the configured admin pair (compared
  with \<open>===\<close>, defaults \<open>admin\<close> / \<open>admin123!\<close>) is rejected with 401 and issues no
  token.
\<close>

theorem login_rejects_wrong_credentials:
  assumes "username \<noteq> Some (admin_username cfg) \<or> password \<noteq> Some (admin_password cfg)"
  shows "login sign cfg now username password = deny 401 ''Invalid credentials'' \<and>
         r_data (login sign cfg now username password) = None"
  using assms by (auto simp: login_def)

theorem login_rejects_wrong_credentials_witness:
  "Some ''admin124!'' \<noteq> Some (admin_password demo_cfg) \<and>
   login (\<lambda>k c. ''tok'') demo_cfg 1000 (Some ''admin'') (Some ''admin124!'') = deny 401 ''Invalid credentials'' \<and>
   r_data (login (\<lambda>k c. ''tok'') demo_cfg 1000 (Some ''admin'') (Some ''admin124!'')) = None"
proof -
  have h: "Some ''admin'' \<noteq> Some (admin_username demo_cfg) \<or> Some ''admin124!'' \<noteq> Some (admin_password demo_cfg)"
    by (simp add: admin_password_def demo_cfg_def)
  from login_rejects_wrong_credentials [OF h, of "\<lambda>k c. ''tok''" 1000] show ?thesis
    by (simp add: admin_password_def demo_cfg_def)
qed

text \<open>
  C17: login with the admin pair at time \<open>now\<close> returns 200 and a token; presented as
  \<open>Authorization: Bearer <token>\<close>, the guard accepts it, with the claims
  \<open>{admin, role admin, iat now}\<close>, at every time before \<open>now\<close> plus the configured
  lifetime, and rejects it with 403 from then on.  Assumed of \<open>jsonwebtoken\<close>, at this
  one token only: \<open>verify\<close> returns the signed claims before \<open>exp\<close> and an expiry
  error after, and the token is a non-empty string without spaces.
\<close>

theorem login_then_verify:
  assumes secret: "cfg_jwt_secret cfg = Some k" and k: "k \<noteq> []"
    and sig: "\<And>t. verify k (sign k \<lparr>c_username = admin_username cfg, c_role = ''admin'', c_iat = now,
                                   c_exp = now + cfg_jwt_ttl cfg\<rparr>) t =
               (if t < now + cfg_jwt_ttl cfg
                then Inr \<lparr>c_username = admin_username cfg, c_role = ''admin'', c_iat = now, c_exp = now + cfg_jwt_ttl cfg\<rparr>
                else Inl Jwt_Expired)"
    and tok: "CHR '' '' \<notin> set (sign k \<lparr>c_username = admin_username cfg, c_role = ''admin'', c_iat = now,
                                     c_exp = now + cfg_jwt_ttl cfg\<rparr>)"
             "sign k \<lparr>c_username = admin_username cfg, c_role = ''admin'', c_iat = now, c_exp = now + cfg_jwt_ttl cfg\<rparr> \<noteq> []"
  shows "\<exists>d. login sign cfg now (Some (admin_username cfg)) (Some (admin_password cfg)) = reply 200 ''Login successful'' d \<and>
           (\<forall>t. authenticate verify cfg t \<lparr>h_authorization = Some (''Bearer '' @ l_token d), h_x_api_key = None\<rparr> =
                (if t < now + cfg_jwt_ttl cfg
                 then Inr (Jwt_User \<lparr>c_username = admin_username cfg, c_role = ''admin'', c_iat = now,
                                     c_exp = now + cfg_jwt_ttl cfg\<rparr>)
                 else (Inl (deny 403 ''Invalid or expired token'') :: 'd guarded)))"
proof -
  let ?c = "\<lparr>c_username = admin_username cfg, c_role = ''admin'', c_iat = now, c_exp = now + cfg_jwt_ttl cfg\<rparr>"
  let ?t = "sign k ?c"
  let ?d = "\<lparr>l_token = ?t, l_username = admin_username cfg, l_role = ''admin'',
             l_expires_in = js_or (cfg_jwt_expires_in cfg) ''24h''\<rparr>"
  have "login sign cfg now (Some (admin_username cfg)) (Some (admin_password cfg)) = reply 200 ''Login successful'' ?d"
    using secret k by (simp add: login_def generate_token_def)
  moreover have "bearer_token (Some (''Bearer '' @ ?t)) = Some ?t"
    using bearer_token_scheme [of "''Bearer''" ?t] tok by simp
  then have "authenticate verify cfg t \<lparr>h_authorization = Some (''Bearer '' @ ?t), h_x_api_key = None\<rparr> =
      (if t < now + cfg_jwt_ttl cfg then Inr (Jwt_User ?c) else (Inl (deny 403 ''Invalid or expired token'') :: 'd guarded))"
    for t using secret k tok sig [of t] by (simp add: authenticate_def authenticate_token_def)
  ultimately show ?thesis by auto
qed

theorem login_then_verify_witness:
  "cfg_jwt_secret demo_cfg = Some ''s3cret'' \<and> ''s3cret'' \<noteq> [] \<and>
   CHR '' '' \<notin> set ''tk1'' \<and> ''tk1'' \<noteq> [] \<and>
   (\<exists>d. login (\<lambda>k c. ''tk1'') demo_cfg 1000 (Some ''admin'') (Some ''admin123!'') = reply 200 ''Login successful'' d \<and>
     authenticate (\<lambda>k tok t. if tok = ''tk1'' \<and> t < 87400
                              then Inr \<lparr>c_username = ''admin'', c_role = ''admin'', c_iat = 1000, c_exp = 87400\<rparr>
                              else Inl Jwt_Expired)
       demo_cfg 5000 \<lparr>h_authorization = Some (''Bearer '' @ l_token d), h_x_api_key = None\<rparr> =
       (Inr (Jwt_User \<lparr>c_username = ''admin'', c_role = ''admin'', c_iat = 1000, c_exp = 87400\<rparr>) :: unit guarded) \<and>
     authenticate (\<lambda>k tok t. if tok = ''tk1'' \<and> t < 87400
                              then Inr \<lparr>c_username = ''admin'', c_role = ''admin'', c_iat = 1000, c_exp = 87400\<rparr>
                              else Inl Jwt_Expired)
       demo_cfg 87400 \<lparr>h_authorization = Some (''Bearer '' @ l_token d), h_x_api_key = None\<rparr> =
       (Inl (deny 403 ''Invalid or expired token'') :: unit guarded))"
proof -
  have cfg: "admin_username demo_cfg = ''admin''" "admin_password demo_cfg = ''admin123!''"
    "cfg_jwt_secret demo_cfg = Some ''s3cret''" "cfg_jwt_ttl demo_cfg = 86400"
    by (simp_all add: admin_username_def admin_password_def demo_cfg_def)
  have "\<exists>d. login (\<lambda>k c. ''tk1'') demo_cfg 1000 (Some (admin_username demo_cfg)) (Some (admin_password demo_cfg)) =
              reply 200 ''Login successful'' d \<and>
        (\<forall>t. authenticate (\<lambda>k tok t. if tok = ''tk1'' \<and> t < 87400
                              then Inr \<lparr>c_username = ''admin'', c_role = ''admin'', c_iat = 1000, c_exp = 87400\<rparr>
                              else Inl Jwt_Expired) demo_cfg t
               \<lparr>h_authorization = Some (''Bearer '' @ l_token d), h_x_api_key = None\<rparr> =
             (if t < 1000 + cfg_jwt_ttl demo_cfg
              then Inr (Jwt_User \<lparr>c_username = admin_username demo_cfg, c_role = ''admin'', c_iat = 1000,
                                  c_exp = 1000 + cfg_jwt_ttl demo_cfg\<rparr>)
              else (Inl (deny 403 ''Invalid or expired token'') :: unit guarded)))"
    by (rule login_then_verify [OF cfg(3)]) (simp_all add: cfg)
  with cfg show ?thesis by fastforce
qed

text \<open>
  C18: the guard never looks at the scheme of the \<open>Authorization\<close> header: any first
  word (\<open>Basic\<close>, \<open>Token\<close>, or none before a leading space) followed by a token is
  treated exactly as \<open>Bearer\<close>.  The spec names the \<open>Bearer\<close> scheme only.
\<close>

theorem any_scheme_accepted:
  assumes "CHR '' '' \<notin> set scheme" and "CHR '' '' \<notin> set tok" and "tok \<noteq> []"
    and "js_truthy (cfg_jwt_secret cfg)" and "\<not> js_truthy (h_x_api_key h)"
  shows "authenticate verify cfg now (h\<lparr>h_authorization := Some (scheme @ CHR '' '' # tok)\<rparr>) =
         authenticate verify cfg now (h\<lparr>h_authorization := Some (''Bearer '' @ tok)\<rparr>) \<and>
         authenticate verify cfg now (h\<lparr>h_authorization := Some (scheme @ CHR '' '' # tok)\<rparr>) =
           (case verify (the (cfg_jwt_secret cfg)) tok now of
              Inl _ \<Rightarrow> Inl (deny 403 ''Invalid or expired token'') | Inr c \<Rightarrow> Inr (Jwt_User c))"
proof -
  have "bearer_token (Some (scheme @ CHR '' '' # tok)) = Some tok"
    "bearer_token (Some (''Bearer '' @ tok)) = Some tok"
    using bearer_token_scheme [of scheme tok] bearer_token_scheme [of "''Bearer''" tok] assms(1,2) by simp_all
  with assms(3-5) show ?thesis
    by (simp add: authenticate_def authenticate_token_def split: sum.splits)
qed

theorem any_scheme_accepted_witness:
  "CHR '' '' \<notin> set ''Basic'' \<and> CHR '' '' \<notin> set ''tk1'' \<and> ''tk1'' \<noteq> [] \<and>
   js_truthy (cfg_jwt_secret demo_cfg) \<and> \<not> js_truthy (h_x_api_key \<lparr>h_authorization = None, h_x_api_key = None\<rparr>) \<and>
   authenticate (\<lambda>k tok t. if tok = ''tk1'' then Inr \<lparr>c_username = ''admin'', c_role = ''admin'', c_iat = 0, c_exp = 9\<rparr>
                           else Inl Jwt_Invalid_Signature) demo_cfg 5
     \<lparr>h_authorization = Some ''Basic tk1'', h_x_api_key = None\<rparr> =
   (Inr (Jwt_User \<lparr>c_username = ''admin'', c_role = ''admin'', c_iat = 0, c_exp = 9\<rparr>) :: unit guarded)"
proof -
  have h: "CHR '' '' \<notin> set ''Basic''" "CHR '' '' \<notin> set ''tk1''" "''tk1'' \<noteq> []"
    "js_truthy (cfg_jwt_secret demo_cfg)" "\<not> js_truthy (h_x_api_key \<lparr>h_authorization = None, h_x_api_key = None\<rparr>)"
    by (simp_all add: demo_cfg_def)
  have "authenticate (\<lambda>k tok t. if tok = ''tk1'' then Inr \<lparr>c_username = ''admin'', c_role = ''admin'', c_iat = 0, c_exp = 9\<rparr>
                           else Inl Jwt_Invalid_Signature) demo_cfg 5
     (\<lparr>h_authorization = None, h_x_api_key = None\<rparr>\<lparr>h_authorization := Some (''Basic'' @ CHR '' '' # ''tk1'')\<rparr>) =
   (case (if ''tk1'' = ''tk1'' then Inr \<lparr>c_username = ''admin'', c_role = ''admin'', c_iat = 0, c_exp = 9\<rparr>
          else Inl Jwt_Invalid_Signature) of
      Inl _ \<Rightarrow> Inl (deny 403 ''Invalid or expired token'') | Inr c \<Rightarrow> (Inr (Jwt_User c) :: unit guarded))"
    using any_scheme_accepted [where 'a = unit, OF h, of "\<lambda>k tok t. if tok = ''tk1'' then Inr \<lparr>c_username = ''admin'', c_role = ''admin'', c_iat = 0, c_exp = 9\<rparr>
                           else Inl Jwt_Invalid_Signature" 5, THEN conjunct2] by simp
  with h show ?thesis by simp
qed

end
