(* ===== verification/Rate_Limit.thy ===== *)
theory Rate_Limit
  imports Radius_Prelude
begin

text \<open>
  The rate limiter \<open>server.js\<close> installs before every route (\<open>app.use(limiter)\<close>):
  \<open>express-rate-limit\<close> with its memory store, a fixed window per client address.  The
  first request of a client opens a window of \<open>windowMs\<close> milliseconds; each request in
  the window counts a hit, and a request whose count exceeds \<open>max\<close> is answered 429 with
  the configured message.  The window length and the ceiling are read from
  \<open>RATE_LIMIT_WINDOW_MS\<close> and \<open>RATE_LIMIT_MAX_REQUESTS\<close> with \<open>parseInt(\<dots>) || default\<close>,
  so they are integers of either sign: only \<open>NaN\<close> and \<open>0\<close> give the default.  Request
  times are natural numbers of milliseconds; a window's end is an integer.
\<close>

text \<open>The store: per client, the hits of its window and the time the window ends.\<close>

type_synonym limiter = "string \<rightharpoonup> nat \<times> int"

text \<open>
  \<open>parseInt(v) || d\<close>: the variable parsed as an integer (\<open>None\<close> when it is unset
  or not a number, \<open>NaN\<close>), replaced by the default when it is \<open>NaN\<close> or \<open>0\<close>.
\<close>

definition parse_or :: "int option \<Rightarrow> int \<Rightarrow> int" where
  "parse_or v d = (case v of Some n \<Rightarrow> if n = 0 then d else n | None \<Rightarrow> d)"

definition rate_window :: "int option \<Rightarrow> int" where
  "rate_window v = parse_or v (15 * 60 * 1000)"

definition rate_max :: "int option \<Rightarrow> int" where
  "rate_max v = parse_or v 100"

text \<open>
  The 429 answer: \<open>{success: false, message, retry_after}\<close>, \<open>retry_after\<close> the
  window in seconds, \<open>Math.ceil(win / 1000)\<close> (\<open>div\<close> rounds down on \<open>int\<close>).
\<close>

definition rate_limited :: "int \<Rightarrow> int response" where
  "rate_limited win = \<lparr>r_status = 429, r_success = False,
     r_message = ''Too many requests from this IP, please try again later.'', r_data = Some ((win + 999) div 1000)\<rparr>"

text \<open>
  One request of client \<open>ip\<close> at time \<open>t\<close>: whether it passes (its count in the
  window does not exceed the ceiling), and the new store.
\<close>

definition rate_limit :: "int \<Rightarrow> int \<Rightarrow> nat \<Rightarrow> string \<Rightarrow> limiter \<Rightarrow> bool \<times> limiter" where
  "rate_limit win mx t ip L =
     (let (h, rs) = (case L ip of
                       Some (h, rs) \<Rightarrow> if rs \<le> int t then (1, int t + win) else (Suc h, rs)
                     | None \<Rightarrow> (1, int t + win))
      in (int h \<le> mx, L(ip \<mapsto> (h, rs))))"

text \<open>A sequence of requests of one client: which of them pass.\<close>

fun rate_run :: "int \<Rightarrow> int \<Rightarrow> string \<Rightarrow> nat list \<Rightarrow> limiter \<Rightarrow> bool list \<times> limiter" where
  "rate_run win mx ip [] L = ([], L)"
| "rate_run win mx ip (t # ts) L =
     (let (ok, L1) = rate_limit win mx t ip L; (oks, L2) = rate_run win mx ip ts L1 in (ok # oks, L2))"

section \<open>Lemmas\<close>

lemma rate_limit_in_window:
  "L ip = Some (h, rs) \<Longrightarrow> int t < rs \<Longrightarrow>
   rate_limit win mx t ip L = (int (Suc h) \<le> mx, L(ip \<mapsto> (Suc h, rs)))"
  by (simp add: rate_limit_def)

lemma rate_limit_fresh:
  "(case L ip of None \<Rightarrow> True | Some (h, rs) \<Rightarrow> rs \<le> int t) \<Longrightarrow>
   rate_limit win mx t ip L = (1 \<le> mx, L(ip \<mapsto> (1, int t + win)))"
  by (auto simp: rate_limit_def split: option.splits)

text \<open>A ceiling below one refuses every request: a request is at least the first hit.\<close>

lemma rate_limit_refuses: "mx < 1 \<Longrightarrow> \<not> fst (rate_limit win mx t ip L)"
  by (auto simp: rate_limit_def split: option.splits)

text \<open>In the rest of a window at most \<open>max - hits\<close> requests pass (none when that is negative).\<close>

lemma rate_run_in_window:
  assumes "L ip = Some (h, rs)" and "\<forall>t\<in>set ts. int t < rs"
  shows "length (filter id (fst (rate_run win mx ip ts L))) \<le> nat (mx - int h) \<and>
         snd (rate_run win mx ip ts L) ip = Some (h + length ts, rs)"
  using assms
proof (induction ts arbitrary: L h)
  case (Cons t ts)
  then have step: "rate_limit win mx t ip L = (int (Suc h) \<le> mx, L(ip \<mapsto> (Suc h, rs)))"
    by (simp add: rate_limit_in_window)
  have ih: "length (filter id (fst (rate_run win mx ip ts (L(ip \<mapsto> (Suc h, rs)))))) \<le> nat (mx - int (Suc h)) \<and>
            snd (rate_run win mx ip ts (L(ip \<mapsto> (Suc h, rs)))) ip = Some (Suc h + length ts, rs)"
    using Cons.prems by (intro Cons.IH) simp_all
  show ?case
    using ih by (cases "int (Suc h) \<le> mx") (simp add: step case_prod_beta id_def; linarith)+
qed simp

text \<open>After a request at \<open>t\<close> the client's window ends at most one window after \<open>t\<close>.\<close>

lemma rate_limit_reset_bound:
  assumes "case L ip of None \<Rightarrow> True | Some (h, rs) \<Rightarrow> rs \<le> int t + win"
  shows "case snd (rate_limit win mx t ip L) ip of None \<Rightarrow> False | Some (h, rs) \<Rightarrow> rs \<le> int t + win"
  using assms by (auto simp: rate_limit_def split: option.splits)

text \<open>C39: a window admits at most \<open>max\<close> requests of a client: of the requests from the one
  that opens a window (none open, or the last one over) up to the window's end, at most
  \<open>max\<close> pass the limiter, and none when \<open>max\<close> is negative.\<close>

theorem rate_limit_window_bound:
  assumes "(case L ip of None \<Rightarrow> True | Some (h, rs) \<Rightarrow> rs \<le> int t)" and "\<forall>t'\<in>set ts. int t' < int t + win"
  shows "length (filter id (fst (rate_run win mx ip (t # ts) L))) \<le> nat mx"
proof -
  let ?L1 = "L(ip \<mapsto> (1, int t + win))"
  have first: "rate_limit win mx t ip L = (1 \<le> mx, ?L1)"
    using assms(1) by (rule rate_limit_fresh)
  have "length (filter id (fst (rate_run win mx ip ts ?L1))) \<le> nat (mx - 1)"
    using rate_run_in_window[of ?L1 ip 1 "int t + win" ts win mx] assms(2) by simp
  then show ?thesis by (cases "1 \<le> mx") (simp_all add: first case_prod_beta; linarith)+
qed

theorem rate_limit_window_bound_witness:
  "fst (rate_run 10 2 ''10.0.0.9'' [0, 1, 2, 3] Map.empty) = [True, True, False, False] \<and>
   length (filter id (fst (rate_run 10 2 ''10.0.0.9'' [0, 1, 2, 3] Map.empty))) \<le> nat 2"
proof -
  have "length (filter id (fst (rate_run 10 2 ''10.0.0.9'' [0, 1, 2, 3] Map.empty))) \<le> nat 2"
    by (rule rate_limit_window_bound) simp_all
  moreover have "fst (rate_run 10 2 ''10.0.0.9'' [0, 1, 2, 3] Map.empty) = [True, True, False, False]"
    by (simp add: rate_limit_def)
  ultimately show ?thesis by blast
qed

text \<open>C40: the limiter never locks a client out: after any request at \<open>t\<close>, a request of the
  same client one window later passes (with a ceiling of at least one request).\<close>

theorem rate_limit_served_again:
  assumes "1 \<le> mx" and "case L ip of None \<Rightarrow> True | Some (h, rs) \<Rightarrow> rs \<le> int t + win" and "int t + win \<le> int t'"
  shows "fst (rate_limit win mx t' ip (snd (rate_limit win mx t ip L)))"
proof -
  have "case snd (rate_limit win mx t ip L) ip of None \<Rightarrow> True | Some (h, rs) \<Rightarrow> rs \<le> int t'"
    using rate_limit_reset_bound[where L = L and ip = ip and t = t and win = win and mx = mx] assms(2,3) by (auto split: option.splits)
  then show ?thesis using assms(1) by (simp add: rate_limit_fresh)
qed

theorem rate_limit_served_again_witness:
  "\<not> fst (rate_limit 10 1 5 ''10.0.0.9'' [''10.0.0.9'' \<mapsto> (1, 12)]) \<and>
   fst (rate_limit 10 1 15 ''10.0.0.9'' (snd (rate_limit 10 1 5 ''10.0.0.9'' [''10.0.0.9'' \<mapsto> (1, 12)])))"
proof -
  have "fst (rate_limit 10 1 15 ''10.0.0.9'' (snd (rate_limit 10 1 5 ''10.0.0.9'' [''10.0.0.9'' \<mapsto> (1, 12)])))"
    by (rule rate_limit_served_again) simp_all
  moreover have "\<not> fst (rate_limit 10 1 5 ''10.0.0.9'' [''10.0.0.9'' \<mapsto> (1, 12)])"
    by (simp add: rate_limit_def)
  ultimately show ?thesis by blast
qed

end
