(* ===== verification/Api_Routes.thy ===== *)
theory Api_Routes
  imports User_Controller Nas_Controller Auth_Guard Validation Rate_Limit
begin

text \<open>
  The HTTP layer: the three routers of \<open>src/routes/\<close> and the application of
  \<open>server.js\<close> that mounts them.  A request is its method, its path as the list of its
  non-empty segments, the client address and arrival time (milliseconds), the two headers
  the guard reads, the query and the parsed JSON body (\<open>None\<close>: a body that is not JSON).
  A router is a list of routes in the order of the source; a route is a method, a
  pattern of literal segments and parameters (\<open>None\<close>, Express's \<open>:id\<close>) and the chain
  of middleware and handler it runs.  Express compares literal segments without regard to
  case.  Every handler's \<open>data\<close> is injected into one type \<open>api_data\<close>.
\<close>

section \<open>Requests and responses\<close>

datatype http_method = GET | POST | PUT | DELETE | PATCH

record request =
  rq_method :: http_method
  rq_path :: "string list"
  rq_ip :: string
  rq_time :: nat
  rq_headers :: headers
  rq_query :: jobj
  rq_body :: "jobj option"

text \<open>
  What the server is started with: Joi's two library checks, \<open>jwt.verify\<close> and
  \<open>jwt.sign\<close>, the environment of the guard, \<open>API_PREFIX\<close>, the two rate-limit
  variables, and which paths the static file servers of the documentation can answer.
\<close>

record api_env =
  env_lib :: joi_lib
  env_verify :: jwt_verifier
  env_sign :: jwt_signer
  env_cfg :: config
  env_prefix :: js_str
  env_rl_window :: "int option"
  env_rl_max :: "int option"
  env_static :: "string list \<Rightarrow> bool"

text \<open>
  The documentation \<open>server.js\<close> serves: a file under \<open>docs/\<close> (\<open>express.static\<close>), the
  Swagger document (\<open>res.json(swaggerDocument)\<close>), swagger-ui's page and assets under
  \<open>/api-docs\<close>, and the custom page of \<open>/swagger\<close> (\<open>res.send(customHtml)\<close>).
\<close>

datatype doc_kind = Doc_file "string list" | Swagger_document | Swagger_ui "string list" | Custom_html

text \<open>The \<open>data\<close> of every answer; \<open>D_static\<close> stands for contents the model leaves out
  (API information, health details); \<open>D_document\<close> marks an answer whose body is a
  document rather than the JSON envelope.\<close>

datatype api_data =
    D_user user_rec | D_users "user_rec list" | D_nas nas_api | D_nas_list "nas_api list"
  | D_count nat | D_attributes "string \<times> attr_list" | D_added added_attribute
  | D_login login_data | D_verified "auth_ctx \<times> bool" | D_errors "verr list"
  | D_retry_after int | D_unit | D_static | D_document doc_kind

type_synonym api_response = "api_data response"

definition lift_response :: "('a \<Rightarrow> api_data) \<Rightarrow> 'a response \<Rightarrow> api_response" where
  "lift_response f r =
     \<lparr>r_status = r_status r, r_success = r_success r, r_message = r_message r, r_data = map_option f (r_data r)\<rparr>"

definition lift_handler :: "('a \<Rightarrow> api_data) \<Rightarrow> 'a handler \<Rightarrow> api_data handler" where
  "lift_handler f h s = (let (r, s') = h s in (lift_response f r, s'))"

definition answer :: "api_response \<Rightarrow> api_data handler" where
  "answer r s = (r, s)"

section \<open>Paths\<close>

definition lower_char :: "char \<Rightarrow> char" where
  "lower_char c = (if CHR ''A'' \<le> c \<and> c \<le> CHR ''Z'' then char_of (of_char c + (32::nat)) else c)"

definition seg_is :: "string \<Rightarrow> string \<Rightarrow> bool" where
  "seg_is lit x \<longleftrightarrow> map lower_char x = map lower_char lit"

text \<open>A route pattern against the path: the values of its parameters.\<close>

fun match_route :: "string option list \<Rightarrow> string list \<Rightarrow> string list option" where
  "match_route [] [] = Some []"
| "match_route (Some l # ps) (x # xs) = (if seg_is l x then match_route ps xs else None)"
| "match_route (None # ps) (x # xs) = map_option (Cons x) (match_route ps xs)"
| "match_route _ _ = None"

text \<open>\<open>app.use(path, router)\<close>: the rest of the path when it starts with the mount path.\<close>

fun strip_mount :: "string list \<Rightarrow> string list \<Rightarrow> string list option" where
  "strip_mount [] segs = Some segs"
| "strip_mount (p # ps) [] = None"
| "strip_mount (p # ps) (x # xs) = (if seg_is p x then strip_mount ps xs else None)"

definition api_prefix :: "js_str \<Rightarrow> string list" where
  "api_prefix p = filter (\<lambda>x. x \<noteq> []) (js_split CHR ''/'' (js_or p ''/api/v1''))"

type_synonym route = "http_method \<times> string option list \<times> (string list \<Rightarrow> api_data handler)"

text \<open>A router: the first route whose method and pattern match; \<open>None\<close> is \<open>next()\<close> out of it.\<close>

fun dispatch :: "route list \<Rightarrow> http_method \<Rightarrow> string list \<Rightarrow> api_data handler option" where
  "dispatch [] m segs = None"
| "dispatch ((m', pat, h) # rs) m segs =
     (if m' = m then (case match_route pat segs of Some ps \<Rightarrow> Some (h ps) | None \<Rightarrow> dispatch rs m segs)
      else dispatch rs m segs)"

section \<open>Middleware\<close>

text \<open>The validators of \<open>validation.js\<close> in a route: 400 with the errors, or the next step
  with the cleaned value.\<close>

definition with_valid :: "joi_lib \<Rightarrow> jschema \<Rightarrow> jobj \<Rightarrow> (jobj \<Rightarrow> api_data handler) \<Rightarrow> api_data handler" where
  "with_valid lib sch obj k =
     (case validate lib sch obj of Inl errs \<Rightarrow> answer (lift_response D_errors (validation_failed errs))
      | Inr v \<Rightarrow> k v)"

text \<open>\<open>router.use(authenticate)\<close>: every request that enters the router is authenticated first,
  matched or not.\<close>

definition auth_now :: "request \<Rightarrow> nat" where
  "auth_now rq = rq_time rq div 1000"

definition guarded_router :: "api_env \<Rightarrow> request \<Rightarrow> route list \<Rightarrow> string list \<Rightarrow> api_data handler option" where
  "guarded_router env rq rs segs =
     (case authenticate (env_verify env) (env_cfg env) (auth_now rq) (rq_headers rq) of
        Inl r \<Rightarrow> Some (answer r)
      | Inr _ \<Rightarrow> dispatch rs (rq_method rq) segs)"

text \<open>Reading the cleaned values; the body fields a handler takes unvalidated are read when
  they are strings.\<close>

definition str_of :: "jobj \<Rightarrow> string \<Rightarrow> js_str" where
  "str_of v k = (case lookup v k of Some (JStr s) \<Rightarrow> Some s | _ \<Rightarrow> None)"

definition int_of :: "jobj \<Rightarrow> string \<Rightarrow> int option" where
  "int_of v k = (case lookup v k of Some (JNum r) \<Rightarrow> Some \<lfloor>r\<rfloor> | _ \<Rightarrow> None)"

definition id_of :: "jobj \<Rightarrow> nat" where
  "id_of v = (case int_of v ''id'' of Some i \<Rightarrow> nat i | None \<Rightarrow> 0)"

definition nas_input_of :: "jobj \<Rightarrow> nas_input" where
  "nas_input_of b = \<lparr>ni_name = str_of b ''name'', ni_ip = str_of b ''ip'', ni_secret = str_of b ''secret'',
     ni_type = str_of b ''type'', ni_ports = int_of b ''ports'', ni_community = str_of b ''community'',
     ni_description = str_of b ''description''\<rparr>"

definition body_of :: "request \<Rightarrow> jobj" where
  "body_of rq = (case rq_body rq of Some b \<Rightarrow> b | None \<Rightarrow> [])"

definition id_param :: "string list \<Rightarrow> jobj" where
  "id_param ps = [(''id'', JStr (ps ! 0))]"

definition username_param :: "string list \<Rightarrow> jobj" where
  "username_param ps = [(''username'', JStr (ps ! 0))]"

text \<open>The exported validators: \<open>validate(schema)\<close> on the body, \<open>validatePagination\<close> on the
  query, \<open>validateId\<close> and \<open>validateUsername\<close> on the route parameters.\<close>

definition validate_nas_create :: "joi_lib \<Rightarrow> request \<Rightarrow> (jobj \<Rightarrow> api_data handler) \<Rightarrow> api_data handler" where
  "validate_nas_create lib rq = with_valid lib nas_create_schema (body_of rq)"

definition validate_nas_update :: "joi_lib \<Rightarrow> request \<Rightarrow> (jobj \<Rightarrow> api_data handler) \<Rightarrow> api_data handler" where
  "validate_nas_update lib rq = with_valid lib nas_update_schema (body_of rq)"

definition validate_user_create :: "joi_lib \<Rightarrow> request \<Rightarrow> (jobj \<Rightarrow> api_data handler) \<Rightarrow> api_data handler" where
  "validate_user_create lib rq = with_valid lib user_create_schema (body_of rq)"

definition validate_user_update :: "joi_lib \<Rightarrow> request \<Rightarrow> (jobj \<Rightarrow> api_data handler) \<Rightarrow> api_data handler" where
  "validate_user_update lib rq = with_valid lib user_update_schema (body_of rq)"

definition validate_login :: "joi_lib \<Rightarrow> request \<Rightarrow> (jobj \<Rightarrow> api_data handler) \<Rightarrow> api_data handler" where
  "validate_login lib rq = with_valid lib login_schema (body_of rq)"

definition validate_pagination :: "joi_lib \<Rightarrow> request \<Rightarrow> (jobj \<Rightarrow> api_data handler) \<Rightarrow> api_data handler" where
  "validate_pagination lib rq = with_valid lib pagination_schema (rq_query rq)"

definition validate_id :: "joi_lib \<Rightarrow> string list \<Rightarrow> (jobj \<Rightarrow> api_data handler) \<Rightarrow> api_data handler" where
  "validate_id lib ps = with_valid lib id_schema (id_param ps)"

definition validate_username :: "joi_lib \<Rightarrow> string list \<Rightarrow> (jobj \<Rightarrow> api_data handler) \<Rightarrow> api_data handler" where
  "validate_username lib ps = with_valid lib username_schema (username_param ps)"

section \<open>The routers\<close>

text \<open>\<open>authRoutes.js\<close>; \<open>getApiInfo\<close> answers a fixed document, \<open>healthCheck\<close> runs \<open>SELECT 1\<close>.\<close>

definition api_info :: api_response where
  "api_info = reply 200 ''API information retrieved successfully'' D_static"

definition auth_health :: "api_data handler" where
  "auth_health s = (case pool_query (\<lambda>co d. ()) s of
       (Inr _, s') \<Rightarrow> (reply 200 ''API is healthy'' D_static, s')
     | (Inl _, s') \<Rightarrow> (\<lparr>r_status = 503, r_success = False, r_message = ''API is unhealthy'', r_data = Some D_static\<rparr>, s'))"

definition auth_routes :: "api_env \<Rightarrow> request \<Rightarrow> route list" where
  "auth_routes env rq =
     [(POST, [Some ''login''], \<lambda>ps. validate_login (env_lib env) rq (\<lambda>b.
         answer (lift_response D_login
           (login (env_sign env) (env_cfg env) (auth_now rq) (str_of b ''username'') (str_of b ''password''))))),
      (GET, [Some ''verify''], \<lambda>ps.
         answer (lift_response D_verified (verify_endpoint (env_verify env) (env_cfg env) (auth_now rq) (rq_headers rq)))),
      (GET, [Some ''info''], \<lambda>ps. answer api_info),
      (GET, [Some ''health''], \<lambda>ps. auth_health)]"

text \<open>\<open>nasRoutes.js\<close>.\<close>

definition nas_routes :: "api_env \<Rightarrow> request \<Rightarrow> route list" where
  "nas_routes env rq =
     (let lib = env_lib env in
     [(GET, [], \<lambda>ps. validate_pagination lib rq (\<lambda>q.
         lift_handler D_nas_list (nc_get_all (str_of q ''search'')))),
      (GET, [Some ''stats''], \<lambda>ps. lift_handler D_count nc_get_stats),
      (GET, [None], \<lambda>ps. validate_id lib ps (\<lambda>p.
         lift_handler D_nas (nc_get_by_id (id_of p)))),
      (POST, [], \<lambda>ps. validate_nas_create lib rq (\<lambda>b.
         lift_handler D_nas (nc_create (nas_input_of b)))),
      (PUT, [None], \<lambda>ps. validate_id lib ps (\<lambda>p.
         validate_nas_update lib rq (\<lambda>b.
           lift_handler D_nas (nc_update (id_of p) (nas_input_of b))))),
      (DELETE, [None], \<lambda>ps. validate_id lib ps (\<lambda>p.
         lift_handler (\<lambda>u. D_unit) (nc_delete (id_of p))))])"

text \<open>\<open>userRoutes.js\<close>.\<close>

definition user_routes :: "api_env \<Rightarrow> request \<Rightarrow> route list" where
  "user_routes env rq =
     (let lib = env_lib env; b = body_of rq in
     [(GET, [], \<lambda>ps. validate_pagination lib rq (\<lambda>q.
         lift_handler D_users (uc_get_all (str_of q ''search'')))),
      (GET, [Some ''stats''], \<lambda>ps. lift_handler D_count uc_get_stats),
      (GET, [None], \<lambda>ps. validate_username lib ps (\<lambda>p.
         lift_handler D_user (uc_get_by_username (the (str_of p ''username''))))),
      (GET, [None, Some ''attributes''], \<lambda>ps. validate_username lib ps (\<lambda>p.
         lift_handler D_attributes (uc_get_user_attributes (the (str_of p ''username''))))),
      (GET, [None, Some ''reply-attributes''], \<lambda>ps. validate_username lib ps (\<lambda>p.
         lift_handler D_attributes (uc_get_user_reply_attributes (the (str_of p ''username''))))),
      (POST, [], \<lambda>ps. validate_user_create lib rq (\<lambda>v.
         lift_handler D_user (uc_create (the (str_of v ''user'')) (the (str_of v ''password'')) (str_of v ''profile'')))),
      (POST, [None, Some ''attributes''], \<lambda>ps. validate_username lib ps (\<lambda>p.
         lift_handler D_added (uc_add_attribute (the (str_of p ''username''))
           (str_of b ''attribute'') (str_of b ''op'') (str_of b ''value'') (lookup b ''table'')))),
      (PUT, [None], \<lambda>ps. validate_username lib ps (\<lambda>p.
         validate_user_update lib rq (\<lambda>v.
           lift_handler D_user (uc_update (the (str_of p ''username'')) (str_of v ''password'') (str_of v ''profile''))))),
      (DELETE, [None], \<lambda>ps. validate_username lib ps (\<lambda>p.
         lift_handler (\<lambda>u. D_unit) (uc_delete (the (str_of p ''username''))))),
      (DELETE, [None, Some ''attributes''], \<lambda>ps. validate_username lib ps (\<lambda>p.
         lift_handler (\<lambda>u. D_unit) (uc_remove_attribute (the (str_of p ''username'')) (str_of b ''attribute'') (lookup b ''table''))))])"

section \<open>The application\<close>

text \<open>What \<open>server.js\<close> answers before the API routers: the documentation (\<open>/docs\<close>,
  \<open>/swagger.json\<close>, \<open>/api-docs\<close>, \<open>/swagger\<close>) and \<open>GET /health\<close>.\<close>

definition server_health :: api_response where
  "server_health = reply 200 ''FreeRADIUS API is running'' D_static"

text \<open>
  A documentation answer: status 200 and the document as the body.  The envelope
  fields of the record are not sent with it (they are left \<open>False\<close> and empty, and
  the properties of envelopes exclude documents).
\<close>

definition document :: "doc_kind \<Rightarrow> api_response" where
  "document k = \<lparr>r_status = 200, r_success = False, r_message = [], r_data = Some (D_document k)\<rparr>"

text \<open>
  \<open>app.use('/docs', express.static(\<dots>))\<close> and \<open>app.use('/api-docs', swaggerUi.serve)\<close>
  answer a \<open>GET\<close> for an existing file (\<open>env_static\<close>) and call \<open>next()\<close> otherwise; then
  \<open>/swagger.json\<close>, \<open>/api-docs\<close>, \<open>/swagger\<close> and \<open>/health\<close>.
\<close>

definition docs_routes :: "api_env \<Rightarrow> request \<Rightarrow> api_data handler option" where
  "docs_routes env rq =
     (if rq_method rq = GET \<and> rq_path rq \<noteq> [] \<and> seg_is ''docs'' (hd (rq_path rq)) \<and> env_static env (rq_path rq)
      then Some (answer (document (Doc_file (tl (rq_path rq)))))
      else if rq_method rq = GET \<and> rq_path rq \<noteq> [] \<and> seg_is ''api-docs'' (hd (rq_path rq)) \<and> env_static env (rq_path rq)
      then Some (answer (document (Swagger_ui (tl (rq_path rq)))))
      else dispatch [(GET, [Some ''swagger.json''], \<lambda>ps. answer (document Swagger_document)),
                     (GET, [Some ''api-docs''], \<lambda>ps. answer (document (Swagger_ui []))),
                     (GET, [Some ''swagger''], \<lambda>ps. answer (document Custom_html)),
                     (GET, [Some ''health''], \<lambda>ps. answer server_health)] (rq_method rq) (rq_path rq))"

text \<open>The requests the documentation is meant for: \<open>GET\<close> under one of its four paths.\<close>

definition doc_request :: "request \<Rightarrow> bool" where
  "doc_request rq \<longleftrightarrow> rq_method rq = GET \<and> rq_path rq \<noteq> [] \<and>
     (\<exists>n\<in>set [''docs'', ''swagger.json'', ''api-docs'', ''swagger'']. seg_is n (hd (rq_path rq)))"

definition mount :: "string list \<Rightarrow> (string list \<Rightarrow> api_data handler option) \<Rightarrow> string list \<Rightarrow> api_data handler option" where
  "mount p r segs = (case strip_mount p segs of None \<Rightarrow> None | Some rest \<Rightarrow> r rest)"

definition api_mounts :: "api_env \<Rightarrow> request \<Rightarrow> api_data handler option" where
  "api_mounts env rq =
     (let p = api_prefix (env_prefix env); segs = rq_path rq in
      case mount (p @ [''auth'']) (dispatch (auth_routes env rq) (rq_method rq)) segs of
        Some h \<Rightarrow> Some h
      | None \<Rightarrow> (case mount (p @ [''nas'']) (guarded_router env rq (nas_routes env rq)) segs of
          Some h \<Rightarrow> Some h
        | None \<Rightarrow> mount (p @ [''users'']) (guarded_router env rq (user_routes env rq)) segs))"

definition root_welcome :: api_response where
  "root_welcome = reply 200 ''Welcome to FreeRADIUS API'' D_static"

definition not_found :: api_response where
  "not_found = deny 404 ''Endpoint not found''"

definition invalid_json :: api_response where
  "invalid_json = deny 400 ''Invalid JSON in request body''"

text \<open>
  One request after the rate limiter: a body that is not JSON goes to the error handler,
  then the documentation, the API routers, \<open>GET /\<close> and the 404 catch-all, in that order.
\<close>

definition serve :: "api_env \<Rightarrow> request \<Rightarrow> api_data handler" where
  "serve env rq =
     (if rq_body rq = None then answer invalid_json
      else case docs_routes env rq of Some h \<Rightarrow> h
      | None \<Rightarrow> (case api_mounts env rq of Some h \<Rightarrow> h
        | None \<Rightarrow> if rq_method rq = GET \<and> rq_path rq = [] then answer root_welcome else answer not_found))"

record app_state =
  as_limiter :: limiter
  as_store :: store

text \<open>\<open>app.use(limiter)\<close> in front of the rest of the application \<open>h\<close>.\<close>

definition with_limiter :: "api_env \<Rightarrow> request \<Rightarrow> api_data handler \<Rightarrow> app_state \<Rightarrow> api_response \<times> app_state" where
  "with_limiter env rq h st =
     (let win = rate_window (env_rl_window env);
          (ok, L) = rate_limit win (rate_max (env_rl_max env)) (rq_time rq) (rq_ip rq) (as_limiter st)
      in if \<not> ok then (lift_response D_retry_after (rate_limited win), st\<lparr>as_limiter := L\<rparr>)
         else (let (r, s) = h (as_store st) in (r, \<lparr>as_limiter = L, as_store = s\<rparr>)))"

definition app_step :: "api_env \<Rightarrow> request \<Rightarrow> app_state \<Rightarrow> api_response \<times> app_state" where
  "app_step env rq = with_limiter env rq (serve env rq)"

section \<open>Properties of the answers\<close>

text \<open>A handler whose answers have a consistent envelope, and one whose answers carrying
  validation errors are 400s that left the store alone.\<close>

definition handler_ok :: "api_data handler \<Rightarrow> bool" where
  "handler_ok h \<longleftrightarrow> (\<forall>s. envelope_ok (fst (h s)) \<and> (\<forall>k. r_data (fst (h s)) \<noteq> Some (D_document k)))"

definition handler_checks_first :: "api_data handler \<Rightarrow> bool" where
  "handler_checks_first h \<longleftrightarrow>
     (\<forall>s errs. r_data (fst (h s)) = Some (D_errors errs) \<longrightarrow> snd (h s) = s \<and> r_status (fst (h s)) = 400)"

text \<open>Examples: a deployment with the default prefix and key, and three requests.\<close>

definition demo_env :: api_env where
  "demo_env = \<lparr>env_lib = demo_lib, env_verify = (\<lambda>k t n. Inl Jwt_Invalid_Signature), env_sign = (\<lambda>k c. ''tok''),
     env_cfg = demo_cfg, env_prefix = None, env_rl_window = None, env_rl_max = None, env_static = (\<lambda>p. False)\<rparr>"

definition no_credentials :: headers where
  "no_credentials = \<lparr>h_authorization = None, h_x_api_key = None\<rparr>"

definition nas_list_request :: request where
  "nas_list_request = \<lparr>rq_method = GET, rq_path = [''api'', ''v1'', ''nas''], rq_ip = ''10.0.0.9'', rq_time = 5000,
     rq_headers = no_credentials, rq_query = [], rq_body = Some []\<rparr>"

definition api_key_headers :: headers where
  "api_key_headers = \<lparr>h_authorization = None, h_x_api_key = Some ''freeradius-api-key-change-this''\<rparr>"

definition nas_extra_request :: request where
  "nas_extra_request = \<lparr>rq_method = GET, rq_path = [''api'', ''v1'', ''nas'', ''1'', ''extra''], rq_ip = ''10.0.0.9'',
     rq_time = 5000, rq_headers = api_key_headers, rq_query = [], rq_body = Some []\<rparr>"

definition bad_nas_request :: request where
  "bad_nas_request = \<lparr>rq_method = POST, rq_path = [''api'', ''v1'', ''nas''], rq_ip = ''10.0.0.9'', rq_time = 5000,
     rq_headers = api_key_headers, rq_query = [],
     rq_body = Some [(''name'', JStr ''ab''), (''ip'', JStr ''10.0.0.1''), (''secret'', JStr ''s3cr3t!!''), (''ports'', JNum 70000)]\<rparr>"

definition bad_nas_errors :: "verr list" where
  "bad_nas_errors = [\<lparr>ve_field = ''name'', ve_code = ''string.min'', ve_message = Some ''Name must be at least 3 characters long''\<rparr>,
                     \<lparr>ve_field = ''ports'', ve_code = ''number.max'', ve_message = None\<rparr>]"

definition swagger_request :: request where
  "swagger_request = \<lparr>rq_method = GET, rq_path = [''swagger.json''], rq_ip = ''10.0.0.9'', rq_time = 5000,
     rq_headers = no_credentials, rq_query = [], rq_body = Some []\<rparr>"

definition bad_json_request :: request where
  "bad_json_request = \<lparr>rq_method = POST, rq_path = [''api'', ''v1'', ''nas''], rq_ip = ''10.0.0.9'', rq_time = 5000,
     rq_headers = no_credentials, rq_query = [], rq_body = None\<rparr>"

section \<open>Lemmas\<close>

lemmas validator_defs = validate_nas_create_def validate_nas_update_def validate_user_create_def
  validate_user_update_def validate_login_def validate_pagination_def validate_id_def validate_username_def

lemma dispatch_prop:
  "list_all (\<lambda>(m, p, h). \<forall>ps. P (h ps)) rs \<Longrightarrow> dispatch rs m segs = Some h \<Longrightarrow> P h"
  by (induction rs m segs rule: dispatch.induct) (auto split: if_splits option.splits)

lemma envelope_lift [simp]: "envelope_ok (lift_response f r) = envelope_ok r"
  by (simp add: envelope_ok_def lift_response_def)

lemma lift_response_data [simp]: "r_data (lift_response f r) = map_option f (r_data r)"
  "r_status (lift_response f r) = r_status r"
  by (simp_all add: lift_response_def)

lemma validation_failed_simps [simp]:
  "envelope_ok (validation_failed errs)" "r_data (validation_failed errs) = Some errs"
  "r_status (validation_failed errs) = 400"
  by (simp_all add: validation_failed_def envelope_ok_def)

lemma handler_ok_answer: "envelope_ok r \<Longrightarrow> (\<And>k. r_data r \<noteq> Some (D_document k)) \<Longrightarrow> handler_ok (answer r)"
  by (simp add: handler_ok_def answer_def)

lemma handler_ok_lift:
  "(\<And>s. envelope_ok (fst (h s))) \<Longrightarrow> (\<And>x k. f x \<noteq> D_document k) \<Longrightarrow> handler_ok (lift_handler f h)"
  by (auto simp: handler_ok_def lift_handler_def case_prod_beta)

lemma handler_ok_with_valid: "(\<And>v. handler_ok (k v)) \<Longrightarrow> handler_ok (with_valid lib sch obj k)"
  by (simp add: with_valid_def handler_ok_def answer_def split: sum.split)

lemma checks_answer: "(\<And>e. r_data r \<noteq> Some (D_errors e)) \<Longrightarrow> handler_checks_first (answer r)"
  by (simp add: handler_checks_first_def answer_def)

lemma checks_lift: "(\<And>x e. f x \<noteq> D_errors e) \<Longrightarrow> handler_checks_first (lift_handler f h)"
  by (auto simp: handler_checks_first_def lift_handler_def case_prod_beta)

lemma checks_with_valid: "(\<And>v. handler_checks_first (k v)) \<Longrightarrow> handler_checks_first (with_valid lib sch obj k)"
  by (simp add: with_valid_def handler_checks_first_def answer_def split: sum.split)

lemma authenticate_token_Inl: "authenticate_token v cfg n h = Inl r \<Longrightarrow> r_status r \<in> {401, 403} \<and> envelope_ok r \<and> r_data r = None"
  by (auto simp: authenticate_token_def Let_def deny_def envelope_ok_def split: if_splits sum.splits)

lemma authenticate_Inl: "authenticate v cfg n h = Inl r \<Longrightarrow> r_status r \<in> {401, 403} \<and> envelope_ok r \<and> r_data r = None"
  by (auto simp: authenticate_def authenticate_api_key_def deny_def envelope_ok_def dest: authenticate_token_Inl
           split: if_splits)

lemma login_envelope: "envelope_ok (login sign cfg n u p)"
  by (simp add: login_def split: option.split)

lemma verify_endpoint_envelope: "envelope_ok (verify_endpoint v cfg n h)"
  by (auto simp: verify_endpoint_def dest: authenticate_token_Inl split: sum.split)

lemma auth_health_ok: "handler_ok auth_health" "handler_checks_first auth_health"
  by (auto simp: handler_ok_def handler_checks_first_def auth_health_def envelope_ok_def reply_def
           split: prod.split sum.split)

lemma routes_ok:
  "list_all (\<lambda>(m, p, h). \<forall>ps. handler_ok (h ps)) (auth_routes env rq)"
  "list_all (\<lambda>(m, p, h). \<forall>ps. handler_ok (h ps)) (nas_routes env rq)"
  "list_all (\<lambda>(m, p, h). \<forall>ps. handler_ok (h ps)) (user_routes env rq)"
  unfolding auth_routes_def nas_routes_def user_routes_def validator_defs Let_def
  by (simp_all add: handler_ok_answer handler_ok_lift handler_ok_with_valid auth_health_ok login_envelope
      verify_endpoint_envelope uc_envelope nc_envelope api_info_def)

lemma routes_check_first:
  "list_all (\<lambda>(m, p, h). \<forall>ps. handler_checks_first (h ps)) (auth_routes env rq)"
  "list_all (\<lambda>(m, p, h). \<forall>ps. handler_checks_first (h ps)) (nas_routes env rq)"
  "list_all (\<lambda>(m, p, h). \<forall>ps. handler_checks_first (h ps)) (user_routes env rq)"
  unfolding auth_routes_def nas_routes_def user_routes_def validator_defs Let_def
  by (simp_all add: checks_answer checks_lift checks_with_valid auth_health_ok api_info_def reply_def)


lemma guarded_prop:
  assumes "\<And>r. authenticate (env_verify env) (env_cfg env) (auth_now rq) (rq_headers rq) = Inl r \<Longrightarrow> P (answer r)"
      and "list_all (\<lambda>(m, p, h). \<forall>ps. P (h ps)) rs" and "guarded_router env rq rs segs = Some h"
  shows "P h"
  using assms by (auto simp: guarded_router_def intro: dispatch_prop split: sum.splits)

lemma mount_SomeE: "mount p r segs = Some h \<Longrightarrow> (\<And>rest. strip_mount p segs = Some rest \<Longrightarrow> r rest = Some h \<Longrightarrow> Q) \<Longrightarrow> Q"
  by (auto simp: mount_def split: option.splits)

lemma docs_prop:
  assumes "docs_routes env rq = Some h" "\<And>k. P (answer (document k))" "P (answer server_health)"
  shows "P h"
proof -
  have "list_all (\<lambda>(m, p, h). \<forall>ps. P (h ps))
          [(GET, [Some ''swagger.json''], \<lambda>ps. answer (document Swagger_document)),
           (GET, [Some ''api-docs''], \<lambda>ps. answer (document (Swagger_ui []))),
           (GET, [Some ''swagger''], \<lambda>ps. answer (document Custom_html)),
           (GET, [Some ''health''], \<lambda>ps. answer server_health)]"
    using assms(2,3) by simp
  from dispatch_prop[OF this] show ?thesis
    using assms(1,2) by (auto simp: docs_routes_def simp del: dispatch.simps split: if_splits)
qed

text \<open>A document is only ever the answer to a documentation request.\<close>

lemma match_route_Nil [simp]: "match_route (p # ps) [] = None"
  by (cases p) simp_all

lemma docs_routes_document:
  assumes "docs_routes env rq = Some h"
  shows "h = answer server_health \<or> (\<exists>k. h = answer (document k)) \<and> doc_request rq"
proof (cases "rq_path rq")
  case Nil
  then show ?thesis using assms by (auto simp: docs_routes_def split: if_splits)
next
  case (Cons x xs)
  then show ?thesis using assms
    by (cases xs) (auto simp: docs_routes_def doc_request_def split: if_splits)
qed

lemma api_mounts_prop:
  assumes "api_mounts env rq = Some h"
      and "\<And>r. authenticate (env_verify env) (env_cfg env) (auth_now rq) (rq_headers rq) = Inl r \<Longrightarrow> P (answer r)"
      and "list_all (\<lambda>(m, p, h). \<forall>ps. P (h ps)) (auth_routes env rq)"
      and "list_all (\<lambda>(m, p, h). \<forall>ps. P (h ps)) (nas_routes env rq)"
      and "list_all (\<lambda>(m, p, h). \<forall>ps. P (h ps)) (user_routes env rq)"
  shows "P h"
proof -
  let ?p = "api_prefix (env_prefix env)"
  consider (a) "mount (?p @ [''auth'']) (dispatch (auth_routes env rq) (rq_method rq)) (rq_path rq) = Some h"
    | (n) "mount (?p @ [''nas'']) (guarded_router env rq (nas_routes env rq)) (rq_path rq) = Some h"
    | (u) "mount (?p @ [''users'']) (guarded_router env rq (user_routes env rq)) (rq_path rq) = Some h"
    using assms(1) unfolding api_mounts_def Let_def by (auto split: option.splits)
  then show ?thesis
  proof cases
    case a
    then show ?thesis by (rule mount_SomeE) (rule dispatch_prop[OF assms(3)])
  next
    case n
    then show ?thesis by (rule mount_SomeE) (rule guarded_prop[OF assms(2) assms(4)])
  next
    case u
    then show ?thesis by (rule mount_SomeE) (rule guarded_prop[OF assms(2) assms(5)])
  qed
qed

lemma serve_prop:
  assumes "P (answer invalid_json)" "P (answer root_welcome)" "P (answer not_found)"
      and "\<And>h. docs_routes env rq = Some h \<Longrightarrow> P h" and "\<And>h. api_mounts env rq = Some h \<Longrightarrow> P h"
  shows "P (serve env rq)"
  using assms unfolding serve_def by (auto split: option.split)

lemma api_mounts_ok: "api_mounts env rq = Some h \<Longrightarrow> handler_ok h"
  by (rule api_mounts_prop) (auto simp: routes_ok intro!: handler_ok_answer dest: authenticate_Inl)

text \<open>Every answer of the application is a document for a documentation request, or an
  envelope with \<open>success\<close> exactly on 2xx.\<close>

lemma serve_answers:
  "(\<forall>k. r_data (fst (serve env rq s)) = Some (D_document k) \<longrightarrow> doc_request rq) \<and>
   ((\<forall>k. r_data (fst (serve env rq s)) \<noteq> Some (D_document k)) \<longrightarrow> envelope_ok (fst (serve env rq s)))"
proof -
  let ?Q = "\<lambda>h. \<forall>s. (\<forall>k. r_data (fst (h s)) = Some (D_document k) \<longrightarrow> doc_request rq) \<and>
                    ((\<forall>k. r_data (fst (h s)) \<noteq> Some (D_document k)) \<longrightarrow> envelope_ok (fst (h s)))"
  have "?Q (serve env rq)"
  proof (rule serve_prop)
    show "?Q (answer invalid_json)" "?Q (answer root_welcome)" "?Q (answer not_found)"
      by (simp_all add: answer_def invalid_json_def root_welcome_def not_found_def deny_def reply_def envelope_ok_def)
  next
    fix h assume "docs_routes env rq = Some h"
    then show "?Q h"
      by (auto dest!: docs_routes_document simp: answer_def server_health_def reply_def document_def envelope_ok_def)
  next
    fix h assume "api_mounts env rq = Some h"
    then show "?Q h" by (auto dest!: api_mounts_ok simp: handler_ok_def)
  qed
  then show ?thesis by blast
qed

lemma serve_checks_first: "handler_checks_first (serve env rq)"
proof (rule serve_prop)
  show "handler_checks_first (answer invalid_json)" "handler_checks_first (answer root_welcome)"
    "handler_checks_first (answer not_found)"
    by (simp_all add: checks_answer invalid_json_def root_welcome_def not_found_def deny_def reply_def)
next
  fix h assume "docs_routes env rq = Some h"
  then show "handler_checks_first h"
    by (rule docs_prop) (simp_all add: checks_answer server_health_def reply_def document_def)
next
  fix h assume "api_mounts env rq = Some h"
  then show "handler_checks_first h"
    by (rule api_mounts_prop) (simp_all add: routes_check_first checks_answer authenticate_Inl)
qed

lemma app_step_cases:
  "(\<exists>win. fst (app_step env rq st) = lift_response D_retry_after (rate_limited win) \<and> as_store (snd (app_step env rq st)) = as_store st)
   \<or> (fst (app_step env rq st) = fst (serve env rq (as_store st)) \<and> as_store (snd (app_step env rq st)) = snd (serve env rq (as_store st)))"
  by (auto simp: app_step_def with_limiter_def Let_def case_prod_beta)

text \<open>
  C36: every answer of the server, whatever the request and the state, is either one of
  the documentation documents, and then the request was a \<open>GET\<close> under \<open>/docs\<close>,
  \<open>/swagger.json\<close>, \<open>/api-docs\<close> or \<open>/swagger\<close>, or a JSON envelope whose \<open>success\<close>
  is true exactly when the status is 2xx.
\<close>

theorem app_envelope:
  "(\<forall>k. r_data (fst (app_step env rq st)) = Some (D_document k) \<longrightarrow> doc_request rq) \<and>
   ((\<forall>k. r_data (fst (app_step env rq st)) \<noteq> Some (D_document k)) \<longrightarrow>
      (r_success (fst (app_step env rq st)) \<longleftrightarrow> r_status (fst (app_step env rq st)) < 300))"
proof -
  from app_step_cases[of env rq st] serve_answers[of env rq "as_store st"] show ?thesis
    by (auto simp: envelope_ok_def rate_limited_def lift_response_def)
qed

theorem app_envelope_witness:
  "r_data (fst (app_step demo_env swagger_request \<lparr>as_limiter = Map.empty, as_store = empty_store id\<rparr>)) =
     Some (D_document Swagger_document) \<and> doc_request swagger_request \<and>
   r_data (fst (app_step demo_env bad_json_request \<lparr>as_limiter = Map.empty, as_store = empty_store id\<rparr>)) = None \<and>
   \<not> r_success (fst (app_step demo_env bad_json_request \<lparr>as_limiter = Map.empty, as_store = empty_store id\<rparr>)) \<and>
   \<not> r_status (fst (app_step demo_env bad_json_request \<lparr>as_limiter = Map.empty, as_store = empty_store id\<rparr>)) < 300"
proof -
  let ?st = "\<lparr>as_limiter = Map.empty, as_store = empty_store id\<rparr>"
  have sw: "r_data (fst (app_step demo_env swagger_request ?st)) = Some (D_document Swagger_document)"
    by (simp add: app_step_def with_limiter_def rate_limit_def rate_window_def rate_max_def parse_or_def demo_env_def
        serve_def docs_routes_def swagger_request_def answer_def document_def seg_is_def lower_char_def)
  have nl: "r_data (fst (app_step demo_env bad_json_request ?st)) = None"
    "r_status (fst (app_step demo_env bad_json_request ?st)) = 400"
    by (simp_all add: app_step_def with_limiter_def rate_limit_def rate_window_def rate_max_def parse_or_def demo_env_def
        serve_def bad_json_request_def answer_def invalid_json_def)
  note c1 = app_envelope [of demo_env swagger_request ?st]
  note c2 = app_envelope [of demo_env bad_json_request ?st]
  show ?thesis using sw nl c1 c2 by auto
qed

text \<open>C37: validation runs before any statement: an answer that carries validation errors
  is a 400 and leaves the store as it was.\<close>

theorem validation_before_store:
  assumes "r_data (fst (app_step env rq st)) = Some (D_errors errs)"
  shows "as_store (snd (app_step env rq st)) = as_store st \<and> r_status (fst (app_step env rq st)) = 400"
proof -
  have chk: "r_data (fst (serve env rq (as_store st))) = Some (D_errors errs) \<Longrightarrow>
             snd (serve env rq (as_store st)) = as_store st \<and> r_status (fst (serve env rq (as_store st))) = 400"
    using serve_checks_first[of env rq] unfolding handler_checks_first_def by blast
  from app_step_cases[of env rq st] show ?thesis
  proof
    assume "\<exists>win. fst (app_step env rq st) = lift_response D_retry_after (rate_limited win) \<and>
                  as_store (snd (app_step env rq st)) = as_store st"
    then obtain win where "fst (app_step env rq st) = lift_response D_retry_after (rate_limited win)" by blast
    with assms show ?thesis by (simp add: rate_limited_def)
  next
    assume "fst (app_step env rq st) = fst (serve env rq (as_store st)) \<and>
            as_store (snd (app_step env rq st)) = snd (serve env rq (as_store st))"
    with assms chk show ?thesis by simp
  qed
qed


lemma strip_mount_same_last:
  "strip_mount (p @ [a]) segs \<noteq> None \<Longrightarrow> strip_mount (p @ [b]) segs \<noteq> None \<Longrightarrow> map lower_char a = map lower_char b"
proof (induction p arbitrary: segs)
  case Nil
  then obtain x xs where "segs = x # xs" by (cases segs) auto
  with Nil show ?case by (auto simp: seg_is_def split: if_splits)
next
  case (Cons q p)
  then obtain x xs where "segs = x # xs" by (cases segs) auto
  with Cons show ?case by (auto split: if_splits)
qed

lemma strip_mount_snoc_Nil [simp]: "strip_mount (p @ [x]) [] = None"
  by (cases p) simp_all

lemma match_route_length: "match_route pat segs = Some ps \<Longrightarrow> length pat = length segs"
  by (induction pat segs arbitrary: ps rule: match_route.induct) (auto split: if_splits)

lemma dispatch_None: "list_all (\<lambda>(m, p, h). length p \<noteq> length segs) rs \<Longrightarrow> dispatch rs m segs = None"
  by (induction rs m segs rule: dispatch.induct) (auto split: option.split dest: match_route_length)

lemma mount_lit_differs:
  assumes "strip_mount (p @ [b]) segs \<noteq> None" and "map lower_char a \<noteq> map lower_char b"
  shows "mount (p @ [a]) r segs = None"
  using assms strip_mount_same_last[of p a segs b] by (auto simp: mount_def split: option.split)

lemma lower_lits: "map lower_char ''auth'' \<noteq> map lower_char ''nas''" "map lower_char ''auth'' \<noteq> map lower_char ''users''"
  "map lower_char ''nas'' \<noteq> map lower_char ''users''"
  by (simp_all add: lower_char_def)

lemma api_mounts_protected:
  assumes "strip_mount (api_prefix (env_prefix env) @ [''nas'']) (rq_path rq) = Some rest \<and> rs = nas_routes env rq
         \<or> strip_mount (api_prefix (env_prefix env) @ [''users'']) (rq_path rq) = Some rest \<and> rs = user_routes env rq"
  shows "api_mounts env rq = guarded_router env rq rs rest"
  using assms
proof
  assume n: "strip_mount (api_prefix (env_prefix env) @ [''nas'']) (rq_path rq) = Some rest \<and> rs = nas_routes env rq"
  then have "mount (api_prefix (env_prefix env) @ [''auth'']) (dispatch (auth_routes env rq) (rq_method rq)) (rq_path rq) = None"
      "mount (api_prefix (env_prefix env) @ [''users'']) (guarded_router env rq (user_routes env rq)) (rq_path rq) = None"
    by (intro mount_lit_differs[of _ "''nas''"]; simp add: lower_lits)+
  with n show ?thesis by (simp add: api_mounts_def mount_def split: option.split)
next
  assume u: "strip_mount (api_prefix (env_prefix env) @ [''users'']) (rq_path rq) = Some rest \<and> rs = user_routes env rq"
  then have "mount (api_prefix (env_prefix env) @ [''auth'']) (dispatch (auth_routes env rq) (rq_method rq)) (rq_path rq) = None"
      "mount (api_prefix (env_prefix env) @ [''nas'']) (guarded_router env rq (nas_routes env rq)) (rq_path rq) = None"
    by (intro mount_lit_differs[of _ "''users''"]; simp add: lower_lits)+
  with u show ?thesis by (simp add: api_mounts_def mount_def)
qed

lemma serve_mounted:
  "rq_body rq \<noteq> None \<Longrightarrow> docs_routes env rq = None \<Longrightarrow> api_mounts env rq = Some h \<Longrightarrow> serve env rq = h"
  by (cases "rq_body rq") (simp_all add: serve_def)

text \<open>C35: a request to a route under \<open>/nas\<close> or \<open>/users\<close> that the auth guard rejects is
  answered by the guard, with 401 (no credentials) or 403 (an invalid key or token), and the
  store is not touched.\<close>

theorem guard_rejects_protected:
  assumes "rq_body rq \<noteq> None" and "docs_routes env rq = None"
      and "strip_mount (api_prefix (env_prefix env) @ [''nas'']) (rq_path rq) = Some rest
         \<or> strip_mount (api_prefix (env_prefix env) @ [''users'']) (rq_path rq) = Some rest"
      and "authenticate (env_verify env) (env_cfg env) (auth_now rq) (rq_headers rq) = Inl r"
  shows "serve env rq s = (r, s) \<and> r_status r \<in> {401, 403}"
proof -
  obtain rs where "api_mounts env rq = guarded_router env rq rs rest"
    using api_mounts_protected assms(3) by blast
  then have "api_mounts env rq = Some (answer r)" using assms(4) by (simp add: guarded_router_def)
  then show ?thesis using serve_mounted[OF assms(1,2)] authenticate_Inl[OF assms(4)] by (simp add: answer_def)
qed

theorem guard_rejects_protected_witness:
  "serve demo_env nas_list_request (empty_store id) =
     (deny 401 ''Authentication required (JWT token or API key)'', empty_store id) \<and>
   r_status (deny 401 ''Authentication required (JWT token or API key)'' :: api_response) \<in> {401, 403}"
proof -
  have d: "docs_routes demo_env nas_list_request = None"
    by (simp add: docs_routes_def nas_list_request_def seg_is_def lower_char_def)
  have m: "strip_mount (api_prefix (env_prefix demo_env) @ [''nas'']) (rq_path nas_list_request) = Some []"
    by (simp add: demo_env_def api_prefix_def js_or_def nas_list_request_def seg_is_def)
  have a: "authenticate (env_verify demo_env) (env_cfg demo_env) (auth_now nas_list_request) (rq_headers nas_list_request) =
           Inl (deny 401 ''Authentication required (JWT token or API key)'')"
    by (simp add: authenticate_def nas_list_request_def no_credentials_def)
  show ?thesis
    using guard_rejects_protected[OF _ d _ a, of "[]" "empty_store id"] m by (simp add: nas_list_request_def)
qed


lemma routes_lengths:
  "list_all (\<lambda>(m, p, h). length p \<le> 1) (nas_routes env rq)"
  "list_all (\<lambda>(m, p, h). length p \<le> 2) (user_routes env rq)"
  by (simp_all add: nas_routes_def user_routes_def Let_def)

lemma dispatch_too_long:
  assumes "list_all (\<lambda>(m, p, h). length p \<le> n) rs" and "n < length segs"
  shows "dispatch rs m segs = None"
  using assms by (intro dispatch_None) (auto simp: list_all_iff)

text \<open>C38: an authenticated request to a path under \<open>/nas\<close> or \<open>/users\<close> that no route of the
  router matches falls through to the catch-all: 404 \<open>Endpoint not found\<close>, store untouched.\<close>

theorem unknown_protected_path_404:
  assumes "rq_body rq \<noteq> None" and "docs_routes env rq = None"
      and "(authenticate (env_verify env) (env_cfg env) (auth_now rq) (rq_headers rq) :: api_data guarded) = Inr a"
      and "strip_mount (api_prefix (env_prefix env) @ [''nas'']) (rq_path rq) = Some rest \<and> 2 \<le> length rest
         \<or> strip_mount (api_prefix (env_prefix env) @ [''users'']) (rq_path rq) = Some rest \<and> 3 \<le> length rest"
  shows "serve env rq s = (not_found, s)"
proof -
  obtain rs where rs: "api_mounts env rq = guarded_router env rq rs rest" and "dispatch rs (rq_method rq) rest = None"
    using assms(4)
  proof
    assume n: "strip_mount (api_prefix (env_prefix env) @ [''nas'']) (rq_path rq) = Some rest \<and> 2 \<le> length rest"
    show ?thesis
      by (rule that[of "nas_routes env rq"]) (use n api_mounts_protected in blast, use n in \<open>intro dispatch_too_long[OF routes_lengths(1)], simp\<close>)
  next
    assume u: "strip_mount (api_prefix (env_prefix env) @ [''users'']) (rq_path rq) = Some rest \<and> 3 \<le> length rest"
    show ?thesis
      by (rule that[of "user_routes env rq"]) (use u api_mounts_protected in blast, use u in \<open>intro dispatch_too_long[OF routes_lengths(2)], simp\<close>)
  qed
  then have "api_mounts env rq = None" using assms(3) by (simp add: guarded_router_def)
  moreover have "rq_path rq \<noteq> []" using assms(4) by (cases "rq_path rq") auto
  ultimately show ?thesis using assms(1,2) by (auto simp: serve_def answer_def)
qed

theorem unknown_protected_path_404_witness:
  "serve demo_env nas_extra_request (empty_store id) = (not_found, empty_store id)"
proof -
  have d: "docs_routes demo_env nas_extra_request = None"
    by (simp add: docs_routes_def nas_extra_request_def seg_is_def lower_char_def)
  have m: "strip_mount (api_prefix (env_prefix demo_env) @ [''nas'']) (rq_path nas_extra_request) = Some [''1'', ''extra'']"
    by (simp add: demo_env_def api_prefix_def js_or_def nas_extra_request_def seg_is_def)
  have a: "authenticate (env_verify demo_env) (env_cfg demo_env) (auth_now nas_extra_request) (rq_headers nas_extra_request) =
           Inr Api_Key_Auth"
    by (simp add: authenticate_def authenticate_api_key_def valid_api_keys_def js_or_def demo_env_def demo_cfg_def
                  nas_extra_request_def api_key_headers_def js_truthy_def)
  show ?thesis
    using unknown_protected_path_404[OF _ d a, of "[''1'', ''extra'']" "empty_store id"] m
    by (simp add: nas_extra_request_def)
qed

theorem validation_before_store_witness:
  "r_data (fst (app_step demo_env bad_nas_request \<lparr>as_limiter = Map.empty, as_store = empty_store id\<rparr>)) =
     Some (D_errors bad_nas_errors) \<and>
   as_store (snd (app_step demo_env bad_nas_request \<lparr>as_limiter = Map.empty, as_store = empty_store id\<rparr>)) = empty_store id \<and>
   r_status (fst (app_step demo_env bad_nas_request \<lparr>as_limiter = Map.empty, as_store = empty_store id\<rparr>)) = 400"
proof -
  let ?st = "\<lparr>as_limiter = Map.empty, as_store = empty_store id\<rparr>"
  have d: "docs_routes demo_env bad_nas_request = None"
    by (simp add: docs_routes_def bad_nas_request_def)
  have m: "api_mounts demo_env bad_nas_request = guarded_router demo_env bad_nas_request (nas_routes demo_env bad_nas_request) []"
    by (rule api_mounts_protected)
       (simp add: demo_env_def api_prefix_def js_or_def bad_nas_request_def seg_is_def)
  have a: "authenticate (env_verify demo_env) (env_cfg demo_env) (auth_now bad_nas_request) (rq_headers bad_nas_request) =
           Inr Api_Key_Auth"
    by (simp add: authenticate_def authenticate_api_key_def valid_api_keys_def js_or_def demo_env_def demo_cfg_def
                  bad_nas_request_def api_key_headers_def js_truthy_def)
  have v: "validate demo_lib nas_create_schema (body_of bad_nas_request) = Inl bad_nas_errors"
    by (simp add: validate_def validate_object_def validate_field_def nas_create_schema_def nas_name_field_def
                  nas_ip_field_def nas_secret_field_def field_def lookup_def demo_lib_def is_alnum_def nas_types_def
                  field_error_def is_integer_def body_of_def bad_nas_request_def bad_nas_errors_def)
  have g: "guarded_router demo_env bad_nas_request (nas_routes demo_env bad_nas_request) [] =
           Some (answer (lift_response D_errors (validation_failed bad_nas_errors)))"
  proof -
    have "env_lib demo_env = demo_lib" "rq_method bad_nas_request = POST" by (simp_all add: demo_env_def bad_nas_request_def)
    then show ?thesis unfolding guarded_router_def a using v by (simp add: nas_routes_def validate_nas_create_def with_valid_def)
  qed
  have s: "serve demo_env bad_nas_request (empty_store id) =
           (lift_response D_errors (validation_failed bad_nas_errors), empty_store id)"
    using serve_mounted[OF _ d] m g by (simp add: bad_nas_request_def answer_def)
  have r: "r_data (fst (app_step demo_env bad_nas_request ?st)) = Some (D_errors bad_nas_errors)"
  proof -
    have "rq_ip bad_nas_request = ''10.0.0.9''" "rq_time bad_nas_request = 5000"
      "env_rl_window demo_env = None" "env_rl_max demo_env = None"
      by (simp_all add: bad_nas_request_def demo_env_def)
    then show ?thesis using s by (simp add: app_step_def with_limiter_def rate_limit_def rate_window_def rate_max_def parse_or_def)
  qed
  show ?thesis using validation_before_store[OF r] r by simp
qed

end
