(* ===== verification/Server_Start.thy ===== *)
theory Server_Start
  imports Api_Routes
begin

text \<open>
  The application as Express runs it and as \<open>startServers\<close> in \<open>server.js\<close> leaves it.
  Express tries the middleware and routes registered with \<open>app.use\<close>/\<open>app.get\<close> in the
  order of registration; the first that answers ends the request, the others call
  \<open>next()\<close>.  That stack is a list of layers, a layer a function from the request to an
  optional handler (\<open>None\<close>: \<open>next()\<close>), run by \<open>run_layers\<close>.  \<open>serve\<close> of \<open>Api_Routes\<close> is
  that stack (\<open>serve_layers\<close>).  \<open>startServers\<close> registers one more layer when HTTPS is
  enabled with readable certificates and \<open>REDIRECT_HTTP_TO_HTTPS\<close> is true: the redirect of
  plain-HTTP requests, added after the 404 catch-all.  The transport facts the redirect
  reads (\<open>req.secure\<close>, \<open>X-Forwarded-Proto\<close>, \<open>Host\<close>, \<open>req.originalUrl\<close>) are a
  \<open>transport\<close>.  A run of the started server is a sequence of requests with a clock that
  does not go back (\<open>server_run\<close>).
\<close>

section \<open>The middleware stack\<close>

type_synonym layer = "request \<Rightarrow> api_data handler option"

fun run_layers :: "layer list \<Rightarrow> request \<Rightarrow> api_data handler option" where
  "run_layers [] rq = None"
| "run_layers (l # ls) rq = (case l rq of Some h \<Rightarrow> Some h | None \<Rightarrow> run_layers ls rq)"

text \<open>A body that is not JSON: \<open>express.json\<close> calls \<open>next(err)\<close>, which skips every other
  layer to the error handler's \<open>entity.parse.failed\<close> branch.\<close>

definition json_error_layer :: layer where
  "json_error_layer rq = (if rq_body rq = None then Some (answer invalid_json) else None)"

definition root_layer :: layer where
  "root_layer rq = (if rq_method rq = GET \<and> rq_path rq = [] then Some (answer root_welcome) else None)"

text \<open>\<open>app.use('*', \<dots>)\<close>: every request that reaches it is answered 404.\<close>

definition catch_all :: layer where
  "catch_all rq = Some (answer not_found)"

definition app_layers :: "api_env \<Rightarrow> layer list" where
  "app_layers env = [json_error_layer, docs_routes env, api_mounts env, root_layer, catch_all]"

section \<open>\<open>startServers\<close>\<close>

text \<open>The environment \<open>startServers\<close> reads, and whether \<open>fs.readFileSync\<close> of both
  certificate files succeeds.\<close>

record start_cfg =
  sc_https_enabled :: js_str
  sc_https_port :: "int option"
  sc_cert_path :: js_str
  sc_key_path :: js_str
  sc_certs_readable :: bool
  sc_redirect :: js_str

text \<open>\<open>String(v).toLowerCase() === 'true'\<close>; \<open>String(undefined)\<close> is \<open>'undefined'\<close>.\<close>

definition env_flag :: "js_str \<Rightarrow> bool" where
  "env_flag v = (case v of None \<Rightarrow> False | Some s \<Rightarrow> map lower_char s = ''true'')"

definition https_port :: "start_cfg \<Rightarrow> int" where
  "https_port cfg = parse_or (sc_https_port cfg) 3443"

text \<open>A port in decimal, as the template literal prints it (\<open>parseInt\<close> may give a negative one).\<close>

fun dec_string :: "nat \<Rightarrow> string" where
  "dec_string n = (if n < 10 then [char_of (48 + n)] else dec_string (n div 10) @ [char_of (48 + n mod 10)])"

definition int_string :: "int \<Rightarrow> string" where
  "int_string i = (if i < 0 then CHR ''-'' # dec_string (nat (- i)) else dec_string (nat i))"

record transport =
  tr_secure :: bool
  tr_forwarded_proto :: js_str
  tr_host :: js_str
  tr_url :: string

text \<open>\<open>req.headers.host ? req.headers.host.split(':')[0] : 'localhost'\<close>.\<close>

definition redirect_host :: "js_str \<Rightarrow> string" where
  "redirect_host h = (if js_truthy h then hd (js_split CHR '':'' (the h)) else ''localhost'')"

text \<open>The redirect middleware: a secure request goes on, any other is answered 301 with
  \<open>Location: https://host:HTTPS_PORT/url\<close> (in \<open>r_message\<close>; the answer is not the JSON
  envelope).\<close>

definition redirect_layer :: "start_cfg \<Rightarrow> transport \<Rightarrow> layer" where
  "redirect_layer cfg tr rq =
     (if tr_secure tr \<or> tr_forwarded_proto tr = Some ''https'' then None
      else Some (answer \<lparr>r_status = 301, r_success = False,
        r_message = ''https://'' @ redirect_host (tr_host tr) @ '':'' @ int_string (https_port cfg) @ tr_url tr,
        r_data = None\<rparr>))"

text \<open>The redirect is registered when HTTPS is enabled, both paths are set, both files are
  read, and \<open>REDIRECT_HTTP_TO_HTTPS\<close> is true.\<close>

definition redirect_registered :: "start_cfg \<Rightarrow> bool" where
  "redirect_registered cfg \<longleftrightarrow>
     env_flag (sc_https_enabled cfg) \<and> js_truthy (sc_cert_path cfg) \<and> js_truthy (sc_key_path cfg) \<and>
     sc_certs_readable cfg \<and> env_flag (sc_redirect cfg)"

text \<open>The stack after \<open>startServers\<close>: the layers of the module, then the redirect.\<close>

definition started_layers :: "start_cfg \<Rightarrow> api_env \<Rightarrow> transport \<Rightarrow> layer list" where
  "started_layers cfg env tr = app_layers env @ (if redirect_registered cfg then [redirect_layer cfg tr] else [])"

text \<open>A request no layer answers gets Express's final handler, a 404.\<close>

definition started_serve :: "start_cfg \<Rightarrow> api_env \<Rightarrow> transport \<Rightarrow> request \<Rightarrow> api_data handler" where
  "started_serve cfg env tr rq =
     (case run_layers (started_layers cfg env tr) rq of Some h \<Rightarrow> h | None \<Rightarrow> answer not_found)"

definition started_step :: "start_cfg \<Rightarrow> api_env \<Rightarrow> transport \<Rightarrow> request \<Rightarrow> app_state \<Rightarrow> api_response \<times> app_state" where
  "started_step cfg env tr rq = with_limiter env rq (started_serve cfg env tr rq)"

section \<open>Runs of the server\<close>

text \<open>From a fresh limiter over any database, requests whose times do not decrease; the
  number is the time of the last request.\<close>

inductive server_run :: "start_cfg \<Rightarrow> api_env \<Rightarrow> nat \<Rightarrow> app_state \<Rightarrow> bool" for cfg env where
  start: "server_run cfg env 0 \<lparr>as_limiter = Map.empty, as_store = s\<rparr>"
| step: "server_run cfg env t st \<Longrightarrow> t \<le> rq_time rq \<Longrightarrow>
         server_run cfg env (rq_time rq) (snd (started_step cfg env tr rq st))"

text \<open>Every client's window ends at most one window after the last request.\<close>

definition limiter_ok :: "int \<Rightarrow> nat \<Rightarrow> limiter \<Rightarrow> bool" where
  "limiter_ok win t L \<longleftrightarrow> (\<forall>ip. case L ip of None \<Rightarrow> True | Some (h, rs) \<Rightarrow> rs \<le> int t + win)"

text \<open>Examples: a plain-HTTP request for \<open>GET /\<close> on a server started with the redirect.\<close>

definition redirect_cfg :: start_cfg where
  "redirect_cfg = \<lparr>sc_https_enabled = Some ''true'', sc_https_port = None, sc_cert_path = Some ''/etc/ssl/api.crt'',
     sc_key_path = Some ''/etc/ssl/api.key'', sc_certs_readable = True, sc_redirect = Some ''true''\<rparr>"

definition plain_http :: transport where
  "plain_http = \<lparr>tr_secure = False, tr_forwarded_proto = None, tr_host = Some ''api.example.org:3000'', tr_url = ''/''\<rparr>"

definition root_request :: request where
  "root_request = \<lparr>rq_method = GET, rq_path = [], rq_ip = ''10.0.0.9'', rq_time = 900000,
     rq_headers = no_credentials, rq_query = [], rq_body = Some []\<rparr>"

section \<open>Lemmas\<close>

lemma run_layers_append:
  "run_layers ls rq = Some h \<Longrightarrow> run_layers (ls @ ls') rq = Some h"
  by (induction ls) (auto split: option.splits)

lemma serve_layers: "run_layers (app_layers env) rq = Some (serve env rq)"
  by (cases "rq_body rq")
     (simp_all add: app_layers_def serve_def json_error_layer_def root_layer_def catch_all_def split: option.split)

lemma started_serve_eq: "started_serve cfg env tr rq = serve env rq"
  using run_layers_append[OF serve_layers] by (simp add: started_serve_def started_layers_def)

lemma limiter_ok_start [simp]: "limiter_ok win 0 Map.empty"
  by (simp add: limiter_ok_def)

lemma limiter_ok_rate_limit:
  assumes "limiter_ok win t L" and "t \<le> t'"
  shows "limiter_ok win t' (snd (rate_limit win mx t' ip L))"
  unfolding limiter_ok_def
proof
  fix ip'
  show "case snd (rate_limit win mx t' ip L) ip' of None \<Rightarrow> True | Some (h, rs) \<Rightarrow> rs \<le> int t' + win"
  proof (cases "ip' = ip")
    case True
    have "case L ip of None \<Rightarrow> True | Some (h, rs) \<Rightarrow> rs \<le> int t' + win"
      using assms unfolding limiter_ok_def by (auto split: option.splits dest: spec[of _ ip])
    from rate_limit_reset_bound[where L = L and ip = ip and t = t' and win = win and mx = mx, OF this] True show ?thesis by (auto split: option.splits)
  next
    case False
    then have "snd (rate_limit win mx t' ip L) ip' = L ip'" by (simp add: rate_limit_def case_prod_beta)
    then show ?thesis using assms unfolding limiter_ok_def by (auto split: option.splits dest: spec[of _ ip'])
  qed
qed

lemma with_limiter_limiter:
  "as_limiter (snd (with_limiter env rq h st)) =
   snd (rate_limit (rate_window (env_rl_window env)) (rate_max (env_rl_max env)) (rq_time rq) (rq_ip rq) (as_limiter st))"
  by (simp add: with_limiter_def Let_def case_prod_beta)

lemma with_limiter_pass:
  assumes "fst (rate_limit (rate_window (env_rl_window env)) (rate_max (env_rl_max env)) (rq_time rq) (rq_ip rq) (as_limiter st))"
  shows "fst (with_limiter env rq h st) = fst (h (as_store st)) \<and> as_store (snd (with_limiter env rq h st)) = snd (h (as_store st))"
  using assms by (simp add: with_limiter_def Let_def case_prod_beta)

lemma server_run_limiter:
  "server_run cfg env t st \<Longrightarrow> limiter_ok (rate_window (env_rl_window env)) t (as_limiter st)"
proof (induction rule: server_run.induct)
  case (step t st rq tr)
  then show ?case by (simp add: started_step_def with_limiter_limiter limiter_ok_rate_limit)
qed simp

text \<open>The redirect layer on its own would answer a plain-HTTP request, and the example
  configuration registers it.\<close>

lemma redirect_layer_live:
  "redirect_registered redirect_cfg \<and> redirect_layer redirect_cfg plain_http root_request \<noteq> None"
  by (simp add: redirect_registered_def redirect_cfg_def env_flag_def lower_char_def js_truthy_def
                redirect_layer_def plain_http_def)

text \<open>C31: the HTTP-to-HTTPS redirect never takes effect: whatever the start configuration
  (HTTPS enabled, certificates readable, \<open>REDIRECT_HTTP_TO_HTTPS=true\<close>) and however the
  request arrived, the started server answers and changes its state exactly as the stack
  without the redirect, because the redirect is registered after the 404 catch-all.\<close>

theorem redirect_never_reached:
  "started_step cfg env tr rq st = app_step env rq st"
  by (simp add: started_step_def app_step_def started_serve_eq)

text \<open>
  C11: a ceiling below one locks every client out: \<open>RATE_LIMIT_MAX_REQUESTS\<close> set to
  a negative number (\<open>parseInt('-1')\<close> is \<open>-1\<close>, which \<open>|| 100\<close> keeps) makes the
  started server answer every request 429, whatever its state, without touching the
  database.
\<close>

theorem nonpositive_max_locks_out:
  assumes "rate_max (env_rl_max env) < 1"
  shows "fst (started_step cfg env tr rq st) = lift_response D_retry_after (rate_limited (rate_window (env_rl_window env))) \<and>
         as_store (snd (started_step cfg env tr rq st)) = as_store st"
  using rate_limit_refuses [OF assms]
  by (simp add: started_step_def with_limiter_def Let_def case_prod_beta)

theorem nonpositive_max_locks_out_witness:
  "rate_max (env_rl_max (demo_env\<lparr>env_rl_max := Some (- 1)\<rparr>)) < 1 \<and>
   fst (started_step redirect_cfg (demo_env\<lparr>env_rl_max := Some (- 1)\<rparr>) plain_http root_request
          \<lparr>as_limiter = Map.empty, as_store = empty_store id\<rparr>) =
     lift_response D_retry_after (rate_limited 900000) \<and>
   as_store (snd (started_step redirect_cfg (demo_env\<lparr>env_rl_max := Some (- 1)\<rparr>) plain_http root_request
          \<lparr>as_limiter = Map.empty, as_store = empty_store id\<rparr>)) = empty_store id"
proof -
  have m: "rate_max (env_rl_max (demo_env\<lparr>env_rl_max := Some (- 1)\<rparr>)) < 1"
    by (simp add: rate_max_def parse_or_def)
  have w: "rate_window (env_rl_window (demo_env\<lparr>env_rl_max := Some (- 1)\<rparr>)) = 900000"
    by (simp add: rate_window_def parse_or_def demo_env_def)
  show ?thesis
    using nonpositive_max_locks_out [OF m, of redirect_cfg plain_http root_request
            "\<lparr>as_limiter = Map.empty, as_store = empty_store id\<rparr>"] m w
    by simp
qed

text \<open>
  C12: on every run of the server whose ceiling is at least one request (the variable
  unset, \<open>0\<close>, not a number or positive), a request that comes one window or more after
  the last request passes the rate limiter, whoever sent the earlier requests: it is
  answered by the routes, with their effect on the database.
\<close>

theorem server_serves_after_window:
  assumes "server_run cfg env t st" and "1 \<le> rate_max (env_rl_max env)"
    and "int t + rate_window (env_rl_window env) \<le> int (rq_time rq)"
  shows "fst (started_step cfg env tr rq st) = fst (serve env rq (as_store st)) \<and>
         as_store (snd (started_step cfg env tr rq st)) = snd (serve env rq (as_store st))"
proof -
  let ?win = "rate_window (env_rl_window env)"
  have "limiter_ok ?win t (as_limiter st)" by (rule server_run_limiter[OF assms(1)])
  then have "case as_limiter st (rq_ip rq) of None \<Rightarrow> True | Some (h, rs) \<Rightarrow> rs \<le> int (rq_time rq)"
    using assms(3) unfolding limiter_ok_def by (auto split: option.splits dest: spec[of _ "rq_ip rq"])
  then have "fst (rate_limit ?win (rate_max (env_rl_max env)) (rq_time rq) (rq_ip rq) (as_limiter st))"
    using assms(2) by (simp add: rate_limit_fresh)
  from with_limiter_pass[OF this, of "serve env rq"] show ?thesis
    by (simp add: started_step_def started_serve_eq)
qed

theorem server_serves_after_window_witness:
  "fst (started_step redirect_cfg demo_env plain_http root_request \<lparr>as_limiter = Map.empty, as_store = empty_store id\<rparr>) =
     root_welcome \<and>
   as_store (snd (started_step redirect_cfg demo_env plain_http root_request
     \<lparr>as_limiter = Map.empty, as_store = empty_store id\<rparr>)) = empty_store id"
proof -
  have r: "server_run redirect_cfg demo_env 0 \<lparr>as_limiter = Map.empty, as_store = empty_store id\<rparr>"
    by (rule server_run.start)
  have m: "1 \<le> rate_max (env_rl_max demo_env)"
    by (simp add: demo_env_def rate_max_def parse_or_def)
  have le: "int 0 + rate_window (env_rl_window demo_env) \<le> int (rq_time root_request)"
    by (simp add: demo_env_def rate_window_def parse_or_def root_request_def)
  have s: "serve demo_env root_request (empty_store id) = (root_welcome, empty_store id)"
    by (simp add: serve_def docs_routes_def api_mounts_def mount_def answer_def root_request_def)
  show ?thesis using server_serves_after_window[OF r m le, of plain_http] s by simp
qed

end
