(* ===== verification/Spec2Isabelle.thy ===== *)
theory Spec2Isabelle
  imports Server_Start
begin

text \<open>
  \<^bold>\<open>A verification development of the FreeRADIUS REST API\<close> (\<open>src/freeradius-api\<close>).

  \<^bold>\<open>The program.\<close>  An Express server (\<open>server.js\<close>) mounts three routers under
  \<open>API_PREFIX\<close> (default \<open>/api/v1\<close>): \<open>/auth\<close>, \<open>/nas\<close> and \<open>/users\<close>
  (\<open>src/routes/\<close>).  A request passes the rate limiter, the JSON body parser, the
  documentation routes, then a router: the \<open>/nas\<close> and \<open>/users\<close> routers run the auth
  guard (\<open>src/middleware/auth.js\<close>) on every request, then per route the Joi validators
  (\<open>src/middleware/validation.js\<close>) and a controller method
  (\<open>src/controllers/\<close>), which calls the repositories (\<open>src/models/UserModel.js\<close>,
  \<open>src/models/NasModel.js\<close>) that issue SQL through \<open>config/database.js\<close> against the
  FreeRADIUS tables \<open>nas\<close>, \<open>radcheck\<close> and \<open>radreply\<close>.  Unmatched requests get the
  404 catch-all.

  \<^bold>\<open>The theories\<close>, bottom up.
  \<^item> \<open>Radius_Prelude\<close>: JavaScript conventions (\<open>js_truthy\<close>, \<open>js_or\<close>, \<open>js_default\<close>,
    \<open>js_split\<close>, \<open>js_index\<close>), SQL string equality and \<open>LIKE\<close> under a collation
    (\<open>sql_eq\<close>, \<open>sql_like\<close>), \<open>SELECT DISTINCT\<close> (\<open>remdups_key\<close>), the response envelope
    \<open>{success, message, data}\<close> (\<open>response\<close>, \<open>deny\<close>, \<open>reply\<close>, \<open>ack\<close>).
  \<^item> \<open>Radius_Store\<close>: the SQL access layer.  \<open>database.js\<close> is not in the repository and
    is modelled from the spec and its call sites: a store of committed tables and a
    transaction's working copy, the statement monad \<open>'a sql\<close> (state passing with an
    error sum), pooled statements (\<open>pool_exec\<close>, \<open>pool_query\<close>), statements on the
    transaction's connection (\<open>conn_exec\<close>, \<open>conn_query\<close>), \<open>transaction\<close> with rollback
    that keeps auto-increment counters, and the driver's refusal of \<open>undefined\<close> bind
    parameters (\<open>bind_params\<close>).  A statement text the model does not parse (a table
    name spliced into the SQL that is not \<open>radcheck\<close> or \<open>radreply\<close>) goes to the
    server's parser, a field of the store (\<open>engine\<close>, \<open>pool_exec_text\<close>).  Lemma groups:
    properties kept by a computation (\<open>sql_inv\<close>); \<open>conn_only\<close>, \<open>sql_atomic\<close>,
    \<open>sql_pure\<close> and \<open>sql_post\<close> with introduction rules, so that atomicity and
    postconditions of a handler follow from its shape.
  \<^item> \<open>User_Model\<close>, \<open>User_Search\<close>: every method of \<open>UserModel\<close>, one definition each
    (\<open>user_create\<close>, \<open>user_update\<close>, \<open>user_delete\<close>, \<open>user_get_all\<close>, \<open>user_search\<close>,
    \<dots>).  Claims C1--C10 (create/get round trip, healing update, the update's stale
    re-read, atomicity of the two-table writes, the consistency invariant of the user
    tables and its violation by \<open>addAttribute\<close> and \<open>removeAttribute\<close>, the spliced
    table name of \<open>removeAttribute\<close>) and C19--C20 (search equals filtered listing for
    literal terms; unescaped wildcards).
  \<^item> \<open>Http_Handler\<close>: a handler maps the store to a response and the new store; the
    \<open>try/catch\<close> of every controller is \<open>catch_500\<close>; \<open>envelope_ok\<close>.
  \<^item> \<open>User_Controller\<close>: the ten handlers of \<open>userController.js\<close>; the attribute
    \<open>table\<close> is the body's JSON value, defaulted only when absent.  Claims C21--C24.
  \<^item> \<open>Nas_Model\<close>: every method of \<open>NasModel\<close>; refinement of an abstract finite map
    from ids to fields (\<open>nas_abs\<close>), claim C25.
  \<^item> \<open>Nas_Controller\<close>: the six handlers of \<open>nasController.js\<close>; the uniqueness of names
    and addresses as an invariant.  Claims C26--C29.
  \<^item> \<open>Auth_Guard\<close>: the five middlewares of \<open>auth.js\<close> and \<open>login\<close>/\<open>verifyToken\<close> of
    \<open>authController.js\<close>.  \<open>jwt.sign\<close>/\<open>jwt.verify\<close> are parameters.  Claims C13--C18.
  \<^item> \<open>Validation\<close>: the \<open>validate\<close> middleware and the eight schemas as data, checked
    by an interpreter of the Joi features they use; Joi's IP syntax and numeric string
    conversion are parameters (\<open>joi_lib\<close>).  Claims C30, C32--C34.
  \<^item> \<open>Rate_Limit\<close>: the \<open>express-rate-limit\<close> window per client configured in
    \<open>server.js\<close>; window and ceiling are \<open>parseInt\<close>'s signed integers.  Claims C39
    (bound per window) and C40 (a client is served again).
  \<^item> \<open>Api_Routes\<close>: the three routers as route lists in registration order
    (\<open>auth_routes\<close>, \<open>nas_routes\<close>, \<open>user_routes\<close>), \<open>router.use(authenticate)\<close>
    (\<open>guarded_router\<close>), the application \<open>serve\<close> and one server step with the limiter
    \<open>app_step\<close>; the documentation routes answer documents, not envelopes
    (\<open>document\<close>).  The properties that span components: C35 (guard before every
    protected route), C36 (every answer a document for a documentation request or a
    consistent envelope), C37 (validation
    before any statement), C38 (fall-through to the catch-all).  The eight exported
    validators (\<open>validateNasCreate\<close>, \<dots>) are \<open>validate_nas_create\<close>, \<dots>; the limiter in
    front of the application is \<open>with_limiter\<close>.
  \<^item> \<open>Server_Start\<close>: Express's middleware stack as a first-match list of layers
    (\<open>run_layers\<close>, \<open>app_layers\<close>; \<open>serve_layers\<close> shows \<open>serve\<close> is that stack),
    \<open>startServers\<close> with its HTTPS configuration and the HTTP-to-HTTPS redirect it registers
    last (\<open>started_layers\<close>, \<open>started_step\<close>), and runs of the started server as an
    inductive predicate over requests in time order (\<open>server_run\<close>) with the limiter's
    invariant proved by rule induction.  Claims C31 (the redirect is never reached), C11 (a
    negative \<open>RATE_LIMIT_MAX_REQUESTS\<close> answers every request 429) and C12 (on every run
    with a ceiling of at least one, a request one window after the last one passes the
    limiter).

  \<^bold>\<open>Modelling choices.\<close>  Every definition is total and executable; there are no
  loops that may diverge, so no fuel is needed (the source's only iterations are
  \<open>map\<close>, \<open>filter\<close> and \<open>split\<close>, structural recursion here; the one other recursion,
  \<open>dec_string\<close>, terminates on \<open>n div 10 < n\<close>).  Store failures are explicit: the store's
  fault budget (\<open>None\<close>: never fails; \<open>Some n\<close>: the next \<open>n\<close> statements succeed, then
  every statement fails), which lets the atomicity claims quantify over every failing
  statement.  Strings are compared through a collation key function (identity for a
  binary collation, case folding for MySQL's default).  Times are natural numbers
  (milliseconds for requests and the limiter, seconds for tokens).  Request bodies are
  parsed JSON objects (\<open>jval\<close>); the attribute fields \<open>attribute\<close>, \<open>op\<close> and \<open>value\<close>,
  which a handler reads without validation, are taken when they are strings (another
  JSON value is treated as \<open>undefined\<close>).

  \<^bold>\<open>Not modelled.\<close>  \<open>database.js\<close> beyond the behaviour described above (it is not in the
  repository); helmet and CORS headers, request logging, the 413 body-size limit, the
  TLS handshake and \<open>listen\<close>, and the \<open>SIGTERM\<close>/\<open>SIGINT\<close> handlers that close the pool and
  exit in \<open>server.js\<close> (library configuration and process I/O); the
  contents of the documentation pages, of \<open>getApiInfo\<close> and of the health reports
  (\<open>D_static\<close>); \<open>src/config/swagger.js\<close>, which only reads
  \<open>swagger.json\<close> and exports swagger-ui options and an HTML page (documentation hosting, no
  behaviour of the API; the routes that serve it are \<open>docs_routes\<close>).
\<close>

end
